theory Spec2Isabelle
  imports Main "HOL-Library.Sublist"
begin

section \<open>Shared vocabulary: errors, responses\<close>

text \<open>
  Go errors are values. \<open>Errorf\<close> stands for \<^verbatim>\<open>fmt.Errorf(format, args...)\<close>: the format
  string of the source, the string and integer arguments in order, and the wrapped error
  when the last verb prints one. \<open>DetailedError\<close> stands for
  \<^verbatim>\<open>autorest.NewErrorWithError(original, packageType, method, resp, message)\<close>, and
  \<open>ImportAsExistsError\<close> for \<^verbatim>\<open>tf.ImportAsExistsError(resourceName, id)\<close>.
  \<open>Failure\<close> is an error produced by a collaborator outside the repository. \<open>Panic\<close> is
  not an error a handler returns: it stands for a run-time panic, which ends the handler
  without a return value.
\<close>

record http_response =
  StatusCode :: nat
  ResponseBody :: string

datatype arg = S string | N int

datatype error =
    Failure string
  | Errorf string "arg list" "error option"
  | DetailedError error string string "http_response option" string
  | ImportAsExistsError string string
  | Panic string

text \<open>
  Modelled from the spec: \<^verbatim>\<open>utils.ResponseWasNotFound\<close> and \<^verbatim>\<open>response.WasNotFound\<close>
  (packages \<^verbatim>\<open>utils\<close> and \<^verbatim>\<open>go-azure-helpers/response\<close> are not among the sources) classify
  a response as "not found". An \<^verbatim>\<open>autorest.Response\<close> wraps a possibly nil
  \<^verbatim>\<open>*http.Response\<close>; a nil response is never "not found", and a response is "not found"
  when its status code is 404.
\<close>

definition ResponseWasNotFound :: "http_response option \<Rightarrow> bool" where
  "ResponseWasNotFound resp =
     (case resp of None \<Rightarrow> False | Some r \<Rightarrow> StatusCode r = 404)"

section \<open>Terraform resource data and the trace of client calls\<close>

text \<open>
  \<^verbatim>\<open>schema.ResourceData\<close> belongs to the plugin SDK. The handlers use its resource ID, the
  new-resource flag, the attribute values (\<^verbatim>\<open>d.Get\<close> reads them, \<^verbatim>\<open>d.Set\<close> writes them) and
  the values of the prior state (\<^verbatim>\<open>d.GetChange\<close>, \<^verbatim>\<open>d.HasChange\<close>). The schema fixes the type
  of every attribute, so the type assertions \<^verbatim>\<open>d.Get(k).(string)\<close> of the handlers hold; an
  attribute that is not set reads as the zero value of its type.
\<close>

datatype tfvalue =
    VNil
  | VString string
  | VInt int
  | VBool bool
  | VList "tfvalue list"
  | VMap "(string \<times> tfvalue) list"

record ResourceData =
  Id :: string
  IsNewResource :: bool
  attrs :: "string \<rightharpoonup> tfvalue"
  prior :: "string \<rightharpoonup> tfvalue"

definition Get_string :: "ResourceData \<Rightarrow> string \<Rightarrow> string" where
  "Get_string d k = (case attrs d k of Some (VString s) \<Rightarrow> s | _ \<Rightarrow> [])"

definition Get_int :: "ResourceData \<Rightarrow> string \<Rightarrow> int" where
  "Get_int d k = (case attrs d k of Some (VInt i) \<Rightarrow> i | _ \<Rightarrow> 0)"

definition Get_list :: "ResourceData \<Rightarrow> string \<Rightarrow> tfvalue list" where
  "Get_list d k = (case attrs d k of Some (VList xs) \<Rightarrow> xs | _ \<Rightarrow> [])"

fun is_zero :: "tfvalue \<Rightarrow> bool" where
  "is_zero VNil = True"
| "is_zero (VString s) = (s = [])"
| "is_zero (VInt i) = (i = 0)"
| "is_zero (VBool b) = (\<not> b)"
| "is_zero (VList xs) = (xs = [])"
| "is_zero (VMap kvs) = (kvs = [])"

text \<open>\<^verbatim>\<open>d.GetOk(k)\<close>: the value, and whether it is set to something other than the zero value.\<close>

definition GetOk :: "ResourceData \<Rightarrow> string \<Rightarrow> tfvalue \<times> bool" where
  "GetOk d k = (case attrs d k of None \<Rightarrow> (VNil, False) | Some v \<Rightarrow> (v, \<not> is_zero v))"

definition HasChange :: "ResourceData \<Rightarrow> string \<Rightarrow> bool" where
  "HasChange d k = (prior d k \<noteq> attrs d k)"

definition GetChange :: "ResourceData \<Rightarrow> string \<Rightarrow> tfvalue option \<times> tfvalue option" where
  "GetChange d k = (prior d k, attrs d k)"

text \<open>A \<^verbatim>\<open>*string\<close> handed to \<^verbatim>\<open>d.Set\<close>.\<close>

definition VStringPtr :: "string option \<Rightarrow> tfvalue" where
  "VStringPtr p = (case p of None \<Rightarrow> VNil | Some s \<Rightarrow> VString s)"

text \<open>
  A long-running operation as the handler sees it: \<^verbatim>\<open>future.Response()\<close> before waiting,
  the result of \<^verbatim>\<open>future.WaitForCompletionRef\<close>, and \<^verbatim>\<open>future.Response()\<close> after waiting.
\<close>

record future =
  Response_before :: "http_response option"
  WaitForCompletionRef :: "error option"
  Response_after :: "http_response option"

text \<open>
  What a handler does to the outside world, in order. \<open>Called\<close> is a client call that
  returns its result directly, \<open>Began\<close> a client call that returns a future (with the error
  it returned: the operation is running only when that error is nil), \<open>Waited\<close> a
  \<^verbatim>\<open>WaitForCompletionRef\<close> on the future of that call and its result. Each carries the
  client method, and the calls the string arguments passed to it.
\<close>

datatype event =
    Called string "string list"
  | Began string "string list" "error option"
  | Waited string "error option"

record run =
  rd :: ResourceData
  trace :: "event list"

definition emit :: "event \<Rightarrow> run \<Rightarrow> run" where
  "emit e r = r\<lparr>trace := trace r @ [e]\<rparr>"

definition SetId :: "string \<Rightarrow> run \<Rightarrow> run" where
  "SetId v r = r\<lparr>rd := (rd r)\<lparr>Id := v\<rparr>\<rparr>"

definition d_Set :: "string \<Rightarrow> tfvalue \<Rightarrow> run \<Rightarrow> run" where
  "d_Set k v r = r\<lparr>rd := (rd r)\<lparr>attrs := (attrs (rd r))(k \<mapsto> v)\<rparr>\<rparr>"

text \<open>
  The operations a trace has begun and not seen through: a \<open>Began\<close> whose call succeeded
  and that no later \<open>Waited\<close> of the same method reports as complete (\<open>pending\<close>), or that
  no later \<open>Waited\<close> mentions at all (\<open>unawaited\<close>).
\<close>

fun pending :: "event list \<Rightarrow> string list" where
  "pending [] = []"
| "pending (Began m as None # tr) =
     (if Waited m None \<in> set tr then pending tr else m # pending tr)"
| "pending (_ # tr) = pending tr"

fun waited_methods :: "event list \<Rightarrow> string list" where
  "waited_methods [] = []"
| "waited_methods (Waited m res # tr) = m # waited_methods tr"
| "waited_methods (_ # tr) = waited_methods tr"

fun unawaited :: "event list \<Rightarrow> string list" where
  "unawaited [] = []"
| "unawaited (Began m as None # tr) =
     (if m \<in> set (waited_methods tr) then unawaited tr else m # unawaited tr)"
| "unawaited (_ # tr) = unawaited tr"

section \<open>Spring Cloud App\<close>

record AppResource =
  app_Response :: "http_response option"
  app_ID :: "string option"
  app_Name :: "string option"

record SpringCloudAppId =
  sca_ResourceGroup :: string
  sca_ServiceName :: string
  sca_Name :: string

text \<open>
  The collaborators of the three handlers: the ID parser \<^verbatim>\<open>parse.SpringCloudAppID\<close> (not
  among the sources, hence a parameter) and what each call on \<^verbatim>\<open>AppsClient\<close> returns, one
  field per call site, named after the variable that receives the result.
\<close>

record spring_meta =
  SpringCloudAppID :: "string \<Rightarrow> error + SpringCloudAppId"
  sc_existing :: "AppResource \<times> error option"
  sc_future :: "future \<times> error option"
  sc_resp :: "AppResource \<times> error option"
  sr_resp :: "AppResource \<times> error option"
  sd_err :: "error option"

definition resourceArmSpringCloudAppRead :: "spring_meta \<Rightarrow> run \<Rightarrow> run \<times> error option" where
  "resourceArmSpringCloudAppRead meta r =
     (case SpringCloudAppID meta (Id (rd r)) of
        Inl err \<Rightarrow> (r, Some err)
      | Inr rid \<Rightarrow>
          (let r = emit (Called ''AppsClient.Get''
                     [sca_ResourceGroup rid, sca_ServiceName rid, sca_Name rid, []]) r;
               resp = fst (sr_resp meta)
           in case snd (sr_resp meta) of
                Some err \<Rightarrow>
                  if ResponseWasNotFound (app_Response resp) then (SetId [] r, None)
                  else (r, Some (Errorf
                    ''reading Spring Cloud App %q (Spring Cloud Service %q / Resource Group %q): %+v''
                    [S (sca_Name rid), S (sca_ServiceName rid), S (sca_ResourceGroup rid)] (Some err)))
              | None \<Rightarrow>
                  (let r = d_Set ''name'' (VStringPtr (app_Name resp)) r;
                       r = d_Set ''resource_group_name'' (VString (sca_ResourceGroup rid)) r;
                       r = d_Set ''service_name'' (VString (sca_ServiceName rid)) r
                   in (r, None))))"

definition resourceArmSpringCloudAppCreate :: "spring_meta \<Rightarrow> run \<Rightarrow> run \<times> error option" where
  "resourceArmSpringCloudAppCreate meta r =
     (let name = Get_string (rd r) ''name'';
          resourceGroup = Get_string (rd r) ''resource_group_name'';
          serviceName = Get_string (rd r) ''service_name'';
          r = emit (Called ''AppsClient.Get'' [resourceGroup, serviceName, name, []]) r;
          existing = fst (sc_existing meta)
      in if snd (sc_existing meta) \<noteq> None \<and> \<not> ResponseWasNotFound (app_Response existing) then
           (r, Some (Errorf
             ''checking for presence of existing Spring Cloud App %q (Spring Cloud Service %q / Resource Group %q): %+v''
             [S name, S serviceName, S resourceGroup] (snd (sc_existing meta))))
         else if app_ID existing \<noteq> None \<and> app_ID existing \<noteq> Some [] then
           (r, Some (ImportAsExistsError ''azurerm_spring_cloud_app'' (the (app_ID existing))))
         else
           (let r = emit (Began ''AppsClient.CreateOrUpdate'' [resourceGroup, serviceName, name]
                      (snd (sc_future meta))) r;
                future = fst (sc_future meta)
            in case snd (sc_future meta) of
                 Some err \<Rightarrow> (r, Some (Errorf
                   ''creating Spring Cloud App %q (Spring Cloud Service %q / Resource Group %q): %+v''
                   [S name, S serviceName, S resourceGroup] (Some err)))
               | None \<Rightarrow>
                   (let r = emit (Waited ''AppsClient.CreateOrUpdate'' (WaitForCompletionRef future)) r
                    in case WaitForCompletionRef future of
                         Some err \<Rightarrow> (r, Some (Errorf
                           ''waiting for creation of Spring Cloud App %q (Spring Cloud Service %q / Resource Group %q): %+v''
                           [S name, S serviceName, S resourceGroup] (Some err)))
                       | None \<Rightarrow>
                           (let r = emit (Called ''AppsClient.Get''
                                      [resourceGroup, serviceName, name, []]) r;
                                resp = fst (sc_resp meta)
                            in case snd (sc_resp meta) of
                                 Some err \<Rightarrow> (r, Some (Errorf
                                   ''retrieving Spring Cloud App %q (Spring Cloud Service %q / Resource Group %q): %+v''
                                   [S name, S serviceName, S resourceGroup] (Some err)))
                               | None \<Rightarrow>
                                   (case app_ID resp of
                                      None \<Rightarrow> (r, Some (Errorf
                                        ''read Spring Cloud App %q (Spring Cloud Service %q / Resource Group %q) ID''
                                        [S name, S serviceName, S resourceGroup] None))
                                    | Some i \<Rightarrow>
                                        if i = [] then (r, Some (Errorf
                                          ''read Spring Cloud App %q (Spring Cloud Service %q / Resource Group %q) ID''
                                          [S name, S serviceName, S resourceGroup] None))
                                        else resourceArmSpringCloudAppRead meta (SetId i r))))))"

text \<open>
  \<^verbatim>\<open>AppsClient.Delete\<close> of the 2019-05-01-preview SDK returns its response directly; the
  handler discards it and keeps the error only.
\<close>

definition resourceArmSpringCloudAppDelete :: "spring_meta \<Rightarrow> run \<Rightarrow> run \<times> error option" where
  "resourceArmSpringCloudAppDelete meta r =
     (case SpringCloudAppID meta (Id (rd r)) of
        Inl err \<Rightarrow> (r, Some err)
      | Inr rid \<Rightarrow>
          (let r = emit (Called ''AppsClient.Delete''
                     [sca_ResourceGroup rid, sca_ServiceName rid, sca_Name rid]) r
           in case sd_err meta of
                Some err \<Rightarrow> (r, Some (Errorf
                  ''deleting Spring Cloud App %q (Spring Cloud Service %q / Resource Group %q): %+v''
                  [S (sca_Name rid), S (sca_ServiceName rid), S (sca_ResourceGroup rid)] (Some err)))
              | None \<Rightarrow> (r, None)))"

section \<open>EventGrid Domain Topic\<close>

record DomainTopic =
  dt_Response :: "http_response option"
  dt_ID :: "string option"
  dt_Name :: "string option"

record EventGridDomainTopicId =
  egt_ResourceGroup :: string
  egt_Domain :: string
  egt_Name :: string

text \<open>
  The collaborators: \<^verbatim>\<open>features.ShouldResourcesBeImported()\<close> and
  \<^verbatim>\<open>parse.EventGridDomainTopicID\<close> (neither among the sources, hence parameters), and what
  each call on \<^verbatim>\<open>DomainTopicsClient\<close> returns.
\<close>

record eventgrid_meta =
  eg_ShouldResourcesBeImported :: bool
  EventGridDomainTopicID :: "string \<Rightarrow> error + EventGridDomainTopicId"
  ec_existing :: "DomainTopic \<times> error option"
  ec_future :: "future \<times> error option"
  ec_read :: "DomainTopic \<times> error option"
  er_resp :: "DomainTopic \<times> error option"
  ed_future :: "future \<times> error option"

definition resourceArmEventGridDomainTopicRead ::
    "eventgrid_meta \<Rightarrow> run \<Rightarrow> run \<times> error option" where
  "resourceArmEventGridDomainTopicRead meta r =
     (case EventGridDomainTopicID meta (Id (rd r)) of
        Inl err \<Rightarrow> (r, Some err)
      | Inr rid \<Rightarrow>
          (let r = emit (Called ''DomainTopicsClient.Get''
                     [egt_ResourceGroup rid, egt_Domain rid, egt_Name rid]) r;
               resp = fst (er_resp meta)
           in case snd (er_resp meta) of
                Some err \<Rightarrow>
                  if ResponseWasNotFound (dt_Response resp) then (SetId [] r, None)
                  else (r, Some (Errorf
                    ''Error making Read request on EventGrid Domain Topic %q: %+v''
                    [S (egt_Name rid)] (Some err)))
              | None \<Rightarrow>
                  (let r = d_Set ''name'' (VStringPtr (dt_Name resp)) r;
                       r = d_Set ''domain_name'' (VString (egt_Domain rid)) r;
                       r = d_Set ''resource_group_name'' (VString (egt_ResourceGroup rid)) r
                   in (r, None))))"

text \<open>
  The part of the create handler after the existence check: create, wait, read back,
  set the ID, run the read handler.
\<close>

definition eventgrid_create_rest ::
    "eventgrid_meta \<Rightarrow> string \<Rightarrow> string \<Rightarrow> string \<Rightarrow> run \<Rightarrow> run \<times> error option" where
  "eventgrid_create_rest meta name domainName resourceGroup r =
     (let r = emit (Began ''DomainTopicsClient.CreateOrUpdate'' [resourceGroup, domainName, name]
                (snd (ec_future meta))) r;
          future = fst (ec_future meta)
      in case snd (ec_future meta) of
           Some err \<Rightarrow> (r, Some (Errorf
             ''Error creating/updating EventGrid Domain Topic %q (Resource Group %q): %s''
             [S name, S resourceGroup] (Some err)))
         | None \<Rightarrow>
             (let r = emit (Waited ''DomainTopicsClient.CreateOrUpdate''
                        (WaitForCompletionRef future)) r
              in case WaitForCompletionRef future of
                   Some err \<Rightarrow> (r, Some (Errorf
                     ''Error waiting for EventGrid Domain Topic %q (Resource Group %q) to become available: %s''
                     [S name, S resourceGroup] (Some err)))
                 | None \<Rightarrow>
                     (let r = emit (Called ''DomainTopicsClient.Get''
                                [resourceGroup, domainName, name]) r;
                          read = fst (ec_read meta)
                      in case snd (ec_read meta) of
                           Some err \<Rightarrow> (r, Some (Errorf
                             ''Error retrieving EventGrid Domain Topic %q (Resource Group %q): %s''
                             [S name, S resourceGroup] (Some err)))
                         | None \<Rightarrow>
                             (case dt_ID read of
                                None \<Rightarrow> (r, Some (Errorf
                                  ''Cannot read EventGrid Domain Topic %q (resource group %s) ID''
                                  [S name, S resourceGroup] None))
                              | Some i \<Rightarrow>
                                  resourceArmEventGridDomainTopicRead meta (SetId i r)))))"

definition resourceArmEventGridDomainTopicCreate ::
    "eventgrid_meta \<Rightarrow> run \<Rightarrow> run \<times> error option" where
  "resourceArmEventGridDomainTopicCreate meta r =
     (let name = Get_string (rd r) ''name'';
          domainName = Get_string (rd r) ''domain_name'';
          resourceGroup = Get_string (rd r) ''resource_group_name''
      in if eg_ShouldResourcesBeImported meta \<and> IsNewResource (rd r) then
           (let r = emit (Called ''DomainTopicsClient.Get'' [resourceGroup, domainName, name]) r;
                existing = fst (ec_existing meta)
            in if snd (ec_existing meta) \<noteq> None \<and> \<not> ResponseWasNotFound (dt_Response existing) then
                 (r, Some (Errorf
                   ''Error checking for presence of existing EventGrid Domain Topic %q (Resource Group %q): %s''
                   [S name, S resourceGroup] (snd (ec_existing meta))))
               else if dt_ID existing \<noteq> None \<and> dt_ID existing \<noteq> Some [] then
                 (r, Some (ImportAsExistsError ''azurerm_eventgrid_domain_topic''
                            (the (dt_ID existing))))
               else eventgrid_create_rest meta name domainName resourceGroup r)
         else eventgrid_create_rest meta name domainName resourceGroup r)"

definition resourceArmEventGridDomainTopicDelete ::
    "eventgrid_meta \<Rightarrow> run \<Rightarrow> run \<times> error option" where
  "resourceArmEventGridDomainTopicDelete meta r =
     (case EventGridDomainTopicID meta (Id (rd r)) of
        Inl err \<Rightarrow> (r, Some err)
      | Inr rid \<Rightarrow>
          (let r = emit (Began ''DomainTopicsClient.Delete''
                     [egt_ResourceGroup rid, egt_Domain rid, egt_Name rid] (snd (ed_future meta))) r;
               future = fst (ed_future meta)
           in case snd (ed_future meta) of
                Some err \<Rightarrow>
                  if ResponseWasNotFound (Response_before future) then (r, None)
                  else (r, Some (Errorf ''Error deleting EventGrid Domain Topic %q: %+v''
                                  [S (egt_Name rid)] (Some err)))
              | None \<Rightarrow>
                  (let r = emit (Waited ''DomainTopicsClient.Delete''
                             (WaitForCompletionRef future)) r
                   in case WaitForCompletionRef future of
                        Some err \<Rightarrow>
                          if ResponseWasNotFound (Response_after future) then (r, None)
                          else (r, Some (Errorf ''Error deleting EventGrid Domain Topic %q: %+v''
                                          [S (egt_Name rid)] (Some err)))
                      | None \<Rightarrow> (r, None))))"

section \<open>DataShare\<close>

record ShareProperties =
  ShareKind :: string
  Description :: "string option"
  Terms :: "string option"

record Share =
  sh_Response :: "http_response option"
  sh_ID :: "string option"
  sh_ShareProperties :: "ShareProperties option"

record Account =
  acc_Response :: "http_response option"
  acc_ID :: "string option"

text \<open>A \<^verbatim>\<open>date.Time\<close>: whether it is the zero time, and its RFC 3339 rendering.\<close>

record date_time =
  IsZero :: bool
  Format_RFC3339 :: string

record ScheduledSynchronizationSetting =
  ss_ID :: "string option"
  ss_Name :: "string option"
  ss_Kind :: string
  ss_RecurrenceInterval :: string
  ss_SynchronizationTime :: "date_time option"

text \<open>
  A \<^verbatim>\<open>BasicSynchronizationSetting\<close> is an interface value: a scheduled setting, or a
  setting of the base type \<^verbatim>\<open>SynchronizationSetting\<close>.
\<close>

record SynchronizationSetting =
  st_ID :: "string option"
  st_Name :: "string option"
  st_Kind :: string

datatype BasicSynchronizationSetting =
    IsSynchronizationSetting SynchronizationSetting
  | IsScheduledSynchronizationSetting ScheduledSynchronizationSetting

text \<open>
  The type assertion \<^verbatim>\<open>x.(datashare.ScheduledSynchronizationSetting)\<close> in its one-result
  form: it panics on a nil interface value and on a value of another type.
\<close>

definition assert_scheduled ::
    "BasicSynchronizationSetting option \<Rightarrow> error + ScheduledSynchronizationSetting" where
  "assert_scheduled x =
     (case x of
        Some (IsScheduledSynchronizationSetting s) \<Rightarrow> Inr s
      | Some (IsSynchronizationSetting s) \<Rightarrow>
          Inl (Panic ''interface conversion: datashare.BasicSynchronizationSetting is datashare.SynchronizationSetting, not datashare.ScheduledSynchronizationSetting'')
      | None \<Rightarrow>
          Inl (Panic ''interface conversion: datashare.BasicSynchronizationSetting is nil, not datashare.ScheduledSynchronizationSetting''))"

record DataShareAccountId =
  dsa_ResourceGroup :: string
  dsa_Name :: string

record DataShareId =
  dsi_ResourceGroup :: string
  dsi_AccountName :: string
  dsi_Name :: string

text \<open>
  The iterator returned by \<^verbatim>\<open>ListByShareComplete\<close>, as the read handler observes it:
  \<^verbatim>\<open>NotDone()\<close> and \<^verbatim>\<open>Value()\<close> before advancing, the result of \<^verbatim>\<open>NextWithContext\<close>, and
  \<^verbatim>\<open>NotDone()\<close> after it.
\<close>

record sync_iterator =
  it_NotDone :: bool
  it_Value :: BasicSynchronizationSetting
  it_NextWithContext :: "error option"
  it_NotDone_after :: bool

text \<open>
  The collaborators: the parsers \<^verbatim>\<open>parse.DataShareAccountID\<close> and \<^verbatim>\<open>parse.DataShareID\<close> and
  \<^verbatim>\<open>time.Parse(time.RFC3339, _)\<close> (its error is discarded), all outside the sources, and
  what each call on the shares, account and synchronization clients returns. The two
  \<^verbatim>\<open>Create\<close> calls return their result directly (the handler discards it);
  \<open>dr_set_snapshot_schedule\<close> is the error of the one \<^verbatim>\<open>d.Set\<close> the read handler checks.
  The \<^verbatim>\<open>Value\<close> of the model that \<^verbatim>\<open>SynchronizationSettingsClient.Get\<close> returns is an interface
  value, which may be nil.
\<close>

record datashare_meta =
  DataShareAccountID :: "string \<Rightarrow> error + DataShareAccountId"
  DataShareID :: "string \<Rightarrow> error + DataShareId"
  time_Parse :: "string \<Rightarrow> date_time"
  dc_existing :: "Share \<times> error option"
  dc_create_err :: "error option"
  dc_resp :: "Share \<times> error option"
  dc_syncFuture :: "future \<times> error option"
  dc_syncCreate_err :: "error option"
  dr_resp :: "Share \<times> error option"
  dr_accountResp :: "Account \<times> error option"
  dr_syncIterator :: "sync_iterator \<times> error option"
  dr_syncResp :: "BasicSynchronizationSetting option \<times> error option"
  dr_set_snapshot_schedule :: "error option"
  dd_syncFuture :: "future \<times> error option"
  dd_future :: "future \<times> error option"

text \<open>\<^verbatim>\<open>m[k].(string)\<close> in its two-result form, and in the form the schema makes safe.\<close>

definition lookup_string :: "(string \<times> tfvalue) list \<Rightarrow> string \<Rightarrow> string option" where
  "lookup_string m k = (case map_of m k of Some (VString s) \<Rightarrow> Some s | _ \<Rightarrow> None)"

definition string_at :: "(string \<times> tfvalue) list \<Rightarrow> string \<Rightarrow> string" where
  "string_at m k = (case lookup_string m k of Some s \<Rightarrow> s | None \<Rightarrow> [])"

definition as_map :: "tfvalue \<Rightarrow> (string \<times> tfvalue) list" where
  "as_map v = (case v of VMap m \<Rightarrow> m | _ \<Rightarrow> [])"

text \<open>\<^verbatim>\<open>d.Get("snapshot_schedule.0.name").(string)\<close>\<close>

definition snapshot_schedule_0_name :: "ResourceData \<Rightarrow> string" where
  "snapshot_schedule_0_name d =
     (case Get_list d ''snapshot_schedule'' of
        [] \<Rightarrow> []
      | x # _ \<Rightarrow> string_at (as_map x) ''name'')"

definition expandAzureRmDataShareSnapshotSchedule ::
    "(string \<Rightarrow> date_time) \<Rightarrow> tfvalue list \<Rightarrow> ScheduledSynchronizationSetting option" where
  "expandAzureRmDataShareSnapshotSchedule parse_time input =
     (case input of
        [] \<Rightarrow> None
      | x # _ \<Rightarrow>
          (let snapshotSchedule = as_map x;
               startTime = parse_time (string_at snapshotSchedule ''start_time'')
           in Some \<lparr>ss_ID = None, ss_Name = None,
                     ss_Kind = ''KindBasicSynchronizationSettingKindScheduleBased'',
                     ss_RecurrenceInterval = string_at snapshotSchedule ''recurrence'',
                     ss_SynchronizationTime = Some startTime\<rparr>))"

definition flattenAzureRmDataShareSnapshotSchedule ::
    "ScheduledSynchronizationSetting option \<Rightarrow> tfvalue list" where
  "flattenAzureRmDataShareSnapshotSchedule sync =
     (case sync of
        None \<Rightarrow> []
      | Some s \<Rightarrow>
          (let startTime =
                 (case ss_SynchronizationTime s of
                    None \<Rightarrow> []
                  | Some t \<Rightarrow> if \<not> IsZero t then Format_RFC3339 t else [])
           in [VMap [(''name'', VStringPtr (ss_Name s)),
                     (''recurrence'', VString (ss_RecurrenceInterval s)),
                     (''start_time'', VString startTime)]]))"

text \<open>
  The read handler, last part first. \<open>datashare_read_schedule\<close> is the body of
  \<^verbatim>\<open>if syncName := ...; syncName != nil && *syncName != ""\<close> together with the two
  statements after it; \<open>datashare_read_sync\<close> is the \<^verbatim>\<open>if syncIterator, err := ...\<close> statement.
\<close>

definition datashare_read_advance ::
    "datashare_meta \<Rightarrow> DataShareId \<Rightarrow> sync_iterator \<Rightarrow> run \<Rightarrow> run \<times> error option" where
  "datashare_read_advance meta rid syncIterator r =
     (let r = emit (Called ''SynchronizationSettingListIterator.NextWithContext'' []) r
      in case it_NextWithContext syncIterator of
           Some err \<Rightarrow> (r, Some (Errorf
             ''listing DataShare %q snapshot schedule (Resource Group %q / accountName %q): %+v''
             [S (dsi_Name rid), S (dsi_ResourceGroup rid), S (dsi_AccountName rid)] (Some err)))
         | None \<Rightarrow>
             if it_NotDone_after syncIterator then (r, Some (Errorf
               ''more than one DataShare %q snapshot schedule (Resource Group %q / accountName %q) is returned''
               [S (dsi_Name rid), S (dsi_ResourceGroup rid), S (dsi_AccountName rid)] None))
             else (r, None))"

definition datashare_read_schedule ::
    "datashare_meta \<Rightarrow> DataShareId \<Rightarrow> sync_iterator \<Rightarrow> run \<Rightarrow> run \<times> error option" where
  "datashare_read_schedule meta rid syncIterator r =
     (case assert_scheduled (Some (it_Value syncIterator)) of
        Inl panic \<Rightarrow> (r, Some panic)
      | Inr item \<Rightarrow>
          (let syncName = ss_Name item
           in if syncName \<noteq> None \<and> syncName \<noteq> Some [] then
                (let r = emit (Called ''SynchronizationSettingsClient.Get''
                           [dsi_ResourceGroup rid, dsi_AccountName rid, dsi_Name rid,
                            the syncName]) r;
                     syncResp = fst (dr_syncResp meta)
                 in case snd (dr_syncResp meta) of
                      Some err \<Rightarrow> (r, Some (Errorf
                        ''reading DataShare %q snapshot schedule (Resource Group %q / accountName %q): %+v''
                        [S (dsi_Name rid), S (dsi_ResourceGroup rid), S (dsi_AccountName rid)]
                        (Some err)))
                    | None \<Rightarrow>
                        (case assert_scheduled syncResp of
                           Inl panic \<Rightarrow> (r, Some panic)
                         | Inr schedule \<Rightarrow>
                             if ss_ID schedule \<noteq> None \<and> ss_ID schedule \<noteq> Some [] then
                               (case dr_set_snapshot_schedule meta of
                                  Some err \<Rightarrow>
                                    (r, Some (Errorf ''setting `snapshot_schedule`: %+v'' []
                                               (Some err)))
                                | None \<Rightarrow>
                                    datashare_read_advance meta rid syncIterator
                                      (d_Set ''snapshot_schedule''
                                         (VList (flattenAzureRmDataShareSnapshotSchedule
                                                   (Some schedule))) r))
                             else datashare_read_advance meta rid syncIterator r))
              else datashare_read_advance meta rid syncIterator r))"

definition datashare_read_sync ::
    "datashare_meta \<Rightarrow> DataShareId \<Rightarrow> run \<Rightarrow> run \<times> error option" where
  "datashare_read_sync meta rid r =
     (let r = emit (Called ''SynchronizationSettingsClient.ListByShareComplete''
                [dsi_ResourceGroup rid, dsi_AccountName rid, dsi_Name rid, []]) r;
          syncIterator = fst (dr_syncIterator meta)
      in if it_NotDone syncIterator then
           (case snd (dr_syncIterator meta) of
              Some err \<Rightarrow> (r, Some (Errorf
                ''listing DataShare %q snapshot schedule (Resource Group %q / accountName %q): %+v''
                [S (dsi_Name rid), S (dsi_ResourceGroup rid), S (dsi_AccountName rid)] (Some err)))
            | None \<Rightarrow> datashare_read_schedule meta rid syncIterator r)
         else (r, None))"

definition resourceArmDataShareRead :: "datashare_meta \<Rightarrow> run \<Rightarrow> run \<times> error option" where
  "resourceArmDataShareRead meta r =
     (case DataShareID meta (Id (rd r)) of
        Inl err \<Rightarrow> (r, Some err)
      | Inr rid \<Rightarrow>
          (let r = emit (Called ''SharesClient.Get''
                     [dsi_ResourceGroup rid, dsi_AccountName rid, dsi_Name rid]) r;
               resp = fst (dr_resp meta)
           in case snd (dr_resp meta) of
                Some err \<Rightarrow>
                  if ResponseWasNotFound (sh_Response resp) then (SetId [] r, None)
                  else (r, Some (Errorf
                    ''retrieving DataShare %q (Resource Group %q / accountName %q): %+v''
                    [S (dsi_Name rid), S (dsi_ResourceGroup rid), S (dsi_AccountName rid)] (Some err)))
              | None \<Rightarrow>
                  (let r = emit (Called ''AccountClient.Get''
                             [dsi_ResourceGroup rid, dsi_AccountName rid]) r;
                       accountResp = fst (dr_accountResp meta)
                   in case snd (dr_accountResp meta) of
                        Some err \<Rightarrow> (r, Some (Errorf
                          ''retrieving DataShare Account %q (Resource Group %q): %+v''
                          [S (dsi_AccountName rid), S (dsi_ResourceGroup rid)] (Some err)))
                      | None \<Rightarrow>
                          if acc_ID accountResp = None \<or> acc_ID accountResp = Some [] then
                            (r, Some (Errorf
                              ''reading DataShare Account %q (Resource Group %q): ID is empty''
                              [S (dsi_AccountName rid), S (dsi_ResourceGroup rid)] None))
                          else
                            (let r = d_Set ''name'' (VString (dsi_Name rid)) r;
                                 r = d_Set ''account_id'' (VStringPtr (acc_ID accountResp)) r;
                                 r = (case sh_ShareProperties resp of
                                        None \<Rightarrow> r
                                      | Some props \<Rightarrow>
                                          (let r = d_Set ''kind'' (VString (ShareKind props)) r;
                                               r = d_Set ''description''
                                                     (VStringPtr (Description props)) r;
                                               r = d_Set ''terms'' (VStringPtr (Terms props)) r
                                           in r))
                             in datashare_read_sync meta rid r))))"

text \<open>
  The create/update handler, last part first: \<open>datashare_create_schedule\<close> is the
  \<^verbatim>\<open>if snapshotSchedule := ...\<close> statement and the final call of the read handler,
  \<open>datashare_replace_schedule\<close> the \<^verbatim>\<open>if d.HasChange("snapshot_schedule")\<close> statement.
\<close>

definition datashare_create_schedule ::
    "datashare_meta \<Rightarrow> DataShareAccountId \<Rightarrow> string \<Rightarrow> run \<Rightarrow> run \<times> error option" where
  "datashare_create_schedule meta accountId name r =
     (case expandAzureRmDataShareSnapshotSchedule (time_Parse meta)
             (Get_list (rd r) ''snapshot_schedule'') of
        None \<Rightarrow> resourceArmDataShareRead meta r
      | Some snapshotSchedule \<Rightarrow>
          (let r = emit (Called ''SynchronizationSettingsClient.Create''
                     [dsa_ResourceGroup accountId, dsa_Name accountId, name,
                      snapshot_schedule_0_name (rd r)]) r
           in case dc_syncCreate_err meta of
                Some err \<Rightarrow> (r, Some (Errorf
                  ''creating DataShare %q snapshot schedule (Resource Group %q / accountName %q): %+v''
                  [S name, S (dsa_ResourceGroup accountId), S (dsa_Name accountId)] (Some err)))
              | None \<Rightarrow> resourceArmDataShareRead meta r))"

definition datashare_delete_origin ::
    "datashare_meta \<Rightarrow> DataShareAccountId \<Rightarrow> string \<Rightarrow> string \<Rightarrow> run \<Rightarrow> run \<times> error option" where
  "datashare_delete_origin meta accountId name originName r =
     (let r = emit (Began ''SynchronizationSettingsClient.Delete''
                [dsa_ResourceGroup accountId, dsa_Name accountId, name, originName]
                (snd (dc_syncFuture meta))) r;
          syncFuture = fst (dc_syncFuture meta)
      in case snd (dc_syncFuture meta) of
           Some err \<Rightarrow> (r, Some (Errorf
             ''deleting DataShare %q snapshot schedule (Resource Group %q / accountName %q): %+v''
             [S name, S (dsa_ResourceGroup accountId), S (dsa_Name accountId)] (Some err)))
         | None \<Rightarrow>
             (let r = emit (Waited ''SynchronizationSettingsClient.Delete''
                        (WaitForCompletionRef syncFuture)) r
              in case WaitForCompletionRef syncFuture of
                   Some err \<Rightarrow> (r, Some (Errorf
                     ''waiting for DataShare %q snapshot schedule (Resource Group %q / accountName %q) to be deleted: %+v''
                     [S name, S (dsa_ResourceGroup accountId), S (dsa_Name accountId)] (Some err)))
                 | None \<Rightarrow> datashare_create_schedule meta accountId name r))"

definition datashare_replace_schedule ::
    "datashare_meta \<Rightarrow> DataShareAccountId \<Rightarrow> string \<Rightarrow> run \<Rightarrow> run \<times> error option" where
  "datashare_replace_schedule meta accountId name r =
     (if HasChange (rd r) ''snapshot_schedule'' then
        (case fst (GetChange (rd r) ''snapshot_schedule'') of
           Some (VList (origin # _)) \<Rightarrow>
             (case lookup_string (as_map origin) ''name'' of
                Some originName \<Rightarrow>
                  if originName \<noteq> [] then datashare_delete_origin meta accountId name originName r
                  else datashare_create_schedule meta accountId name r
              | None \<Rightarrow> datashare_create_schedule meta accountId name r)
         | _ \<Rightarrow> datashare_create_schedule meta accountId name r)
      else datashare_create_schedule meta accountId name r)"

definition datashare_create_share ::
    "datashare_meta \<Rightarrow> DataShareAccountId \<Rightarrow> string \<Rightarrow> run \<Rightarrow> run \<times> error option" where
  "datashare_create_share meta accountId name r =
     (let r = emit (Called ''SharesClient.Create''
                [dsa_ResourceGroup accountId, dsa_Name accountId, name,
                 Get_string (rd r) ''kind'', Get_string (rd r) ''description'',
                 Get_string (rd r) ''terms'']) r
      in case dc_create_err meta of
           Some err \<Rightarrow> (r, Some (Errorf
             ''creating DataShare %q (Resource Group %q / accountName %q): %+v''
             [S name, S (dsa_ResourceGroup accountId), S (dsa_Name accountId)] (Some err)))
         | None \<Rightarrow>
             (let r = emit (Called ''SharesClient.Get''
                        [dsa_ResourceGroup accountId, dsa_Name accountId, name]) r;
                  resp = fst (dc_resp meta)
              in case snd (dc_resp meta) of
                   Some err \<Rightarrow> (r, Some (Errorf
                     ''retrieving DataShare %q (Resource Group %q / accountName %q): %+v''
                     [S name, S (dsa_ResourceGroup accountId), S (dsa_Name accountId)] (Some err)))
                 | None \<Rightarrow>
                     if sh_ID resp = None \<or> sh_ID resp = Some [] then
                       (r, Some (Errorf
                         ''reading DataShare %q (Resource Group %q / accountName %q): ID is empty''
                         [S name, S (dsa_ResourceGroup accountId), S (dsa_Name accountId)] None))
                     else datashare_replace_schedule meta accountId name
                            (SetId (the (sh_ID resp)) r)))"

definition resourceArmDataShareCreateUpdate ::
    "datashare_meta \<Rightarrow> run \<Rightarrow> run \<times> error option" where
  "resourceArmDataShareCreateUpdate meta r =
     (let name = Get_string (rd r) ''name''
      in case DataShareAccountID meta (Get_string (rd r) ''account_id'') of
           Inl err \<Rightarrow> (r, Some err)
         | Inr accountId \<Rightarrow>
             if IsNewResource (rd r) then
               (let r = emit (Called ''SharesClient.Get''
                          [dsa_ResourceGroup accountId, dsa_Name accountId, name]) r;
                    existing = fst (dc_existing meta)
                in if snd (dc_existing meta) \<noteq> None
                      \<and> \<not> ResponseWasNotFound (sh_Response existing) then
                     (r, Some (Errorf
                       ''checking for present of existing DataShare %q (Resource Group %q / accountName %q): %+v''
                       [S name, S (dsa_ResourceGroup accountId), S (dsa_Name accountId)]
                       (snd (dc_existing meta))))
                   else if sh_ID existing \<noteq> None \<and> sh_ID existing \<noteq> Some [] then
                     (r, Some (ImportAsExistsError ''azurerm_data_share'' (the (sh_ID existing))))
                   else datashare_create_share meta accountId name r)
             else datashare_create_share meta accountId name r)"

definition resourceArmDataShareDelete :: "datashare_meta \<Rightarrow> run \<Rightarrow> run \<times> error option" where
  "resourceArmDataShareDelete meta r =
     (case DataShareID meta (Id (rd r)) of
        Inl err \<Rightarrow> (r, Some err)
      | Inr rid \<Rightarrow>
          (let delete_share = (\<lambda>r.
                 (let r = emit (Began ''SharesClient.Delete''
                            [dsi_ResourceGroup rid, dsi_AccountName rid, dsi_Name rid]
                            (snd (dd_future meta))) r;
                      future = fst (dd_future meta)
                  in case snd (dd_future meta) of
                       Some err \<Rightarrow> (r, Some (Errorf
                         ''deleting DataShare %q (Resource Group %q / accountName %q): %+v''
                         [S (dsi_Name rid), S (dsi_ResourceGroup rid), S (dsi_AccountName rid)]
                         (Some err)))
                     | None \<Rightarrow>
                         (let r = emit (Waited ''SharesClient.Delete''
                                    (WaitForCompletionRef future)) r
                          in case WaitForCompletionRef future of
                               Some err \<Rightarrow> (r, Some (Errorf
                                 ''waiting for DataShare %q (Resource Group %q / accountName %q) to be deleted: %+v''
                                 [S (dsi_Name rid), S (dsi_ResourceGroup rid),
                                  S (dsi_AccountName rid)] (Some err)))
                             | None \<Rightarrow> (r, None))))
           in if snd (GetOk (rd r) ''snapshot_schedule'') then
                (let r = emit (Began ''SynchronizationSettingsClient.Delete''
                           [dsi_ResourceGroup rid, dsi_AccountName rid, dsi_Name rid,
                            snapshot_schedule_0_name (rd r)] (snd (dd_syncFuture meta))) r;
                     syncFuture = fst (dd_syncFuture meta)
                 in case snd (dd_syncFuture meta) of
                      Some err \<Rightarrow> (r, Some (Errorf
                        ''deleting DataShare %q snapshot schedule (Resource Group %q / accountName %q): %+v''
                        [S (dsi_Name rid), S (dsi_ResourceGroup rid), S (dsi_AccountName rid)]
                        (Some err)))
                    | None \<Rightarrow>
                        (let r = emit (Waited ''SynchronizationSettingsClient.Delete''
                                   (WaitForCompletionRef syncFuture)) r
                         in case WaitForCompletionRef syncFuture of
                              Some err \<Rightarrow> (r, Some (Errorf
                                ''waiting for DataShare %q snapshot schedule (Resource Group %q / accountName %q) to be deleted: %+v''
                                [S (dsi_Name rid), S (dsi_ResourceGroup rid),
                                 S (dsi_AccountName rid)] (Some err)))
                            | None \<Rightarrow> delete_share r))
              else delete_share r))"

section \<open>Cosmos Mongo collection: index translation\<close>

text \<open>
  One element of the \<^verbatim>\<open>index\<close> / \<^verbatim>\<open>system_indexes\<close> attribute: the Go value is a
  \<^verbatim>\<open>map[string]interface{}\<close> with the entries \<^verbatim>\<open>"keys"\<close> and \<^verbatim>\<open>"unique"\<close>.
\<close>

record index_entry =
  ix_keys :: "string list"
  ix_unique :: bool

record MongoIndexKeys =
  Keys :: "string list option"

record MongoIndexOptions =
  ExpireAfterSeconds :: "int option"
  Unique :: "bool option"

record MongoIndex =
  Key :: "MongoIndexKeys option"
  Options :: "MongoIndexOptions option"

text \<open>
  \<^verbatim>\<open>int32(x)\<close> on a Go \<^verbatim>\<open>int\<close>: the low 32 bits, read as a signed number.
  \<open>ExpireAfterSeconds\<close> holds the value of the resulting \<^verbatim>\<open>int32\<close>.
\<close>

definition int32 :: "int \<Rightarrow> int" where
  "int32 x = (x + 2147483648) mod 4294967296 - 2147483648"

text \<open>
  \<^verbatim>\<open>utils.ExpandStringSlice\<close> turns the \<^verbatim>\<open>[]interface{}\<close> of a string set into a non-nil
  \<^verbatim>\<open>*[]string\<close>; \<^verbatim>\<open>utils.FlattenStringSlice\<close> turns a \<^verbatim>\<open>*[]string\<close> back into a
  \<^verbatim>\<open>[]interface{}\<close>, a nil pointer giving the empty slice. Both Go types are
  \<open>string list\<close> here, so only the pointer is visible.
\<close>

definition ExpandStringSlice :: "string list \<Rightarrow> string list option" where
  "ExpandStringSlice input = Some input"

definition FlattenStringSlice :: "string list option \<Rightarrow> string list" where
  "FlattenStringSlice input = (case input of None \<Rightarrow> [] | Some xs \<Rightarrow> xs)"

text \<open>The body of the \<^verbatim>\<open>for _, v := range indexes\<close> loop of the expander.\<close>

fun expand_loop :: "MongoIndex list \<Rightarrow> index_entry list \<Rightarrow> MongoIndex list" where
  "expand_loop results [] = results"
| "expand_loop results (index # rest) =
     expand_loop
       (results @
         [\<lparr>Key = Some \<lparr>Keys = ExpandStringSlice (ix_keys index)\<rparr>,
           Options = Some \<lparr>ExpireAfterSeconds = None, Unique = Some (ix_unique index)\<rparr>\<rparr>])
       rest"

definition expandCosmosMongoCollectionIndex ::
    "index_entry list \<Rightarrow> int option \<Rightarrow> MongoIndex list option" where
  "expandCosmosMongoCollectionIndex indexes defaultTtl =
     (let results = [];
          results = (if length indexes \<noteq> 0 then expand_loop results indexes else results);
          results =
            (case defaultTtl of
               None \<Rightarrow> results
             | Some ttl \<Rightarrow>
                 results @
                   [\<lparr>Key = Some \<lparr>Keys = Some [''_ts'']\<rparr>,
                     Options = Some \<lparr>ExpireAfterSeconds = Some (int32 ttl), Unique = None\<rparr>\<rparr>])
      in Some results)"

text \<open>
  The flattener's loop state: the user indexes, the system indexes and the TTL found so
  far. \<open>flatten_step\<close> is one iteration of \<^verbatim>\<open>for _, v := range *input\<close>.
\<close>

type_synonym flatten_state = "index_entry list \<times> index_entry list \<times> int option"

definition isUnique_of :: "MongoIndexOptions option \<Rightarrow> bool" where
  "isUnique_of opts =
     (case opts of
        None \<Rightarrow> False
      | Some os \<Rightarrow> (case Unique os of None \<Rightarrow> False | Some b \<Rightarrow> b))"

definition flatten_step :: "flatten_state \<Rightarrow> MongoIndex \<Rightarrow> flatten_state" where
  "flatten_step st v =
     (case st of (indexes, systemIndexes, ttl) \<Rightarrow>
        (case Key v of
           None \<Rightarrow> st
         | Some k \<Rightarrow>
             (case Keys k of
                None \<Rightarrow> st
              | Some ks \<Rightarrow>
                  (case ks of
                     [] \<Rightarrow> st
                   | key # _ \<Rightarrow>
                       if key = ''_id'' then
                         (indexes,
                          systemIndexes @
                            [\<lparr>ix_keys = FlattenStringSlice (Keys k), ix_unique = True\<rparr>],
                          ttl)
                       else if key = ''DocumentDBDefaultIndex'' then
                         (indexes,
                          systemIndexes @
                            [\<lparr>ix_keys = FlattenStringSlice (Keys k),
                              ix_unique = isUnique_of (Options v)\<rparr>],
                          ttl)
                       else if key = ''_ts'' then
                         (case Options v of
                            None \<Rightarrow> st
                          | Some os \<Rightarrow>
                              (case ExpireAfterSeconds os of
                                 None \<Rightarrow> st
                               | Some e \<Rightarrow> (indexes, systemIndexes, Some e)))
                       else
                         (indexes @
                            [\<lparr>ix_keys = FlattenStringSlice (Keys k),
                              ix_unique = isUnique_of (Options v)\<rparr>],
                          systemIndexes,
                          ttl)))))"

fun flatten_loop :: "flatten_state \<Rightarrow> MongoIndex list \<Rightarrow> flatten_state" where
  "flatten_loop st [] = st"
| "flatten_loop st (v # rest) = flatten_loop (flatten_step st v) rest"

definition flattenCosmosMongoCollectionIndex :: "MongoIndex list option \<Rightarrow> flatten_state" where
  "flattenCosmosMongoCollectionIndex input =
     (case input of
        None \<Rightarrow> ([], [], None)
      | Some vs \<Rightarrow> flatten_loop ([], [], None) vs)"

section \<open>Cosmos Mongo collection: the handlers\<close>

record MongoDBCollectionProperties =
  mcp_ID :: "string option"
  mcp_ShardKey :: "(string \<times> string option) list"
  mcp_Indexes :: "MongoIndex list option"

record MongoDBCollection =
  mc_Response :: "http_response option"
  mc_Properties :: "MongoDBCollectionProperties option"

record Throughput =
  th_Response :: "http_response option"
  th_Throughput :: "int option"

record CosmosDatabaseCollectionID =
  cdc_ResourceGroup :: string
  cdc_Account :: string
  cdc_Database :: string
  cdc_Collection :: string

text \<open>
  The body of a create/update request. \<open>mcp_ShardKey\<close> and \<open>p_ShardKey\<close> are Go maps; the
  list gives their entries in the order a \<^verbatim>\<open>range\<close> loop visits them, one entry per
  key, so that \<^verbatim>\<open>len\<close> is the length of the list.
\<close>

record MongoDBCollectionCreateUpdateParameters =
  p_ID :: string
  p_Indexes :: "MongoIndex list option"
  p_ShardKey :: "(string \<times> string) list"
  p_Options :: "(string \<times> string) list"

text \<open>
  The collaborators: \<^verbatim>\<open>features.ShouldResourcesBeImported()\<close>,
  \<^verbatim>\<open>azure.ParseCosmosDatabaseCollectionID\<close> and \<^verbatim>\<open>azure.CosmosGetIDFromResponse\<close> (none among
  the sources, hence parameters), what each call on the database client returns (the
  create/update calls as functions of the request they are given), and the errors of the
  three \<^verbatim>\<open>d.Set\<close> calls the read handler checks.
\<close>

record cosmos_meta =
  co_ShouldResourcesBeImported :: bool
  ParseCosmosDatabaseCollectionID :: "string \<Rightarrow> error + CosmosDatabaseCollectionID"
  CosmosGetIDFromResponse :: "http_response option \<Rightarrow> error + string"
  cc_existing :: "MongoDBCollection \<times> error option"
  cc_future :: "MongoDBCollectionCreateUpdateParameters \<Rightarrow> future \<times> error option"
  cc_resp :: "MongoDBCollection \<times> error option"
  cu_future :: "MongoDBCollectionCreateUpdateParameters \<Rightarrow> future \<times> error option"
  cu_throughputFuture :: "int \<Rightarrow> future \<times> error option"
  cr_resp :: "MongoDBCollection \<times> error option"
  cr_set_default_ttl_seconds :: "error option"
  cr_set_index :: "error option"
  cr_set_system_indexes :: "error option"
  cr_throughputResp :: "Throughput \<times> error option"
  cd_future :: "future \<times> error option"

text \<open>\<^verbatim>\<open>strconv.Itoa\<close>\<close>

fun digits :: "nat \<Rightarrow> string" where
  "digits n =
     (if n < 10 then [char_of (48 + n)]
      else digits (n div 10) @ [char_of (48 + n mod 10)])"

definition Itoa :: "int \<Rightarrow> string" where
  "Itoa i = (if i < 0 then CHR ''-'' # digits (nat (- i)) else digits (nat i))"

text \<open>
  An element of \<^verbatim>\<open>d.Get("index").(*schema.Set).List()\<close> read as the expander reads it
  (\<^verbatim>\<open>index["keys"].(*schema.Set).List()\<close>, \<^verbatim>\<open>index["unique"].(bool)\<close>), and the value
  the read handler stores for a flattened entry.
\<close>

definition strings_of :: "tfvalue \<Rightarrow> string list" where
  "strings_of v =
     (case v of
        VList xs \<Rightarrow> map (\<lambda>x. case x of VString s \<Rightarrow> s | _ \<Rightarrow> []) xs
      | _ \<Rightarrow> [])"

definition index_entry_of :: "tfvalue \<Rightarrow> index_entry" where
  "index_entry_of v =
     \<lparr>ix_keys = (case map_of (as_map v) ''keys'' of Some ks \<Rightarrow> strings_of ks | None \<Rightarrow> []),
      ix_unique = (case map_of (as_map v) ''unique'' of Some (VBool b) \<Rightarrow> b | _ \<Rightarrow> False)\<rparr>"

definition value_of_index_entry :: "index_entry \<Rightarrow> tfvalue" where
  "value_of_index_entry e =
     VMap [(''keys'', VList (map VString (ix_keys e))), (''unique'', VBool (ix_unique e))]"

definition VIntPtr :: "int option \<Rightarrow> tfvalue" where
  "VIntPtr p = (case p of None \<Rightarrow> VNil | Some i \<Rightarrow> VInt i)"

text \<open>\<^verbatim>\<open>var ttl *int; if v := d.Get("default_ttl_seconds").(int); v > 0 { ttl = utils.Int(v) }\<close>\<close>

definition ttl_of :: "ResourceData \<Rightarrow> int option" where
  "ttl_of d = (let v = Get_int d ''default_ttl_seconds'' in if v > 0 then Some v else None)"

text \<open>
  The request body \<^verbatim>\<open>db\<close> that the create handler builds from the configuration (name,
  indexes with the TTL, the throughput option when set, the shard key when not empty),
  and the one the update handler builds (the same without the throughput option).
\<close>

definition create_parameters ::
    "ResourceData \<Rightarrow> string \<Rightarrow> MongoDBCollectionCreateUpdateParameters" where
  "create_parameters d name =
     (let ttl = ttl_of d;
          db = \<lparr>p_ID = name,
                p_Indexes = expandCosmosMongoCollectionIndex
                              (map index_entry_of (Get_list d ''index'')) ttl,
                p_ShardKey = [],
                p_Options = []\<rparr>;
          db = (case GetOk d ''throughput'' of
                  (VInt throughput, True) \<Rightarrow> db\<lparr>p_Options := [(''throughput'', Itoa throughput)]\<rparr>
                | _ \<Rightarrow> db);
          shardKey = Get_string d ''shard_key''
      in if shardKey \<noteq> [] then db\<lparr>p_ShardKey := [(shardKey, ''Hash'')]\<rparr> else db)"

definition update_parameters ::
    "ResourceData \<Rightarrow> string \<Rightarrow> MongoDBCollectionCreateUpdateParameters" where
  "update_parameters d collection =
     (let ttl = ttl_of d;
          db = \<lparr>p_ID = collection,
                p_Indexes = expandCosmosMongoCollectionIndex
                              (map index_entry_of (Get_list d ''index'')) ttl,
                p_ShardKey = [],
                p_Options = []\<rparr>;
          shardKey = Get_string d ''shard_key''
      in if shardKey \<noteq> [] then db\<lparr>p_ShardKey := [(shardKey, ''Hash'')]\<rparr> else db)"

text \<open>
  The read handler, last part first: the throughput lookup, the three checked
  \<^verbatim>\<open>d.Set\<close> calls, the shard-key loop, and the handler itself.
\<close>

definition cosmos_read_throughput ::
    "cosmos_meta \<Rightarrow> CosmosDatabaseCollectionID \<Rightarrow> run \<Rightarrow> run \<times> error option" where
  "cosmos_read_throughput meta rid r =
     (let r = emit (Called ''DatabaseClient.GetMongoDBCollectionThroughput''
                [cdc_ResourceGroup rid, cdc_Account rid, cdc_Database rid, cdc_Collection rid]) r;
          throughputResp = fst (cr_throughputResp meta)
      in case snd (cr_throughputResp meta) of
           Some err \<Rightarrow>
             if \<not> ResponseWasNotFound (th_Response throughputResp) then
               (r, Some (Errorf
                 ''Error reading Throughput on Cosmos Mongo Collection %s (Account %s, Database %s): %+v''
                 [S (cdc_Collection rid), S (cdc_Account rid), S (cdc_Database rid)] (Some err)))
             else (d_Set ''throughput'' VNil r, None)
         | None \<Rightarrow> (d_Set ''throughput'' (VIntPtr (th_Throughput throughputResp)) r, None))"

definition cosmos_read_indexes ::
    "cosmos_meta \<Rightarrow> CosmosDatabaseCollectionID \<Rightarrow> MongoIndex list option \<Rightarrow> run
      \<Rightarrow> run \<times> error option" where
  "cosmos_read_indexes meta rid input r =
     (case flattenCosmosMongoCollectionIndex input of
        (indexes, systemIndexes, ttl) \<Rightarrow>
          (case cr_set_default_ttl_seconds meta of
             Some err \<Rightarrow>
               (r, Some (Errorf ''failed to set `default_ttl_seconds`: %+v'' [] (Some err)))
           | None \<Rightarrow>
               (let r = d_Set ''default_ttl_seconds'' (VIntPtr ttl) r
                in case cr_set_index meta of
                     Some err \<Rightarrow> (r, Some (Errorf ''failed to set `index`: %+v'' [] (Some err)))
                   | None \<Rightarrow>
                       (let r = d_Set ''index'' (VList (map value_of_index_entry indexes)) r
                        in case cr_set_system_indexes meta of
                             Some err \<Rightarrow>
                               (r, Some (Errorf ''failed to set `system_indexes`: %+v'' []
                                          (Some err)))
                           | None \<Rightarrow>
                               cosmos_read_throughput meta rid
                                 (d_Set ''system_indexes''
                                    (VList (map value_of_index_entry systemIndexes)) r)))))"

text \<open>\<^verbatim>\<open>for k := range props.ShardKey { d.Set("shard_key", k) }\<close>\<close>

fun set_shard_keys :: "(string \<times> string option) list \<Rightarrow> run \<Rightarrow> run" where
  "set_shard_keys [] r = r"
| "set_shard_keys ((k, v) # rest) r = set_shard_keys rest (d_Set ''shard_key'' (VString k) r)"

definition resourceArmCosmosDbMongoCollectionRead ::
    "cosmos_meta \<Rightarrow> run \<Rightarrow> run \<times> error option" where
  "resourceArmCosmosDbMongoCollectionRead meta r =
     (case ParseCosmosDatabaseCollectionID meta (Id (rd r)) of
        Inl err \<Rightarrow> (r, Some err)
      | Inr rid \<Rightarrow>
          (let r = emit (Called ''DatabaseClient.GetMongoDBCollection''
                     [cdc_ResourceGroup rid, cdc_Account rid, cdc_Database rid,
                      cdc_Collection rid]) r;
               resp = fst (cr_resp meta)
           in case snd (cr_resp meta) of
                Some err \<Rightarrow>
                  if ResponseWasNotFound (mc_Response resp) then (SetId [] r, None)
                  else (r, Some (Errorf
                    ''Error reading Cosmos Mongo Collection %s (Account %s, Database %s): %+v''
                    [S (cdc_Collection rid), S (cdc_Account rid), S (cdc_Database rid)] (Some err)))
              | None \<Rightarrow>
                  (let r = d_Set ''resource_group_name'' (VString (cdc_ResourceGroup rid)) r;
                       r = d_Set ''account_name'' (VString (cdc_Account rid)) r;
                       r = d_Set ''database_name'' (VString (cdc_Database rid)) r
                   in case mc_Properties resp of
                        None \<Rightarrow> cosmos_read_throughput meta rid r
                      | Some props \<Rightarrow>
                          (let r = d_Set ''name'' (VStringPtr (mcp_ID props)) r
                           in if length (mcp_ShardKey props) > 2 then
                                (r, Some (Errorf ''unexpected number of shard keys: %d''
                                           [N (int (length (mcp_ShardKey props)))] None))
                              else cosmos_read_indexes meta rid (mcp_Indexes props)
                                     (set_shard_keys (mcp_ShardKey props) r)))))"

text \<open>The create handler after the existence check.\<close>

definition cosmos_create_rest ::
    "cosmos_meta \<Rightarrow> string \<Rightarrow> string \<Rightarrow> string \<Rightarrow> string \<Rightarrow> run \<Rightarrow> run \<times> error option" where
  "cosmos_create_rest meta name resourceGroup account database r =
     (let db = create_parameters (rd r) name;
          r = emit (Began ''DatabaseClient.CreateUpdateMongoDBCollection''
                [resourceGroup, account, database, name] (snd (cc_future meta db))) r;
          future = fst (cc_future meta db)
      in case snd (cc_future meta db) of
           Some err \<Rightarrow> (r, Some (Errorf
             ''Error issuing create/update request for Cosmos Mongo Collection %s (Account %s, Database %s): %+v''
             [S name, S account, S database] (Some err)))
         | None \<Rightarrow>
             (let r = emit (Waited ''DatabaseClient.CreateUpdateMongoDBCollection''
                        (WaitForCompletionRef future)) r
              in case WaitForCompletionRef future of
                   Some err \<Rightarrow> (r, Some (Errorf
                     ''Error waiting on create/update future for Cosmos Mongo Collection %s (Account %s, Database %s): %+v''
                     [S name, S account, S database] (Some err)))
                 | None \<Rightarrow>
                     (let r = emit (Called ''DatabaseClient.GetMongoDBCollection''
                                [resourceGroup, account, database, name]) r;
                          resp = fst (cc_resp meta)
                      in case snd (cc_resp meta) of
                           Some err \<Rightarrow> (r, Some (Errorf
                             ''Error making get request for Cosmos Mongo Collection %s (Account %s, Database %s): %+v''
                             [S name, S account, S database] (Some err)))
                         | None \<Rightarrow>
                             (case CosmosGetIDFromResponse meta (mc_Response resp) of
                                Inl err \<Rightarrow> (r, Some (Errorf
                                  ''Error getting ID for Cosmos Mongo Collection %s (Account %s, Database %s) ID: %v''
                                  [S name, S account, S database] (Some err)))
                              | Inr i \<Rightarrow>
                                  resourceArmCosmosDbMongoCollectionRead meta (SetId i r)))))"

definition resourceArmCosmosDbMongoCollectionCreate ::
    "cosmos_meta \<Rightarrow> run \<Rightarrow> run \<times> error option" where
  "resourceArmCosmosDbMongoCollectionCreate meta r =
     (let name = Get_string (rd r) ''name'';
          resourceGroup = Get_string (rd r) ''resource_group_name'';
          account = Get_string (rd r) ''account_name'';
          database = Get_string (rd r) ''database_name''
      in if co_ShouldResourcesBeImported meta then
           (let r = emit (Called ''DatabaseClient.GetMongoDBCollection''
                      [resourceGroup, account, database, name]) r;
                existing = fst (cc_existing meta)
            in case snd (cc_existing meta) of
                 Some err \<Rightarrow>
                   if \<not> ResponseWasNotFound (mc_Response existing) then
                     (r, Some (Errorf
                       ''Error checking for presence of creating Cosmos Mongo Collection %s (Account %s, Database %s): %+v''
                       [S name, S account, S database] (Some err)))
                   else cosmos_create_rest meta name resourceGroup account database r
               | None \<Rightarrow>
                   (case CosmosGetIDFromResponse meta (mc_Response existing) of
                      Inl err \<Rightarrow> (r, Some (Errorf
                        ''Error generating import ID for Cosmos Mongo Collection %s (Account %s, Database %s)''
                        [S name, S account, S database] None))
                    | Inr i \<Rightarrow>
                        (r, Some (ImportAsExistsError ''azurerm_cosmosdb_mongo_collection'' i))))
         else cosmos_create_rest meta name resourceGroup account database r)"

text \<open>The update handler, last part first: the \<^verbatim>\<open>if d.HasChange("throughput")\<close> statement.\<close>

definition cosmos_update_throughput ::
    "cosmos_meta \<Rightarrow> CosmosDatabaseCollectionID \<Rightarrow> run \<Rightarrow> run \<times> error option" where
  "cosmos_update_throughput meta rid r =
     (if HasChange (rd r) ''throughput'' then
        (let throughputParameters = int32 (Get_int (rd r) ''throughput'');
             r = emit (Began ''DatabaseClient.UpdateMongoDBCollectionThroughput''
                   [cdc_ResourceGroup rid, cdc_Account rid, cdc_Database rid, cdc_Collection rid]
                   (snd (cu_throughputFuture meta throughputParameters))) r;
             throughputFuture = fst (cu_throughputFuture meta throughputParameters)
         in if snd (cu_throughputFuture meta throughputParameters) \<noteq> None
               \<and> ResponseWasNotFound (Response_before throughputFuture) then
              (r, Some (Errorf
                (''Error setting Throughput for Cosmos MongoDB Collection %s (Account %s, Database %s): %+v - '' @
                 ''If the collection has not been created with an initial throughput, you cannot configure it later.'')
                [S (cdc_Collection rid), S (cdc_Account rid), S (cdc_Database rid)]
                (snd (cu_throughputFuture meta throughputParameters))))
            else
              (let r = emit (Waited ''DatabaseClient.UpdateMongoDBCollectionThroughput''
                         (WaitForCompletionRef throughputFuture)) r
               in case WaitForCompletionRef throughputFuture of
                    Some err \<Rightarrow> (r, Some (Errorf
                      ''Error waiting on ThroughputUpdate future for Cosmos Mongo Collection %s (Account %s, Database %s): %+v''
                      [S (cdc_Collection rid), S (cdc_Account rid), S (cdc_Database rid)] (Some err)))
                  | None \<Rightarrow> resourceArmCosmosDbMongoCollectionRead meta r))
      else resourceArmCosmosDbMongoCollectionRead meta r)"

definition resourceArmCosmosDbMongoCollectionUpdate ::
    "cosmos_meta \<Rightarrow> run \<Rightarrow> run \<times> error option" where
  "resourceArmCosmosDbMongoCollectionUpdate meta r =
     (case ParseCosmosDatabaseCollectionID meta (Id (rd r)) of
        Inl err \<Rightarrow> (r, Some err)
      | Inr rid \<Rightarrow>
          (let db = update_parameters (rd r) (cdc_Collection rid);
               r = emit (Began ''DatabaseClient.CreateUpdateMongoDBCollection''
                     [cdc_ResourceGroup rid, cdc_Account rid, cdc_Database rid, cdc_Collection rid]
                     (snd (cu_future meta db))) r;
               future = fst (cu_future meta db)
           in case snd (cu_future meta db) of
                Some err \<Rightarrow> (r, Some (Errorf
                  ''Error issuing create/update request for Cosmos Mongo Collection %s (Account %s, Database %s): %+v''
                  [S (cdc_Collection rid), S (cdc_Account rid), S (cdc_Database rid)] (Some err)))
              | None \<Rightarrow>
                  (let r = emit (Waited ''DatabaseClient.CreateUpdateMongoDBCollection''
                             (WaitForCompletionRef future)) r
                   in case WaitForCompletionRef future of
                        Some err \<Rightarrow> (r, Some (Errorf
                          ''Error waiting on create/update future for Cosmos Mongo Collection %s (Account %s, Database %s): %+v''
                          [S (cdc_Collection rid), S (cdc_Account rid), S (cdc_Database rid)]
                          (Some err)))
                      | None \<Rightarrow> cosmos_update_throughput meta rid r)))"

definition resourceArmCosmosDbMongoCollectionDelete ::
    "cosmos_meta \<Rightarrow> run \<Rightarrow> run \<times> error option" where
  "resourceArmCosmosDbMongoCollectionDelete meta r =
     (case ParseCosmosDatabaseCollectionID meta (Id (rd r)) of
        Inl err \<Rightarrow> (r, Some err)
      | Inr rid \<Rightarrow>
          (let r = emit (Began ''DatabaseClient.DeleteMongoDBCollection''
                     [cdc_ResourceGroup rid, cdc_Account rid, cdc_Database rid, cdc_Collection rid]
                     (snd (cd_future meta))) r;
               future = fst (cd_future meta)
           in if snd (cd_future meta) \<noteq> None \<and> \<not> ResponseWasNotFound (Response_before future) then
                (r, Some (Errorf
                  ''Error deleting Cosmos Mongo Collection %s (Account %s, Database %s): %+v''
                  [S (cdc_Collection rid), S (cdc_Account rid), S (cdc_Database rid)]
                  (snd (cd_future meta))))
              else
                (let r = emit (Waited ''DatabaseClient.DeleteMongoDBCollection''
                           (WaitForCompletionRef future)) r
                 in case WaitForCompletionRef future of
                      Some err \<Rightarrow> (r, Some (Errorf
                        ''Error waiting on delete future for Cosmos Mongo Collection %s (Account %s, Database %s): %+v''
                        [S (cdc_Collection rid), S (cdc_Account rid), S (cdc_Database rid)] (Some err)))
                    | None \<Rightarrow> (r, None))))"

section \<open>Resource ID parsers\<close>

text \<open>
  \<^verbatim>\<open>azure.ResourceID\<close> and its helpers live in \<^verbatim>\<open>helpers/azure\<close>, outside the sources. The
  parsers read \<^verbatim>\<open>ResourceGroup\<close> and call \<^verbatim>\<open>ParseAzureResourceID\<close>, \<^verbatim>\<open>PopSegment\<close> (which
  returns a string and an error, and may change the ID it is called on) and
  \<^verbatim>\<open>ValidateNoEmptySegments\<close>; the three are parameters.
\<close>

record ResourceID =
  rid_SubscriptionID :: string
  rid_ResourceGroup :: string
  rid_Provider :: string
  rid_Path :: "(string \<times> string) list"

record azure_helpers =
  ParseAzureResourceID :: "string \<Rightarrow> error + ResourceID"
  PopSegment :: "ResourceID \<Rightarrow> string \<Rightarrow> (string \<times> error option) \<times> ResourceID"
  ValidateNoEmptySegments :: "ResourceID \<Rightarrow> string \<Rightarrow> error option"

record LogAnalyticsWorkspaceId =
  law_ResourceGroup :: string
  law_Name :: string

record NamespaceAuthorizationRuleId =
  nar_ResourceGroup :: string
  nar_NamespaceName :: string
  nar_Name :: string

text \<open>Both parsers return a pointer and an error, as the Go functions do.\<close>

definition LogAnalyticsWorkspaceID ::
    "azure_helpers \<Rightarrow> string \<Rightarrow> LogAnalyticsWorkspaceId option \<times> error option" where
  "LogAnalyticsWorkspaceID az input =
     (case ParseAzureResourceID az input of
        Inl err \<Rightarrow>
          (None, Some (Errorf ''parsing Log Analytics Workspace ID %q: %+v'' [S input] (Some err)))
      | Inr rid \<Rightarrow>
          (let server = \<lparr>law_ResourceGroup = rid_ResourceGroup rid, law_Name = []\<rparr>;
               popped = PopSegment az rid ''workspaces'';
               server = server\<lparr>law_Name := fst (fst popped)\<rparr>;
               rid = snd popped
           in case snd (fst popped) of
                Some err \<Rightarrow> (None, Some err)
              | None \<Rightarrow>
                  (case ValidateNoEmptySegments az rid input of
                     Some err \<Rightarrow> (None, Some err)
                   | None \<Rightarrow> (Some server, None))))"

definition NamespaceAuthorizationRuleID ::
    "azure_helpers \<Rightarrow> string \<Rightarrow> NamespaceAuthorizationRuleId option \<times> error option" where
  "NamespaceAuthorizationRuleID az input =
     (case ParseAzureResourceID az input of
        Inl err \<Rightarrow> (None, Some err)
      | Inr rid \<Rightarrow>
          (let rule = \<lparr>nar_ResourceGroup = rid_ResourceGroup rid, nar_NamespaceName = [],
                       nar_Name = []\<rparr>;
               popped = PopSegment az rid ''namespaces'';
               rule = rule\<lparr>nar_NamespaceName := fst (fst popped)\<rparr>;
               rid = snd popped
           in case snd (fst popped) of
                Some err \<Rightarrow> (None, Some err)
              | None \<Rightarrow>
                  (let popped2 = PopSegment az rid ''AuthorizationRules'';
                       rule = rule\<lparr>nar_Name := fst (fst popped2)\<rparr>;
                       rid = snd popped2
                   in case snd (fst popped2) of
                        Some err \<Rightarrow> (None, Some err)
                      | None \<Rightarrow>
                          (case ValidateNoEmptySegments az rid input of
                             Some err \<Rightarrow> (None, Some err)
                           | None \<Rightarrow> (Some rule, None)))))"

section \<open>The generated vaults client\<close>

text \<open>
  \<^verbatim>\<open>Vault\<close>, \<^verbatim>\<open>PatchVault\<close> and \<^verbatim>\<open>VaultList\<close> are declared in the package's \<^verbatim>\<open>models.go\<close>,
  outside the sources; the client touches the embedded response, the values of a list
  and its next link only.
\<close>

record Vault =
  v_Response :: "http_response option"
  v_ID :: "string option"
  v_Name :: "string option"

record PatchVault =
  pv_Tags :: "(string \<times> string) list"

record VaultList =
  vl_Response :: "http_response option"
  vl_Value :: "Vault list option"
  vl_NextLink :: "string option"

definition zero_Vault :: Vault where
  "zero_Vault = \<lparr>v_Response = None, v_ID = None, v_Name = None\<rparr>"

definition zero_VaultList :: VaultList where
  "zero_VaultList = \<lparr>vl_Response = None, vl_Value = None, vl_NextLink = None\<rparr>"

text \<open>
  The request decorators of \<^verbatim>\<open>autorest\<close> that the preparers pass to
  \<^verbatim>\<open>autorest.CreatePreparer\<close>, and the request as the settings they make: the prepared
  request records the method, the content type, the base URL, the path template with its
  parameters, the query parameters and the body.
\<close>

datatype json_body = VaultBody Vault | PatchVaultBody PatchVault

datatype decorator =
    AsContentType string
  | AsJSON
  | AsPut
  | AsDelete
  | AsGet
  | AsPatch
  | WithBaseURL string
  | WithPathParameters string "(string \<times> string) list"
  | WithJSON json_body
  | WithQueryParameters "(string \<times> string) list"

record http_request =
  Method :: string
  ContentType :: "string option"
  BaseURL :: string
  PathTemplate :: string
  PathParameters :: "(string \<times> string) list"
  QueryParameters :: "(string \<times> string) list"
  Body :: "json_body option"

definition empty_request :: http_request where
  "empty_request =
     \<lparr>Method = [], ContentType = None, BaseURL = [], PathTemplate = [], PathParameters = [],
      QueryParameters = [], Body = None\<rparr>"

fun decorate :: "http_request \<Rightarrow> decorator \<Rightarrow> http_request" where
  "decorate req (AsContentType ct) = req\<lparr>ContentType := Some ct\<rparr>"
| "decorate req AsJSON = req\<lparr>ContentType := Some ''application/json''\<rparr>"
| "decorate req AsPut = req\<lparr>Method := ''PUT''\<rparr>"
| "decorate req AsDelete = req\<lparr>Method := ''DELETE''\<rparr>"
| "decorate req AsGet = req\<lparr>Method := ''GET''\<rparr>"
| "decorate req AsPatch = req\<lparr>Method := ''PATCH''\<rparr>"
| "decorate req (WithBaseURL u) = req\<lparr>BaseURL := u\<rparr>"
| "decorate req (WithPathParameters path ps) = req\<lparr>PathTemplate := path, PathParameters := ps\<rparr>"
| "decorate req (WithJSON v) = req\<lparr>Body := Some v\<rparr>"
| "decorate req (WithQueryParameters qs) = req\<lparr>QueryParameters := QueryParameters req @ qs\<rparr>"

text \<open>
  The client: its base URI and subscription ID, and the shared HTTP layer it calls.
  \<open>Encode\<close> is \<^verbatim>\<open>autorest.Encode\<close>; \<open>prepare_failure\<close> is the error, if any, with which
  \<^verbatim>\<open>Prepare\<close> rejects a list of decorators; \<open>Send\<close> is \<^verbatim>\<open>client.Send\<close> with its retry
  decorator; \<open>RespondVault\<close>, \<open>RespondVaultList\<close> and \<open>RespondNone\<close> are \<^verbatim>\<open>autorest.Respond\<close>
  with the inspector, the accepted status codes, the JSON unmarshalling into the result
  (none for \<open>RespondNone\<close>) and the closing of the body.
\<close>

record VaultsClient =
  BaseURI :: string
  SubscriptionID :: string
  Encode :: "string \<Rightarrow> string \<Rightarrow> string"
  prepare_failure :: "decorator list \<Rightarrow> error option"
  Send :: "http_request option \<Rightarrow> http_response option \<times> error option"
  RespondVault :: "http_response option \<Rightarrow> nat list \<Rightarrow> Vault \<times> error option"
  RespondVaultList :: "http_response option \<Rightarrow> nat list \<Rightarrow> VaultList \<times> error option"
  RespondNone :: "http_response option \<Rightarrow> nat list \<Rightarrow> error option"

text \<open>\<^verbatim>\<open>autorest.CreatePreparer(decorators...).Prepare(&http.Request{})\<close>\<close>

definition Prepare :: "VaultsClient \<Rightarrow> decorator list \<Rightarrow> http_request option \<times> error option" where
  "Prepare client ds =
     (case prepare_failure client ds of
        Some err \<Rightarrow> (None, Some err)
      | None \<Rightarrow> (Some (foldl decorate empty_request ds), None))"

definition StatusOK :: nat where "StatusOK = 200"

definition APIVersion :: string where "APIVersion = ''2016-06-01''"

text \<open>The steps an operation has taken, in order.\<close>

datatype stage =
    Prepared
  | Sent "http_request option"
  | Responded "http_response option"

subsection \<open>Preparers\<close>

text \<open>
  Each preparer is split in two: the decorators it hands to \<^verbatim>\<open>autorest.CreatePreparer\<close>,
  built from its \<^verbatim>\<open>pathParameters\<close> and \<^verbatim>\<open>queryParameters\<close> maps, and the call of \<^verbatim>\<open>Prepare\<close>.
\<close>

definition CreateOrUpdate_decorators :: "VaultsClient \<Rightarrow> string \<Rightarrow> string \<Rightarrow> Vault \<Rightarrow> decorator list" where
  "CreateOrUpdate_decorators client resourceGroupName vaultName vault =
     (let pathParameters =
            [(''resourceGroupName'', Encode client ''path'' resourceGroupName),
             (''subscriptionId'', Encode client ''path'' (SubscriptionID client)),
             (''vaultName'', Encode client ''path'' vaultName)];
          queryParameters = [(''api-version'', APIVersion)]
      in [AsContentType ''application/json; charset=utf-8'',
          AsPut,
          WithBaseURL (BaseURI client),
          WithPathParameters
            ''/subscriptions/{subscriptionId}/resourceGroups/{resourceGroupName}/providers/Microsoft.RecoveryServices/vaults/{vaultName}''
            pathParameters,
          WithJSON (VaultBody vault),
          WithQueryParameters queryParameters])"

definition CreateOrUpdatePreparer ::
    "VaultsClient \<Rightarrow> string \<Rightarrow> string \<Rightarrow> Vault \<Rightarrow> http_request option \<times> error option" where
  "CreateOrUpdatePreparer client resourceGroupName vaultName vault =
     Prepare client (CreateOrUpdate_decorators client resourceGroupName vaultName vault)"

definition Delete_decorators :: "VaultsClient \<Rightarrow> string \<Rightarrow> string \<Rightarrow> decorator list" where
  "Delete_decorators client resourceGroupName vaultName =
     (let pathParameters =
            [(''resourceGroupName'', Encode client ''path'' resourceGroupName),
             (''subscriptionId'', Encode client ''path'' (SubscriptionID client)),
             (''vaultName'', Encode client ''path'' vaultName)];
          queryParameters = [(''api-version'', APIVersion)]
      in [AsDelete,
          WithBaseURL (BaseURI client),
          WithPathParameters
            ''/subscriptions/{subscriptionId}/resourceGroups/{resourceGroupName}/providers/Microsoft.RecoveryServices/vaults/{vaultName}''
            pathParameters,
          WithQueryParameters queryParameters])"

definition DeletePreparer ::
    "VaultsClient \<Rightarrow> string \<Rightarrow> string \<Rightarrow> http_request option \<times> error option" where
  "DeletePreparer client resourceGroupName vaultName =
     Prepare client (Delete_decorators client resourceGroupName vaultName)"

definition Get_decorators :: "VaultsClient \<Rightarrow> string \<Rightarrow> string \<Rightarrow> decorator list" where
  "Get_decorators client resourceGroupName vaultName =
     (let pathParameters =
            [(''resourceGroupName'', Encode client ''path'' resourceGroupName),
             (''subscriptionId'', Encode client ''path'' (SubscriptionID client)),
             (''vaultName'', Encode client ''path'' vaultName)];
          queryParameters = [(''api-version'', APIVersion)]
      in [AsGet,
          WithBaseURL (BaseURI client),
          WithPathParameters
            ''/subscriptions/{subscriptionId}/resourceGroups/{resourceGroupName}/providers/Microsoft.RecoveryServices/vaults/{vaultName}''
            pathParameters,
          WithQueryParameters queryParameters])"

definition GetPreparer ::
    "VaultsClient \<Rightarrow> string \<Rightarrow> string \<Rightarrow> http_request option \<times> error option" where
  "GetPreparer client resourceGroupName vaultName =
     Prepare client (Get_decorators client resourceGroupName vaultName)"

definition ListByResourceGroup_decorators :: "VaultsClient \<Rightarrow> string \<Rightarrow> decorator list" where
  "ListByResourceGroup_decorators client resourceGroupName =
     (let pathParameters =
            [(''resourceGroupName'', Encode client ''path'' resourceGroupName),
             (''subscriptionId'', Encode client ''path'' (SubscriptionID client))];
          queryParameters = [(''api-version'', APIVersion)]
      in [AsGet,
          WithBaseURL (BaseURI client),
          WithPathParameters
            ''/subscriptions/{subscriptionId}/resourceGroups/{resourceGroupName}/providers/Microsoft.RecoveryServices/vaults''
            pathParameters,
          WithQueryParameters queryParameters])"

definition ListByResourceGroupPreparer ::
    "VaultsClient \<Rightarrow> string \<Rightarrow> http_request option \<times> error option" where
  "ListByResourceGroupPreparer client resourceGroupName =
     Prepare client (ListByResourceGroup_decorators client resourceGroupName)"

definition ListBySubscriptionID_decorators :: "VaultsClient \<Rightarrow> decorator list" where
  "ListBySubscriptionID_decorators client =
     (let pathParameters =
            [(''subscriptionId'', Encode client ''path'' (SubscriptionID client))];
          queryParameters = [(''api-version'', APIVersion)]
      in [AsGet,
          WithBaseURL (BaseURI client),
          WithPathParameters
            ''/subscriptions/{subscriptionId}/providers/Microsoft.RecoveryServices/vaults''
            pathParameters,
          WithQueryParameters queryParameters])"

definition ListBySubscriptionIDPreparer ::
    "VaultsClient \<Rightarrow> http_request option \<times> error option" where
  "ListBySubscriptionIDPreparer client =
     Prepare client (ListBySubscriptionID_decorators client)"

definition Update_decorators :: "VaultsClient \<Rightarrow> string \<Rightarrow> string \<Rightarrow> PatchVault \<Rightarrow> decorator list" where
  "Update_decorators client resourceGroupName vaultName vault =
     (let pathParameters =
            [(''resourceGroupName'', Encode client ''path'' resourceGroupName),
             (''subscriptionId'', Encode client ''path'' (SubscriptionID client)),
             (''vaultName'', Encode client ''path'' vaultName)];
          queryParameters = [(''api-version'', APIVersion)]
      in [AsContentType ''application/json; charset=utf-8'',
          AsPatch,
          WithBaseURL (BaseURI client),
          WithPathParameters
            ''/subscriptions/{subscriptionId}/resourceGroups/{resourceGroupName}/providers/Microsoft.RecoveryServices/vaults/{vaultName}''
            pathParameters,
          WithJSON (PatchVaultBody vault),
          WithQueryParameters queryParameters])"

definition UpdatePreparer ::
    "VaultsClient \<Rightarrow> string \<Rightarrow> string \<Rightarrow> PatchVault \<Rightarrow> http_request option \<times> error option" where
  "UpdatePreparer client resourceGroupName vaultName vault =
     Prepare client (Update_decorators client resourceGroupName vaultName vault)"

subsection \<open>Senders and responders\<close>




definition ListByResourceGroupSender ::
    "VaultsClient \<Rightarrow> http_request option \<Rightarrow> http_response option \<times> error option" where
  "ListByResourceGroupSender client req = Send client req"

definition ListBySubscriptionIDSender ::
    "VaultsClient \<Rightarrow> http_request option \<Rightarrow> http_response option \<times> error option" where
  "ListBySubscriptionIDSender client req = Send client req"





definition ListByResourceGroupResponder ::
    "VaultsClient \<Rightarrow> http_response option \<Rightarrow> VaultList \<times> error option" where
  "ListByResourceGroupResponder client resp =
     (case RespondVaultList client resp [StatusOK] of
        (result, err) \<Rightarrow> (result\<lparr>vl_Response := resp\<rparr>, err))"

definition ListBySubscriptionIDResponder ::
    "VaultsClient \<Rightarrow> http_response option \<Rightarrow> VaultList \<times> error option" where
  "ListBySubscriptionIDResponder client resp =
     (case RespondVaultList client resp [StatusOK] of
        (result, err) \<Rightarrow> (result\<lparr>vl_Response := resp\<rparr>, err))"


subsection \<open>Operations\<close>





subsection \<open>Paged listing\<close>

text \<open>
  Modelled from the spec: \<^verbatim>\<open>VaultList.vaultListPreparer\<close>, declared in \<^verbatim>\<open>models.go\<close> outside
  the sources. The spec has the iterators "wrap a next link field returned by list
  endpoints to fetch subsequent pages": the request for the next page is a GET of the
  next link, and there is no request (and no error) when the list has no next link.
\<close>

definition vaultListPreparer ::
    "VaultsClient \<Rightarrow> VaultList \<Rightarrow> http_request option \<times> error option" where
  "vaultListPreparer client vl =
     (case vl_NextLink vl of
        None \<Rightarrow> (None, None)
      | Some link \<Rightarrow>
          if link = [] then (None, None)
          else Prepare client [AsJSON, AsGet, WithBaseURL link])"

definition listByResourceGroupNextResults ::
    "VaultsClient \<Rightarrow> VaultList \<Rightarrow> VaultList \<times> error option \<times> stage list" where
  "listByResourceGroupNextResults client lastResults =
     (let result = zero_VaultList
      in case vaultListPreparer client lastResults of
           (req, Some err) \<Rightarrow>
             (result,
              Some (DetailedError err ''recoveryservices.VaultsClient''
                      ''listByResourceGroupNextResults'' None
                      ''Failure preparing next results request''),
              [Prepared])
         | (None, None) \<Rightarrow> (result, None, [Prepared])
         | (Some rq, None) \<Rightarrow>
             (case ListByResourceGroupSender client (Some rq) of
                (resp, Some err) \<Rightarrow>
                  (result\<lparr>vl_Response := resp\<rparr>,
                   Some (DetailedError err ''recoveryservices.VaultsClient''
                           ''listByResourceGroupNextResults'' resp
                           ''Failure sending next results request''),
                   [Prepared, Sent (Some rq)])
              | (resp, None) \<Rightarrow>
                  (case ListByResourceGroupResponder client resp of
                     (result, Some err) \<Rightarrow>
                       (result,
                        Some (DetailedError err ''recoveryservices.VaultsClient''
                                ''listByResourceGroupNextResults'' resp
                                ''Failure responding to next results request''),
                        [Prepared, Sent (Some rq), Responded resp])
                   | (result, None) \<Rightarrow>
                       (result, None, [Prepared, Sent (Some rq), Responded resp]))))"

definition listBySubscriptionIDNextResults ::
    "VaultsClient \<Rightarrow> VaultList \<Rightarrow> VaultList \<times> error option \<times> stage list" where
  "listBySubscriptionIDNextResults client lastResults =
     (let result = zero_VaultList
      in case vaultListPreparer client lastResults of
           (req, Some err) \<Rightarrow>
             (result,
              Some (DetailedError err ''recoveryservices.VaultsClient''
                      ''listBySubscriptionIDNextResults'' None
                      ''Failure preparing next results request''),
              [Prepared])
         | (None, None) \<Rightarrow> (result, None, [Prepared])
         | (Some rq, None) \<Rightarrow>
             (case ListBySubscriptionIDSender client (Some rq) of
                (resp, Some err) \<Rightarrow>
                  (result\<lparr>vl_Response := resp\<rparr>,
                   Some (DetailedError err ''recoveryservices.VaultsClient''
                           ''listBySubscriptionIDNextResults'' resp
                           ''Failure sending next results request''),
                   [Prepared, Sent (Some rq)])
              | (resp, None) \<Rightarrow>
                  (case ListBySubscriptionIDResponder client resp of
                     (result, Some err) \<Rightarrow>
                       (result,
                        Some (DetailedError err ''recoveryservices.VaultsClient''
                                ''listBySubscriptionIDNextResults'' resp
                                ''Failure responding to next results request''),
                        [Prepared, Sent (Some rq), Responded resp])
                   | (result, None) \<Rightarrow>
                       (result, None, [Prepared, Sent (Some rq), Responded resp]))))"

text \<open>
  A page holds the list it shows and the function that fetches the list after it; an
  iterator holds a page and an index into its values.
\<close>

record VaultListPage =
  page_fn :: "VaultList \<Rightarrow> VaultList \<times> error option \<times> stage list"
  page_vl :: VaultList

record VaultListIterator =
  iter_i :: nat
  iter_page :: VaultListPage

definition ListByResourceGroup ::
    "VaultsClient \<Rightarrow> string \<Rightarrow> VaultListPage \<times> error option \<times> stage list" where
  "ListByResourceGroup client resourceGroupName =
     (let result = \<lparr>page_fn = listByResourceGroupNextResults client, page_vl = zero_VaultList\<rparr>
      in case ListByResourceGroupPreparer client resourceGroupName of
           (req, Some err) \<Rightarrow>
             (result,
              Some (DetailedError err ''recoveryservices.VaultsClient'' ''ListByResourceGroup'' None
                      ''Failure preparing request''),
              [Prepared])
         | (req, None) \<Rightarrow>
             (case ListByResourceGroupSender client req of
                (resp, Some err) \<Rightarrow>
                  (result\<lparr>page_vl := (page_vl result)\<lparr>vl_Response := resp\<rparr>\<rparr>,
                   Some (DetailedError err ''recoveryservices.VaultsClient'' ''ListByResourceGroup''
                           resp ''Failure sending request''),
                   [Prepared, Sent req])
              | (resp, None) \<Rightarrow>
                  (case ListByResourceGroupResponder client resp of
                     (vl, Some err) \<Rightarrow>
                       (result\<lparr>page_vl := vl\<rparr>,
                        Some (DetailedError err ''recoveryservices.VaultsClient''
                                ''ListByResourceGroup'' resp ''Failure responding to request''),
                        [Prepared, Sent req, Responded resp])
                   | (vl, None) \<Rightarrow>
                       (result\<lparr>page_vl := vl\<rparr>, None, [Prepared, Sent req, Responded resp]))))"

definition ListBySubscriptionID ::
    "VaultsClient \<Rightarrow> VaultListPage \<times> error option \<times> stage list" where
  "ListBySubscriptionID client =
     (let result = \<lparr>page_fn = listBySubscriptionIDNextResults client, page_vl = zero_VaultList\<rparr>
      in case ListBySubscriptionIDPreparer client of
           (req, Some err) \<Rightarrow>
             (result,
              Some (DetailedError err ''recoveryservices.VaultsClient'' ''ListBySubscriptionID'' None
                      ''Failure preparing request''),
              [Prepared])
         | (req, None) \<Rightarrow>
             (case ListBySubscriptionIDSender client req of
                (resp, Some err) \<Rightarrow>
                  (result\<lparr>page_vl := (page_vl result)\<lparr>vl_Response := resp\<rparr>\<rparr>,
                   Some (DetailedError err ''recoveryservices.VaultsClient'' ''ListBySubscriptionID''
                           resp ''Failure sending request''),
                   [Prepared, Sent req])
              | (resp, None) \<Rightarrow>
                  (case ListBySubscriptionIDResponder client resp of
                     (vl, Some err) \<Rightarrow>
                       (result\<lparr>page_vl := vl\<rparr>,
                        Some (DetailedError err ''recoveryservices.VaultsClient''
                                ''ListBySubscriptionID'' resp ''Failure responding to request''),
                        [Prepared, Sent req, Responded resp])
                   | (vl, None) \<Rightarrow>
                       (result\<lparr>page_vl := vl\<rparr>, None, [Prepared, Sent req, Responded resp]))))"

definition ListByResourceGroupComplete ::
    "VaultsClient \<Rightarrow> string \<Rightarrow> VaultListIterator \<times> error option \<times> stage list" where
  "ListByResourceGroupComplete client resourceGroupName =
     (case ListByResourceGroup client resourceGroupName of
        (page, err, stages) \<Rightarrow> (\<lparr>iter_i = 0, iter_page = page\<rparr>, err, stages))"

definition ListBySubscriptionIDComplete ::
    "VaultsClient \<Rightarrow> VaultListIterator \<times> error option \<times> stage list" where
  "ListBySubscriptionIDComplete client =
     (case ListBySubscriptionID client of
        (page, err, stages) \<Rightarrow> (\<lparr>iter_i = 0, iter_page = page\<rparr>, err, stages))"

definition values_of :: "VaultList \<Rightarrow> Vault list" where
  "values_of vl = (case vl_Value vl of None \<Rightarrow> [] | Some vs \<Rightarrow> vs)"

text \<open>
  Modelled from the spec: the methods of \<^verbatim>\<open>VaultList\<close>, \<^verbatim>\<open>VaultListPage\<close> and
  \<^verbatim>\<open>VaultListIterator\<close>, which are declared in \<^verbatim>\<open>models.go\<close> outside the sources. The spec
  has the iterators "wrap a next link field returned by list endpoints to fetch subsequent
  pages lazily": a page holds the list at hand and asks its function for the list after
  it only when it is advanced, and an iterator steps through the values of its page and
  advances the page only when it has run past them. The spec does not say when a page is
  done. The function that fetches the next list reports that there is none by returning
  the empty list and no error, so a page is done when the list at hand has no values,
  and an iterator when its page is done. A failed advance leaves the page and the index
  as they were.
\<close>

definition IsEmpty :: "VaultList \<Rightarrow> bool" where
  "IsEmpty vl = (vl_Value vl = None \<or> vl_Value vl = Some [])"

definition page_NotDone :: "VaultListPage \<Rightarrow> bool" where
  "page_NotDone page = (\<not> IsEmpty (page_vl page))"

definition page_Values :: "VaultListPage \<Rightarrow> Vault list" where
  "page_Values page = (if IsEmpty (page_vl page) then [] else values_of (page_vl page))"

definition page_NextWithContext ::
    "VaultListPage \<Rightarrow> VaultListPage \<times> error option \<times> stage list" where
  "page_NextWithContext page =
     (case page_fn page (page_vl page) of
        (next, Some err, stages) \<Rightarrow> (page, Some err, stages)
      | (next, None, stages) \<Rightarrow> (page\<lparr>page_vl := next\<rparr>, None, stages))"

definition iter_NotDone :: "VaultListIterator \<Rightarrow> bool" where
  "iter_NotDone iter =
     (page_NotDone (iter_page iter) \<and> iter_i iter < length (page_Values (iter_page iter)))"

text \<open>\<^verbatim>\<open>Value()\<close> is read only while \<^verbatim>\<open>NotDone()\<close> holds, where the index is in range.\<close>

definition iter_Value :: "VaultListIterator \<Rightarrow> Vault" where
  "iter_Value iter =
     (if \<not> page_NotDone (iter_page iter) then zero_Vault
      else page_Values (iter_page iter) ! iter_i iter)"

definition iter_NextWithContext ::
    "VaultListIterator \<Rightarrow> VaultListIterator \<times> error option \<times> stage list" where
  "iter_NextWithContext iter =
     (if iter_i iter + 1 < length (page_Values (iter_page iter))
      then (iter\<lparr>iter_i := iter_i iter + 1\<rparr>, None, [])
      else case page_NextWithContext (iter_page iter) of
             (page, Some err, stages) \<Rightarrow> (iter, Some err, stages)
           | (page, None, stages) \<Rightarrow> (\<lparr>iter_i = 0, iter_page = page\<rparr>, None, stages))"

text \<open>
  Reading an iterator to its end, the way the read handler of DataShare reads the one it
  is given: \<^verbatim>\<open>for iter.NotDone() { v := iter.Value(); ...; if err := iter.NextWithContext(ctx);
  err != nil { return err } }\<close>. The result is the values read, the error that ended the
  reading if one did, and the stages of the requests made on the way. The number bounds
  the values read; \<open>None\<close> means it was used up before the iterator was done (a service
  may name next links without end).
\<close>

fun enumerate_values ::
    "nat \<Rightarrow> VaultListIterator \<Rightarrow> (Vault list \<times> error option \<times> stage list) option" where
  "enumerate_values 0 iter = None"
| "enumerate_values (Suc fuel) iter =
     (if \<not> iter_NotDone iter then Some ([], None, [])
      else case iter_NextWithContext iter of
             (iter', Some err, stages) \<Rightarrow> Some ([iter_Value iter], Some err, stages)
           | (iter', None, stages) \<Rightarrow>
               (case enumerate_values fuel iter' of
                  None \<Rightarrow> None
                | Some (vs, err, stages') \<Rightarrow> Some (iter_Value iter # vs, err, stages @ stages')))"

text \<open>
  A client serves the lists \<open>rest\<close> after the list \<open>vl\<close>: each list but the last names a
  next link, and the GET of that link is prepared, sent and answered without error with
  the following list; the last list names no next link.
\<close>

definition no_next_link :: "VaultList \<Rightarrow> bool" where
  "no_next_link vl = (vl_NextLink vl = None \<or> vl_NextLink vl = Some [])"

fun serves :: "VaultsClient \<Rightarrow> VaultList \<Rightarrow> VaultList list \<Rightarrow> bool" where
  "serves client vl [] = no_next_link vl"
| "serves client vl (nxt # rest) =
     (case vl_NextLink vl of
        None \<Rightarrow> False
      | Some link \<Rightarrow>
          link \<noteq> [] \<and>
          prepare_failure client [AsJSON, AsGet, WithBaseURL link] = None \<and>
          (case Send client (Some (foldl decorate empty_request [AsJSON, AsGet, WithBaseURL link])) of
             (resp, serr) \<Rightarrow>
               serr = None \<and>
               (case RespondVaultList client resp [StatusOK] of
                  (vl', rerr) \<Rightarrow> rerr = None \<and> nxt = vl'\<lparr>vl_Response := resp\<rparr>)) \<and>
          serves client nxt rest)"

definition sends :: "stage list \<Rightarrow> nat" where
  "sends stages = length (filter (\<lambda>s. case s of Sent _ \<Rightarrow> True | _ \<Rightarrow> False) stages)"

section \<open>Sample collaborators\<close>

text \<open>
  Concrete collaborators on which the theorems below are exercised: parsers that accept
  one resource ID each, a service on which every call succeeds and the existence check
  finds nothing, and the resource data of a new resource.
\<close>

definition not_found :: "http_response option" where
  "not_found = Some \<lparr>StatusCode = 404, ResponseBody = []\<rparr>"

definition ok_response :: "http_response option" where
  "ok_response = Some \<lparr>StatusCode = 200, ResponseBody = []\<rparr>"

definition done_future :: future where
  "done_future =
     \<lparr>Response_before = ok_response, WaitForCompletionRef = None, Response_after = ok_response\<rparr>"

definition sample_spring_id :: string where
  "sample_spring_id = ''/subscriptions/s1/resourceGroups/rg1/providers/Microsoft.AppPlatform/Spring/svc1/apps/app1''"

definition sample_SpringCloudAppID :: "string \<Rightarrow> error + SpringCloudAppId" where
  "sample_SpringCloudAppID input =
     (if input = sample_spring_id
      then Inr \<lparr>sca_ResourceGroup = ''rg1'', sca_ServiceName = ''svc1'', sca_Name = ''app1''\<rparr>
      else Inl (Failure ''not a Spring Cloud App ID''))"

definition sample_spring_meta :: spring_meta where
  "sample_spring_meta =
     \<lparr>SpringCloudAppID = sample_SpringCloudAppID,
      sc_existing = (\<lparr>app_Response = not_found, app_ID = None, app_Name = None\<rparr>,
                     Some (Failure ''404'')),
      sc_future = (done_future, None),
      sc_resp = (\<lparr>app_Response = ok_response, app_ID = Some sample_spring_id,
                  app_Name = Some ''app1''\<rparr>, None),
      sr_resp = (\<lparr>app_Response = ok_response, app_ID = Some sample_spring_id,
                  app_Name = Some ''app1''\<rparr>, None),
      sd_err = None\<rparr>"

definition sample_eventgrid_id :: string where
  "sample_eventgrid_id = ''/subscriptions/s1/resourceGroups/rg1/providers/Microsoft.EventGrid/domains/dom1/topics/topic1''"

definition sample_EventGridDomainTopicID :: "string \<Rightarrow> error + EventGridDomainTopicId" where
  "sample_EventGridDomainTopicID input =
     (if input = sample_eventgrid_id
      then Inr \<lparr>egt_ResourceGroup = ''rg1'', egt_Domain = ''dom1'', egt_Name = ''topic1''\<rparr>
      else Inl (Failure ''not an EventGrid Domain Topic ID''))"

definition sample_eventgrid_meta :: eventgrid_meta where
  "sample_eventgrid_meta =
     \<lparr>eg_ShouldResourcesBeImported = True,
      EventGridDomainTopicID = sample_EventGridDomainTopicID,
      ec_existing = (\<lparr>dt_Response = not_found, dt_ID = None, dt_Name = None\<rparr>,
                     Some (Failure ''404'')),
      ec_future = (done_future, None),
      ec_read = (\<lparr>dt_Response = ok_response, dt_ID = Some sample_eventgrid_id,
                  dt_Name = Some ''topic1''\<rparr>, None),
      er_resp = (\<lparr>dt_Response = ok_response, dt_ID = Some sample_eventgrid_id,
                  dt_Name = Some ''topic1''\<rparr>, None),
      ed_future = (done_future, None)\<rparr>"

definition sample_datashare_id :: string where
  "sample_datashare_id = ''/subscriptions/s1/resourceGroups/rg1/providers/Microsoft.DataShare/accounts/acc1/shares/share1''"

definition sample_datashare_account_id :: string where
  "sample_datashare_account_id = ''/subscriptions/s1/resourceGroups/rg1/providers/Microsoft.DataShare/accounts/acc1''"

definition sample_DataShareID :: "string \<Rightarrow> error + DataShareId" where
  "sample_DataShareID input =
     (if input = sample_datashare_id
      then Inr \<lparr>dsi_ResourceGroup = ''rg1'', dsi_AccountName = ''acc1'', dsi_Name = ''share1''\<rparr>
      else Inl (Failure ''not a DataShare ID''))"

definition sample_DataShareAccountID :: "string \<Rightarrow> error + DataShareAccountId" where
  "sample_DataShareAccountID input =
     (if input = sample_datashare_account_id
      then Inr \<lparr>dsa_ResourceGroup = ''rg1'', dsa_Name = ''acc1''\<rparr>
      else Inl (Failure ''not a DataShare Account ID''))"

definition sample_setting :: ScheduledSynchronizationSetting where
  "sample_setting =
     \<lparr>ss_ID = None, ss_Name = None, ss_Kind = [], ss_RecurrenceInterval = [],
      ss_SynchronizationTime = None\<rparr>"

definition sample_share :: Share where
  "sample_share =
     \<lparr>sh_Response = ok_response, sh_ID = Some sample_datashare_id,
      sh_ShareProperties = Some \<lparr>ShareKind = ''CopyBased'', Description = None, Terms = None\<rparr>\<rparr>"

definition sample_datashare_meta :: datashare_meta where
  "sample_datashare_meta =
     \<lparr>DataShareAccountID = sample_DataShareAccountID,
      DataShareID = sample_DataShareID,
      time_Parse = (\<lambda>s. \<lparr>IsZero = False, Format_RFC3339 = s\<rparr>),
      dc_existing = (\<lparr>sh_Response = not_found, sh_ID = None, sh_ShareProperties = None\<rparr>,
                     Some (Failure ''404'')),
      dc_create_err = None,
      dc_resp = (sample_share, None),
      dc_syncFuture = (done_future, None),
      dc_syncCreate_err = None,
      dr_resp = (sample_share, None),
      dr_accountResp = (\<lparr>acc_Response = ok_response,
                          acc_ID = Some sample_datashare_account_id\<rparr>, None),
      dr_syncIterator = (\<lparr>it_NotDone = False,
                           it_Value = IsScheduledSynchronizationSetting sample_setting,
                           it_NextWithContext = None, it_NotDone_after = False\<rparr>, None),
      dr_syncResp = (Some (IsScheduledSynchronizationSetting sample_setting), None),
      dr_set_snapshot_schedule = None,
      dd_syncFuture = (done_future, None),
      dd_future = (done_future, None)\<rparr>"

definition sample_cosmos_id :: string where
  "sample_cosmos_id = ''/subscriptions/s1/resourceGroups/rg1/providers/Microsoft.DocumentDB/databaseAccounts/acc1/apis/mongodb/databases/db1/collections/coll1''"

definition sample_ParseCosmosDatabaseCollectionID ::
    "string \<Rightarrow> error + CosmosDatabaseCollectionID" where
  "sample_ParseCosmosDatabaseCollectionID input =
     (if input = sample_cosmos_id
      then Inr \<lparr>cdc_ResourceGroup = ''rg1'', cdc_Account = ''acc1'', cdc_Database = ''db1'',
                cdc_Collection = ''coll1''\<rparr>
      else Inl (Failure ''not a Cosmos collection ID''))"

definition sample_CosmosGetIDFromResponse :: "http_response option \<Rightarrow> error + string" where
  "sample_CosmosGetIDFromResponse resp =
     (case resp of
        None \<Rightarrow> Inl (Failure ''Error: Unable to get Cosmos ID from Response'')
      | Some r \<Rightarrow> Inr sample_cosmos_id)"

definition sample_collection :: MongoDBCollection where
  "sample_collection =
     \<lparr>mc_Response = ok_response,
      mc_Properties = Some \<lparr>mcp_ID = Some ''coll1'',
                            mcp_ShardKey = [(''uid'', Some ''Hash'')],
                            mcp_Indexes = None\<rparr>\<rparr>"

definition sample_cosmos_meta :: cosmos_meta where
  "sample_cosmos_meta =
     \<lparr>co_ShouldResourcesBeImported = True,
      ParseCosmosDatabaseCollectionID = sample_ParseCosmosDatabaseCollectionID,
      CosmosGetIDFromResponse = sample_CosmosGetIDFromResponse,
      cc_existing = (\<lparr>mc_Response = not_found, mc_Properties = None\<rparr>, Some (Failure ''404'')),
      cc_future = (\<lambda>db. (done_future, None)),
      cc_resp = (sample_collection, None),
      cu_future = (\<lambda>db. (done_future, None)),
      cu_throughputFuture = (\<lambda>t. (done_future, None)),
      cr_resp = (sample_collection, None),
      cr_set_default_ttl_seconds = None,
      cr_set_index = None,
      cr_set_system_indexes = None,
      cr_throughputResp = (\<lparr>th_Response = ok_response, th_Throughput = Some 400\<rparr>, None),
      cd_future = (done_future, None)\<rparr>"

text \<open>
  The resource data of a new resource before its create handler runs (no ID yet), and of
  an existing resource with the given ID.
\<close>

definition new_resource :: "(string \<times> tfvalue) list \<Rightarrow> run" where
  "new_resource config =
     \<lparr>rd = \<lparr>Id = [], IsNewResource = True, attrs = map_of config, prior = Map.empty\<rparr>,
      trace = []\<rparr>"

definition existing_resource :: "string \<Rightarrow> (string \<times> tfvalue) list \<Rightarrow> run" where
  "existing_resource i config =
     \<lparr>rd = \<lparr>Id = i, IsNewResource = False, attrs = map_of config, prior = map_of config\<rparr>,
      trace = []\<rparr>"

definition sample_datashare_config :: "(string \<times> tfvalue) list" where
  "sample_datashare_config =
     [(''name'', VString ''share1''), (''account_id'', VString sample_datashare_account_id),
      (''kind'', VString ''CopyBased'')]"

definition sample_cosmos_config :: "(string \<times> tfvalue) list" where
  "sample_cosmos_config =
     [(''name'', VString ''coll1''), (''resource_group_name'', VString ''rg1''),
      (''account_name'', VString ''acc1''), (''database_name'', VString ''db1'')]"

definition sample_spring_config :: "(string \<times> tfvalue) list" where
  "sample_spring_config =
     [(''name'', VString ''app1''), (''resource_group_name'', VString ''rg1''),
      (''service_name'', VString ''svc1'')]"

definition sample_eventgrid_config :: "(string \<times> tfvalue) list" where
  "sample_eventgrid_config =
     [(''name'', VString ''topic1''), (''domain_name'', VString ''dom1''),
      (''resource_group_name'', VString ''rg1'')]"

text \<open>
  Variants of the sample services: the resource has vanished when the read handler looks
  for it (its \<^verbatim>\<open>Get\<close> fails with a 404), or that \<^verbatim>\<open>Get\<close> fails with a 500.
\<close>

definition server_error :: "http_response option" where
  "server_error = Some \<lparr>StatusCode = 500, ResponseBody = []\<rparr>"

definition gone_spring_meta :: spring_meta where
  "gone_spring_meta =
     sample_spring_meta
       \<lparr>sr_resp := (\<lparr>app_Response = not_found, app_ID = None, app_Name = None\<rparr>,
                    Some (Failure ''404''))\<rparr>"

definition failing_spring_meta :: spring_meta where
  "failing_spring_meta =
     sample_spring_meta
       \<lparr>sr_resp := (\<lparr>app_Response = server_error, app_ID = None, app_Name = None\<rparr>,
                    Some (Failure ''500''))\<rparr>"

definition gone_eventgrid_meta :: eventgrid_meta where
  "gone_eventgrid_meta =
     sample_eventgrid_meta
       \<lparr>er_resp := (\<lparr>dt_Response = not_found, dt_ID = None, dt_Name = None\<rparr>,
                    Some (Failure ''404''))\<rparr>"

definition failing_eventgrid_meta :: eventgrid_meta where
  "failing_eventgrid_meta =
     sample_eventgrid_meta
       \<lparr>er_resp := (\<lparr>dt_Response = server_error, dt_ID = None, dt_Name = None\<rparr>,
                    Some (Failure ''500''))\<rparr>"

definition gone_datashare_meta :: datashare_meta where
  "gone_datashare_meta =
     sample_datashare_meta
       \<lparr>dr_resp := (\<lparr>sh_Response = not_found, sh_ID = None, sh_ShareProperties = None\<rparr>,
                    Some (Failure ''404''))\<rparr>"

definition failing_datashare_meta :: datashare_meta where
  "failing_datashare_meta =
     sample_datashare_meta
       \<lparr>dr_resp := (\<lparr>sh_Response = server_error, sh_ID = None, sh_ShareProperties = None\<rparr>,
                    Some (Failure ''500''))\<rparr>"

definition gone_cosmos_meta :: cosmos_meta where
  "gone_cosmos_meta =
     sample_cosmos_meta
       \<lparr>cr_resp := (\<lparr>mc_Response = not_found, mc_Properties = None\<rparr>, Some (Failure ''404''))\<rparr>"

definition failing_cosmos_meta :: cosmos_meta where
  "failing_cosmos_meta =
     sample_cosmos_meta
       \<lparr>cr_resp := (\<lparr>mc_Response = server_error, mc_Properties = None\<rparr>, Some (Failure ''500''))\<rparr>"

text \<open>Collections that report two and three shard keys.\<close>

definition two_shard_keys_meta :: cosmos_meta where
  "two_shard_keys_meta =
     sample_cosmos_meta
       \<lparr>cr_resp := (\<lparr>mc_Response = ok_response,
                     mc_Properties = Some \<lparr>mcp_ID = Some ''coll1'',
                                           mcp_ShardKey = [(''uid'', Some ''Hash''), (''region'', Some ''Hash'')],
                                           mcp_Indexes = None\<rparr>\<rparr>, None)\<rparr>"

definition three_shard_keys_meta :: cosmos_meta where
  "three_shard_keys_meta =
     sample_cosmos_meta
       \<lparr>cr_resp := (\<lparr>mc_Response = ok_response,
                     mc_Properties = Some \<lparr>mcp_ID = Some ''coll1'',
                                           mcp_ShardKey = [(''uid'', Some ''Hash''), (''region'', Some ''Hash''),
                                                           (''tenant'', Some ''Hash'')],
                                           mcp_Indexes = None\<rparr>\<rparr>, None)\<rparr>"

text \<open>
  The read handler of a service, run on a resource with the given ID, finds the resource
  gone: the ID parses and the \<^verbatim>\<open>Get\<close> fails with a response classified as not found.
\<close>

definition spring_read_finds_gone :: "spring_meta \<Rightarrow> string \<Rightarrow> bool" where
  "spring_read_finds_gone meta i =
     (case SpringCloudAppID meta i of
        Inl err \<Rightarrow> False
      | Inr rid \<Rightarrow>
          snd (sr_resp meta) \<noteq> None \<and> ResponseWasNotFound (app_Response (fst (sr_resp meta))))"

definition eventgrid_read_finds_gone :: "eventgrid_meta \<Rightarrow> string \<Rightarrow> bool" where
  "eventgrid_read_finds_gone meta i =
     (case EventGridDomainTopicID meta i of
        Inl err \<Rightarrow> False
      | Inr rid \<Rightarrow>
          snd (er_resp meta) \<noteq> None \<and> ResponseWasNotFound (dt_Response (fst (er_resp meta))))"

definition datashare_read_finds_gone :: "datashare_meta \<Rightarrow> string \<Rightarrow> bool" where
  "datashare_read_finds_gone meta i =
     (case DataShareID meta i of
        Inl err \<Rightarrow> False
      | Inr rid \<Rightarrow>
          snd (dr_resp meta) \<noteq> None \<and> ResponseWasNotFound (sh_Response (fst (dr_resp meta))))"

definition cosmos_read_finds_gone :: "cosmos_meta \<Rightarrow> string \<Rightarrow> bool" where
  "cosmos_read_finds_gone meta i =
     (case ParseCosmosDatabaseCollectionID meta i of
        Inl err \<Rightarrow> False
      | Inr rid \<Rightarrow>
          snd (cr_resp meta) \<noteq> None \<and> ResponseWasNotFound (mc_Response (fst (cr_resp meta))))"










text \<open>
  The EventGrid service on which the delete is accepted and the wait for its completion
  then fails, the last response of the future being a 404.
\<close>

definition lost_delete_eventgrid_meta :: eventgrid_meta where
  "lost_delete_eventgrid_meta =
     sample_eventgrid_meta
       \<lparr>ed_future := (\<lparr>Response_before = ok_response,
                        WaitForCompletionRef = Some (Failure ''polling failed''),
                        Response_after = not_found\<rparr>, None)\<rparr>"

text \<open>
  A vaults client whose HTTP layer accepts every request and answers 200, and variants
  on which preparing fails, sending fails, and the answer is rejected.
\<close>

definition sample_vaults_client :: VaultsClient where
  "sample_vaults_client =
     \<lparr>BaseURI = ''https://management.azure.com'',
      SubscriptionID = ''s1'',
      Encode = (\<lambda>location v. v),
      prepare_failure = (\<lambda>ds. None),
      Send = (\<lambda>req. (Some \<lparr>StatusCode = 200, ResponseBody = []\<rparr>, None)),
      RespondVault = (\<lambda>resp codes. (\<lparr>v_Response = None, v_ID = Some ''vault1'',
                                           v_Name = Some ''vault1''\<rparr>, None)),
      RespondVaultList = (\<lambda>resp codes. (\<lparr>vl_Response = None, vl_Value = Some [],
                                               vl_NextLink = None\<rparr>, None)),
      RespondNone = (\<lambda>resp codes. None)\<rparr>"




text \<open>
  A vaults client whose service holds three vaults on three lists: two on the first, none
  on the second, one on the third. The answer to a request carries the URL requested,
  and the responder reads the list off that URL.
\<close>

definition vault_named :: "string \<Rightarrow> Vault" where
  "vault_named n = \<lparr>v_Response = None, v_ID = Some n, v_Name = Some n\<rparr>"

definition answer_to :: "string \<Rightarrow> http_response option" where
  "answer_to url = Some \<lparr>StatusCode = 200, ResponseBody = url\<rparr>"

text \<open>
  A service with three lists of vaults: the first names the second, the second, which
  holds the vaults \<open>middle\<close>, names the third, and the third names no further list.
\<close>

definition paged_vaults_client :: "Vault list \<Rightarrow> VaultsClient" where
  "paged_vaults_client middle =
     sample_vaults_client
       \<lparr>Send := (\<lambda>req. case req of
                          None \<Rightarrow> (None, Some (Failure ''no request''))
                        | Some rq \<Rightarrow> (answer_to (BaseURL rq), None)),
        RespondVaultList := (\<lambda>resp codes.
           case resp of
             None \<Rightarrow> (zero_VaultList, Some (Failure ''no response''))
           | Some rs \<Rightarrow>
               if ResponseBody rs = ''https://management.azure.com''
               then (\<lparr>vl_Response = None,
                      vl_Value = Some [vault_named ''a'', vault_named ''b''],
                      vl_NextLink = Some ''https://management.azure.com/2''\<rparr>, None)
               else if ResponseBody rs = ''https://management.azure.com/2''
               then (\<lparr>vl_Response = None, vl_Value = Some middle,
                      vl_NextLink = Some ''https://management.azure.com/3''\<rparr>, None)
               else (\<lparr>vl_Response = None, vl_Value = Some [vault_named ''d''],
                      vl_NextLink = None\<rparr>, None))\<rparr>"

definition first_list :: VaultList where
  "first_list =
     \<lparr>vl_Response = answer_to ''https://management.azure.com'',
      vl_Value = Some [vault_named ''a'', vault_named ''b''],
      vl_NextLink = Some ''https://management.azure.com/2''\<rparr>"

definition second_list :: "Vault list \<Rightarrow> VaultList" where
  "second_list middle =
     \<lparr>vl_Response = answer_to ''https://management.azure.com/2'', vl_Value = Some middle,
      vl_NextLink = Some ''https://management.azure.com/3''\<rparr>"

definition third_list :: VaultList where
  "third_list =
     \<lparr>vl_Response = answer_to ''https://management.azure.com/3'',
      vl_Value = Some [vault_named ''d''], vl_NextLink = None\<rparr>"

text \<open>
  Sample helpers for the ID parsers: \<^verbatim>\<open>PopSegment\<close> takes the named segment out of the
  path of the ID, \<^verbatim>\<open>ValidateNoEmptySegments\<close> accepts an ID whose path has no segment left,
  and \<^verbatim>\<open>ParseAzureResourceID\<close> knows one workspace ID and one authorization rule ID.
\<close>

definition sample_workspace_id :: string where
  "sample_workspace_id = ''/subscriptions/s1/resourceGroups/rg1/providers/Microsoft.OperationalInsights/workspaces/ws1''"

definition sample_rule_id :: string where
  "sample_rule_id = ''/subscriptions/s1/resourceGroups/rg1/providers/Microsoft.ServiceBus/namespaces/ns1/AuthorizationRules/rule1''"

definition sample_ParseAzureResourceID :: "string \<Rightarrow> error + ResourceID" where
  "sample_ParseAzureResourceID input =
     (if input = sample_workspace_id then
        Inr \<lparr>rid_SubscriptionID = ''s1'', rid_ResourceGroup = ''rg1'',
             rid_Provider = ''Microsoft.OperationalInsights'',
             rid_Path = [(''workspaces'', ''ws1'')]\<rparr>
      else if input = sample_rule_id then
        Inr \<lparr>rid_SubscriptionID = ''s1'', rid_ResourceGroup = ''rg1'',
             rid_Provider = ''Microsoft.ServiceBus'',
             rid_Path = [(''namespaces'', ''ns1''), (''AuthorizationRules'', ''rule1'')]\<rparr>
      else Inl (Failure ''cannot parse Azure ID''))"

definition sample_PopSegment ::
    "ResourceID \<Rightarrow> string \<Rightarrow> (string \<times> error option) \<times> ResourceID" where
  "sample_PopSegment rid name =
     (case map_of (rid_Path rid) name of
        None \<Rightarrow> (([], Some (Errorf ''ID was missing the `%s` element'' [S name] None)), rid)
      | Some v \<Rightarrow>
          ((v, None), rid\<lparr>rid_Path := filter (\<lambda>kv. fst kv \<noteq> name) (rid_Path rid)\<rparr>))"

definition sample_ValidateNoEmptySegments :: "ResourceID \<Rightarrow> string \<Rightarrow> error option" where
  "sample_ValidateNoEmptySegments rid sourceId =
     (if rid_Path rid = [] then None
      else Some (Errorf ''ID contained more segments than required: %q'' [S sourceId] None))"

definition sample_azure_helpers :: azure_helpers where
  "sample_azure_helpers =
     \<lparr>ParseAzureResourceID = sample_ParseAzureResourceID,
      PopSegment = sample_PopSegment,
      ValidateNoEmptySegments = sample_ValidateNoEmptySegments\<rparr>"

section \<open>Properties: Cosmos Mongo index translation\<close>

lemma expand_loop_map:
  "expand_loop results indexes =
     results @
       map (\<lambda>index. \<lparr>Key = Some \<lparr>Keys = ExpandStringSlice (ix_keys index)\<rparr>,
                      Options = Some \<lparr>ExpireAfterSeconds = None,
                                       Unique = Some (ix_unique index)\<rparr>\<rparr>) indexes"
  by (induction indexes arbitrary: results) simp_all

lemma flatten_loop_append:
  "flatten_loop st (xs @ ys) = flatten_loop (flatten_loop st xs) ys"
  by (induction xs arbitrary: st) simp_all

lemma flatten_step_user:
  assumes "ix_keys e \<noteq> []" and "hd (ix_keys e) \<noteq> ''_id''"
    and "hd (ix_keys e) \<noteq> ''DocumentDBDefaultIndex''" and "hd (ix_keys e) \<noteq> ''_ts''"
  shows "flatten_step (us, ss, t)
           \<lparr>Key = Some \<lparr>Keys = ExpandStringSlice (ix_keys e)\<rparr>,
            Options = Some \<lparr>ExpireAfterSeconds = None, Unique = Some (ix_unique e)\<rparr>\<rparr>
         = (us @ [e], ss, t)"
  using assms
  by (cases "ix_keys e")
     (simp_all add: flatten_step_def ExpandStringSlice_def FlattenStringSlice_def isUnique_of_def)

lemma flatten_loop_user:
  assumes "\<forall>e\<in>set indexes. ix_keys e \<noteq> [] \<and> hd (ix_keys e) \<noteq> ''_id''
             \<and> hd (ix_keys e) \<noteq> ''DocumentDBDefaultIndex'' \<and> hd (ix_keys e) \<noteq> ''_ts''"
  shows "flatten_loop (us, ss, t)
           (map (\<lambda>index. \<lparr>Key = Some \<lparr>Keys = ExpandStringSlice (ix_keys index)\<rparr>,
                           Options = Some \<lparr>ExpireAfterSeconds = None,
                                            Unique = Some (ix_unique index)\<rparr>\<rparr>) indexes)
         = (us @ indexes, ss, t)"
  using assms
  by (induction indexes arbitrary: us) (simp_all add: flatten_step_user)

lemma flatten_step_ttl:
  "flatten_step (us, ss, t)
     \<lparr>Key = Some \<lparr>Keys = Some [''_ts'']\<rparr>,
      Options = Some \<lparr>ExpireAfterSeconds = Some x, Unique = None\<rparr>\<rparr> = (us, ss, Some x)"
  by (simp add: flatten_step_def)

lemma int32_in_range: "- 2147483648 \<le> x \<Longrightarrow> x < 2147483648 \<Longrightarrow> int32 x = x"
  by (simp add: int32_def)

lemma flatten_step_no_ts:
  assumes "flatten_step (us, ss, t) v = (us', ss', t')"
    and "\<forall>e\<in>set us \<union> set ss. ix_keys e \<noteq> [] \<and> hd (ix_keys e) \<noteq> ''_ts''"
  shows "\<forall>e\<in>set us' \<union> set ss'. ix_keys e \<noteq> [] \<and> hd (ix_keys e) \<noteq> ''_ts''"
  using assms
  by (auto simp: flatten_step_def FlattenStringSlice_def
           split: option.splits list.splits if_splits)

lemma flatten_loop_no_ts:
  assumes "flatten_loop (us, ss, t) vs = (us', ss', t')"
    and "\<forall>e\<in>set us \<union> set ss. ix_keys e \<noteq> [] \<and> hd (ix_keys e) \<noteq> ''_ts''"
  shows "\<forall>e\<in>set us' \<union> set ss'. ix_keys e \<noteq> [] \<and> hd (ix_keys e) \<noteq> ''_ts''"
  using assms
proof (induction vs arbitrary: us ss t)
  case Nil
  then show ?case by simp
next
  case (Cons v vs)
  obtain a b c where step: "flatten_step (us, ss, t) v = (a, b, c)"
    by (cases "flatten_step (us, ss, t) v") auto
  from flatten_step_no_ts[OF step Cons.prems(2)] Cons.IH[of a b c] Cons.prems(1) step
  show ?case by simp
qed

lemma flatten_never_emits_ts:
  assumes "flattenCosmosMongoCollectionIndex input = (us, ss, t)"
  shows "\<forall>e\<in>set us \<union> set ss. ix_keys e \<noteq> [] \<and> hd (ix_keys e) \<noteq> ''_ts''"
proof (cases input)
  case None
  with assms show ?thesis by (simp add: flattenCosmosMongoCollectionIndex_def)
next
  case (Some vs)
  with assms have "flatten_loop ([], [], None) vs = (us, ss, t)"
    by (simp add: flattenCosmosMongoCollectionIndex_def)
  from flatten_loop_no_ts[OF this] show ?thesis by simp
qed

text \<open>
  Claim C8, as amended. For every list of user index entries whose key lists are not
  empty and do not start with \<^verbatim>\<open>_id\<close>, \<^verbatim>\<open>DocumentDBDefaultIndex\<close> or \<^verbatim>\<open>_ts\<close>, and every
  non-nil default TTL, flattening the expanded indexes returns those same entries (keys
  and unique flags) as user indexes, no system index, and the TTL converted to \<^verbatim>\<open>int32\<close>,
  which is the TTL itself whenever it fits in 32 bits. And whatever the input, the
  flattener emits no entry, user or system, whose first key is \<^verbatim>\<open>_ts\<close>; so the entry the
  expander appends for the TTL is never emitted as an index.
\<close>

theorem C8_index_roundtrip:
  assumes "\<forall>e\<in>set indexes. ix_keys e \<noteq> [] \<and> hd (ix_keys e) \<noteq> ''_id''
             \<and> hd (ix_keys e) \<noteq> ''DocumentDBDefaultIndex'' \<and> hd (ix_keys e) \<noteq> ''_ts''"
  shows "flattenCosmosMongoCollectionIndex
           (expandCosmosMongoCollectionIndex indexes (Some ttl))
           = (indexes, [], Some (int32 ttl))
         \<and> (- 2147483648 \<le> ttl \<and> ttl < 2147483648 \<longrightarrow> int32 ttl = ttl)
         \<and> (\<forall>e \<in> set (fst (flattenCosmosMongoCollectionIndex
                               (expandCosmosMongoCollectionIndex any_indexes any_ttl)))
                   \<union> set (fst (snd (flattenCosmosMongoCollectionIndex
                                      (expandCosmosMongoCollectionIndex any_indexes any_ttl)))).
              ix_keys e \<noteq> [] \<and> hd (ix_keys e) \<noteq> ''_ts'')"
proof (intro conjI)
  show "flattenCosmosMongoCollectionIndex
          (expandCosmosMongoCollectionIndex indexes (Some ttl))
          = (indexes, [], Some (int32 ttl))"
    using assms
    by (simp add: flattenCosmosMongoCollectionIndex_def expandCosmosMongoCollectionIndex_def
          Let_def expand_loop_map flatten_loop_append flatten_loop_user flatten_step_ttl)
  show "- 2147483648 \<le> ttl \<and> ttl < 2147483648 \<longrightarrow> int32 ttl = ttl"
    by (simp add: int32_in_range)
  obtain us ss t where r: "flattenCosmosMongoCollectionIndex
      (expandCosmosMongoCollectionIndex any_indexes any_ttl) = (us, ss, t)"
    by (cases "flattenCosmosMongoCollectionIndex
                 (expandCosmosMongoCollectionIndex any_indexes any_ttl)") auto
  from flatten_never_emits_ts[OF r] r
  show "\<forall>e \<in> set (fst (flattenCosmosMongoCollectionIndex
                          (expandCosmosMongoCollectionIndex any_indexes any_ttl)))
              \<union> set (fst (snd (flattenCosmosMongoCollectionIndex
                                 (expandCosmosMongoCollectionIndex any_indexes any_ttl)))).
          ix_keys e \<noteq> [] \<and> hd (ix_keys e) \<noteq> ''_ts''"
    by simp
qed

text \<open>
  The theorem at one user index on \<^verbatim>\<open>name\<close> and \<^verbatim>\<open>age\<close>, unique, with a TTL of one hour.
\<close>

theorem C8_index_roundtrip_witness:
  "flattenCosmosMongoCollectionIndex
     (expandCosmosMongoCollectionIndex
        [\<lparr>ix_keys = [''name'', ''age''], ix_unique = True\<rparr>] (Some 3600))
   = ([\<lparr>ix_keys = [''name'', ''age''], ix_unique = True\<rparr>], [], Some 3600)"
  using C8_index_roundtrip
          [of "[\<lparr>ix_keys = [''name'', ''age''], ix_unique = True\<rparr>]" 3600 "[]" None]
  by simp

text \<open>
  The claim as first stated fails on an index entry with no key (the flattener skips it)
  and on a TTL beyond 32 bits (the expander keeps its low 32 bits): the entry is not
  returned, and the TTL 4294967301 comes back as 5.
\<close>

theorem C8_index_roundtrip_counterexample:
  "flattenCosmosMongoCollectionIndex
     (expandCosmosMongoCollectionIndex [\<lparr>ix_keys = [], ix_unique = False\<rparr>] (Some 4294967301))
   = ([], [], Some 5)"
  by (simp add: flattenCosmosMongoCollectionIndex_def expandCosmosMongoCollectionIndex_def
        flatten_step_def int32_def ExpandStringSlice_def)

section \<open>Properties: the read handlers\<close>

lemmas run_defs = emit_def SetId_def d_Set_def

text \<open>
  Claim C1. In each of the four read handlers (DataShare, Cosmos Mongo collection, Spring
  Cloud App, EventGrid Domain Topic), once the resource ID has parsed and the initial
  \<^verbatim>\<open>Get\<close> has failed: if the response is classified as not found, the handler returns
  nil and the resource ID is the empty string; otherwise it returns the \<^verbatim>\<open>Get\<close> error
  wrapped in the handler's message and leaves the ID as it was.
\<close>

theorem C1_read_not_found:
  "(DataShareID dmeta (Id (rd dr)) = Inr did \<and> snd (dr_resp dmeta) = Some derr \<longrightarrow>
      (if ResponseWasNotFound (sh_Response (fst (dr_resp dmeta)))
       then snd (resourceArmDataShareRead dmeta dr) = None
            \<and> Id (rd (fst (resourceArmDataShareRead dmeta dr))) = []
       else snd (resourceArmDataShareRead dmeta dr) =
              Some (Errorf ''retrieving DataShare %q (Resource Group %q / accountName %q): %+v''
                     [S (dsi_Name did), S (dsi_ResourceGroup did), S (dsi_AccountName did)] (Some derr))
            \<and> Id (rd (fst (resourceArmDataShareRead dmeta dr))) = Id (rd dr)))
   \<and> (ParseCosmosDatabaseCollectionID cmeta (Id (rd cr)) = Inr cid \<and> snd (cr_resp cmeta) = Some cerr \<longrightarrow>
      (if ResponseWasNotFound (mc_Response (fst (cr_resp cmeta)))
       then snd (resourceArmCosmosDbMongoCollectionRead cmeta cr) = None
            \<and> Id (rd (fst (resourceArmCosmosDbMongoCollectionRead cmeta cr))) = []
       else snd (resourceArmCosmosDbMongoCollectionRead cmeta cr) =
              Some (Errorf ''Error reading Cosmos Mongo Collection %s (Account %s, Database %s): %+v''
                     [S (cdc_Collection cid), S (cdc_Account cid), S (cdc_Database cid)] (Some cerr))
            \<and> Id (rd (fst (resourceArmCosmosDbMongoCollectionRead cmeta cr))) = Id (rd cr)))
   \<and> (SpringCloudAppID smeta (Id (rd sr)) = Inr sid \<and> snd (sr_resp smeta) = Some serr \<longrightarrow>
      (if ResponseWasNotFound (app_Response (fst (sr_resp smeta)))
       then snd (resourceArmSpringCloudAppRead smeta sr) = None
            \<and> Id (rd (fst (resourceArmSpringCloudAppRead smeta sr))) = []
       else snd (resourceArmSpringCloudAppRead smeta sr) =
              Some (Errorf ''reading Spring Cloud App %q (Spring Cloud Service %q / Resource Group %q): %+v''
                     [S (sca_Name sid), S (sca_ServiceName sid), S (sca_ResourceGroup sid)] (Some serr))
            \<and> Id (rd (fst (resourceArmSpringCloudAppRead smeta sr))) = Id (rd sr)))
   \<and> (EventGridDomainTopicID emeta (Id (rd er)) = Inr eid \<and> snd (er_resp emeta) = Some eerr \<longrightarrow>
      (if ResponseWasNotFound (dt_Response (fst (er_resp emeta)))
       then snd (resourceArmEventGridDomainTopicRead emeta er) = None
            \<and> Id (rd (fst (resourceArmEventGridDomainTopicRead emeta er))) = []
       else snd (resourceArmEventGridDomainTopicRead emeta er) =
              Some (Errorf ''Error making Read request on EventGrid Domain Topic %q: %+v''
                     [S (egt_Name eid)] (Some eerr))
            \<and> Id (rd (fst (resourceArmEventGridDomainTopicRead emeta er))) = Id (rd er)))"
  by (simp add: resourceArmDataShareRead_def resourceArmCosmosDbMongoCollectionRead_def
        resourceArmSpringCloudAppRead_def resourceArmEventGridDomainTopicRead_def run_defs Let_def)

text \<open>The definitions of the sample collaborators, for evaluating the handlers on them.\<close>

lemmas sample_defs =
  sample_spring_meta_def sample_eventgrid_meta_def sample_datashare_meta_def sample_cosmos_meta_def
  gone_spring_meta_def gone_eventgrid_meta_def gone_datashare_meta_def gone_cosmos_meta_def
  failing_spring_meta_def failing_eventgrid_meta_def failing_datashare_meta_def failing_cosmos_meta_def
  sample_SpringCloudAppID_def sample_EventGridDomainTopicID_def sample_DataShareID_def
  sample_DataShareAccountID_def sample_ParseCosmosDatabaseCollectionID_def
  sample_CosmosGetIDFromResponse_def
  not_found_def ok_response_def server_error_def done_future_def
  new_resource_def existing_resource_def ResponseWasNotFound_def

text \<open>
  The theorem on the sample services, for a \<^verbatim>\<open>Get\<close> that fails with a 404 and for one
  that fails with a 500.
\<close>

theorem C1_read_not_found_witness:
  "snd (resourceArmDataShareRead gone_datashare_meta
          (existing_resource sample_datashare_id sample_datashare_config)) = None
   \<and> Id (rd (fst (resourceArmDataShareRead gone_datashare_meta
          (existing_resource sample_datashare_id sample_datashare_config)))) = []
   \<and> snd (resourceArmCosmosDbMongoCollectionRead gone_cosmos_meta
          (existing_resource sample_cosmos_id sample_cosmos_config)) = None
   \<and> Id (rd (fst (resourceArmCosmosDbMongoCollectionRead gone_cosmos_meta
          (existing_resource sample_cosmos_id sample_cosmos_config)))) = []
   \<and> snd (resourceArmSpringCloudAppRead gone_spring_meta
          (existing_resource sample_spring_id sample_spring_config)) = None
   \<and> Id (rd (fst (resourceArmSpringCloudAppRead gone_spring_meta
          (existing_resource sample_spring_id sample_spring_config)))) = []
   \<and> snd (resourceArmEventGridDomainTopicRead gone_eventgrid_meta
          (existing_resource sample_eventgrid_id sample_eventgrid_config)) = None
   \<and> Id (rd (fst (resourceArmEventGridDomainTopicRead gone_eventgrid_meta
          (existing_resource sample_eventgrid_id sample_eventgrid_config)))) = []
   \<and> snd (resourceArmDataShareRead failing_datashare_meta
          (existing_resource sample_datashare_id sample_datashare_config))
       = Some (Errorf ''retrieving DataShare %q (Resource Group %q / accountName %q): %+v''
                [S ''share1'', S ''rg1'', S ''acc1''] (Some (Failure ''500'')))
   \<and> Id (rd (fst (resourceArmDataShareRead failing_datashare_meta
          (existing_resource sample_datashare_id sample_datashare_config)))) = sample_datashare_id
   \<and> snd (resourceArmCosmosDbMongoCollectionRead failing_cosmos_meta
          (existing_resource sample_cosmos_id sample_cosmos_config))
       = Some (Errorf ''Error reading Cosmos Mongo Collection %s (Account %s, Database %s): %+v''
                [S ''coll1'', S ''acc1'', S ''db1''] (Some (Failure ''500'')))
   \<and> Id (rd (fst (resourceArmCosmosDbMongoCollectionRead failing_cosmos_meta
          (existing_resource sample_cosmos_id sample_cosmos_config)))) = sample_cosmos_id
   \<and> snd (resourceArmSpringCloudAppRead failing_spring_meta
          (existing_resource sample_spring_id sample_spring_config))
       = Some (Errorf ''reading Spring Cloud App %q (Spring Cloud Service %q / Resource Group %q): %+v''
                [S ''app1'', S ''svc1'', S ''rg1''] (Some (Failure ''500'')))
   \<and> Id (rd (fst (resourceArmSpringCloudAppRead failing_spring_meta
          (existing_resource sample_spring_id sample_spring_config)))) = sample_spring_id
   \<and> snd (resourceArmEventGridDomainTopicRead failing_eventgrid_meta
          (existing_resource sample_eventgrid_id sample_eventgrid_config))
       = Some (Errorf ''Error making Read request on EventGrid Domain Topic %q: %+v''
                [S ''topic1''] (Some (Failure ''500'')))
   \<and> Id (rd (fst (resourceArmEventGridDomainTopicRead failing_eventgrid_meta
          (existing_resource sample_eventgrid_id sample_eventgrid_config)))) = sample_eventgrid_id"
  using
    C1_read_not_found
      [where dmeta = gone_datashare_meta
         and dr = "existing_resource sample_datashare_id sample_datashare_config"
         and did = "\<lparr>dsi_ResourceGroup = ''rg1'', dsi_AccountName = ''acc1'', dsi_Name = ''share1''\<rparr>"
         and derr = "Failure ''404''"
         and cmeta = gone_cosmos_meta
         and cr = "existing_resource sample_cosmos_id sample_cosmos_config"
         and cid = "\<lparr>cdc_ResourceGroup = ''rg1'', cdc_Account = ''acc1'', cdc_Database = ''db1'',
                     cdc_Collection = ''coll1''\<rparr>"
         and cerr = "Failure ''404''"
         and smeta = gone_spring_meta
         and sr = "existing_resource sample_spring_id sample_spring_config"
         and sid = "\<lparr>sca_ResourceGroup = ''rg1'', sca_ServiceName = ''svc1'', sca_Name = ''app1''\<rparr>"
         and serr = "Failure ''404''"
         and emeta = gone_eventgrid_meta
         and er = "existing_resource sample_eventgrid_id sample_eventgrid_config"
         and eid = "\<lparr>egt_ResourceGroup = ''rg1'', egt_Domain = ''dom1'', egt_Name = ''topic1''\<rparr>"
         and eerr = "Failure ''404''"]
    C1_read_not_found
      [where dmeta = failing_datashare_meta
         and dr = "existing_resource sample_datashare_id sample_datashare_config"
         and did = "\<lparr>dsi_ResourceGroup = ''rg1'', dsi_AccountName = ''acc1'', dsi_Name = ''share1''\<rparr>"
         and derr = "Failure ''500''"
         and cmeta = failing_cosmos_meta
         and cr = "existing_resource sample_cosmos_id sample_cosmos_config"
         and cid = "\<lparr>cdc_ResourceGroup = ''rg1'', cdc_Account = ''acc1'', cdc_Database = ''db1'',
                     cdc_Collection = ''coll1''\<rparr>"
         and cerr = "Failure ''500''"
         and smeta = failing_spring_meta
         and sr = "existing_resource sample_spring_id sample_spring_config"
         and sid = "\<lparr>sca_ResourceGroup = ''rg1'', sca_ServiceName = ''svc1'', sca_Name = ''app1''\<rparr>"
         and serr = "Failure ''500''"
         and emeta = failing_eventgrid_meta
         and er = "existing_resource sample_eventgrid_id sample_eventgrid_config"
         and eid = "\<lparr>egt_ResourceGroup = ''rg1'', egt_Domain = ''dom1'', egt_Name = ''topic1''\<rparr>"
         and eerr = "Failure ''500''"]
  by (simp add: sample_defs)

text \<open>
  The two type assertions of the DataShare read handler: a setting of the base type
  under the iterator, or a base-type or nil value in the answer of
  \<^verbatim>\<open>SynchronizationSettingsClient.Get\<close>, makes the handler panic.
\<close>

lemma datashare_read_schedule_panics:
  "it_Value it = IsSynchronizationSetting s \<Longrightarrow>
     datashare_read_schedule meta rid it r =
       (r, Some (Panic ''interface conversion: datashare.BasicSynchronizationSetting is datashare.SynchronizationSetting, not datashare.ScheduledSynchronizationSetting''))"
  by (simp add: datashare_read_schedule_def assert_scheduled_def)

lemma datashare_read_answer_panics:
  assumes "it_Value it = IsScheduledSynchronizationSetting item"
      and "ss_Name item = Some n" and "n \<noteq> []"
      and "snd (dr_syncResp meta) = None"
      and "assert_scheduled (fst (dr_syncResp meta)) = Inl panic"
  shows "snd (datashare_read_schedule meta rid it r) = Some panic"
  using assms by (simp add: datashare_read_schedule_def assert_scheduled_def Let_def)

section \<open>Properties: shard keys in the Cosmos read handler\<close>

lemma set_shard_keys_attr:
  "ks \<noteq> [] \<Longrightarrow>
   attrs (rd (set_shard_keys ks r)) ''shard_key'' = Some (VString (fst (last ks)))"
proof (induction ks arbitrary: r)
  case Nil
  then show ?case by simp
next
  case (Cons kv ks)
  obtain k v where kv: "kv = (k, v)" by (cases kv)
  show ?case
  proof (cases ks)
    case Nil
    with kv show ?thesis by (simp add: d_Set_def)
  next
    case (Cons a list)
    with kv Cons.IH[of "d_Set ''shard_key'' (VString k) r"] show ?thesis by simp
  qed
qed

lemma cosmos_read_throughput_shard_key:
  "attrs (rd (fst (cosmos_read_throughput meta rid r))) ''shard_key'' = attrs (rd r) ''shard_key''"
  by (simp add: cosmos_read_throughput_def run_defs Let_def split: option.splits)

lemma cosmos_read_indexes_shard_key:
  "attrs (rd (fst (cosmos_read_indexes meta rid input r))) ''shard_key'' = attrs (rd r) ''shard_key''"
  by (simp add: cosmos_read_indexes_def cosmos_read_throughput_shard_key run_defs Let_def
           split: option.splits prod.splits)

lemma cosmos_read_throughput_error:
  "snd (cosmos_read_throughput meta rid r) \<noteq>
     Some (Errorf ''unexpected number of shard keys: %d'' args w)"
  by (simp add: cosmos_read_throughput_def run_defs Let_def split: option.splits)

lemma cosmos_read_indexes_error:
  "snd (cosmos_read_indexes meta rid input r) \<noteq>
     Some (Errorf ''unexpected number of shard keys: %d'' args w)"
  by (simp add: cosmos_read_indexes_def cosmos_read_throughput_error run_defs Let_def
           split: option.splits prod.splits)

lemma cosmos_read_throughput_ok:
  "snd (cr_throughputResp meta) = None
     \<or> ResponseWasNotFound (th_Response (fst (cr_throughputResp meta)))
   \<Longrightarrow> snd (cosmos_read_throughput meta rid r) = None"
  by (auto simp: cosmos_read_throughput_def run_defs Let_def split: option.splits)

lemma cosmos_read_indexes_ok:
  "cr_set_default_ttl_seconds meta = None \<Longrightarrow> cr_set_index meta = None
   \<Longrightarrow> cr_set_system_indexes meta = None
   \<Longrightarrow> snd (cr_throughputResp meta) = None
        \<or> ResponseWasNotFound (th_Response (fst (cr_throughputResp meta)))
   \<Longrightarrow> snd (cosmos_read_indexes meta rid input r) = None"
  by (simp add: cosmos_read_indexes_def cosmos_read_throughput_ok Let_def split: prod.splits)

text \<open>
  Claim C10. In the Cosmos Mongo collection read handler, when the resource ID has parsed,
  the \<^verbatim>\<open>Get\<close> has succeeded and the response carries collection properties, the handler
  returns the error "unexpected number of shard keys" if and only if the shard-key map has
  more than two entries. With one or two entries it passes that check and the
  \<^verbatim>\<open>shard_key\<close> attribute ends up holding a key of the map (the one the \<^verbatim>\<open>range\<close> loop
  visits last), and the handler returns nil when the steps after the check succeed.
\<close>

theorem C10_shard_keys:
  assumes "ParseCosmosDatabaseCollectionID meta (Id (rd r)) = Inr rid"
    and "snd (cr_resp meta) = None"
    and "mc_Properties (fst (cr_resp meta)) = Some props"
  shows "((\<exists>args w. snd (resourceArmCosmosDbMongoCollectionRead meta r)
                      = Some (Errorf ''unexpected number of shard keys: %d'' args w))
            \<longleftrightarrow> 2 < length (mcp_ShardKey props))
         \<and> (2 < length (mcp_ShardKey props) \<longrightarrow>
               snd (resourceArmCosmosDbMongoCollectionRead meta r)
                 = Some (Errorf ''unexpected number of shard keys: %d''
                          [N (int (length (mcp_ShardKey props)))] None))
         \<and> (1 \<le> length (mcp_ShardKey props) \<and> length (mcp_ShardKey props) \<le> 2 \<longrightarrow>
               attrs (rd (fst (resourceArmCosmosDbMongoCollectionRead meta r))) ''shard_key''
                 = Some (VString (fst (last (mcp_ShardKey props))))
               \<and> fst (last (mcp_ShardKey props)) \<in> fst ` set (mcp_ShardKey props)
               \<and> (cr_set_default_ttl_seconds meta = None \<and> cr_set_index meta = None
                    \<and> cr_set_system_indexes meta = None
                    \<and> (snd (cr_throughputResp meta) = None
                         \<or> ResponseWasNotFound (th_Response (fst (cr_throughputResp meta))))
                  \<longrightarrow> snd (resourceArmCosmosDbMongoCollectionRead meta r) = None))"
proof -
  let ?R = "resourceArmCosmosDbMongoCollectionRead meta r"
  have big: "2 < length (mcp_ShardKey props) \<Longrightarrow>
      snd ?R = Some (Errorf ''unexpected number of shard keys: %d''
                       [N (int (length (mcp_ShardKey props)))] None)"
    using assms by (simp add: resourceArmCosmosDbMongoCollectionRead_def Let_def)
  have small: "\<not> 2 < length (mcp_ShardKey props) \<Longrightarrow>
      ?R = cosmos_read_indexes meta rid (mcp_Indexes props)
             (set_shard_keys (mcp_ShardKey props)
               (d_Set ''name'' (VStringPtr (mcp_ID props))
                 (d_Set ''database_name'' (VString (cdc_Database rid))
                   (d_Set ''account_name'' (VString (cdc_Account rid))
                     (d_Set ''resource_group_name'' (VString (cdc_ResourceGroup rid))
                       (emit (Called ''DatabaseClient.GetMongoDBCollection''
                                [cdc_ResourceGroup rid, cdc_Account rid, cdc_Database rid,
                                 cdc_Collection rid]) r))))))"
    using assms by (simp add: resourceArmCosmosDbMongoCollectionRead_def Let_def)
  have iff: "(\<exists>args w. snd ?R = Some (Errorf ''unexpected number of shard keys: %d'' args w))
            \<longleftrightarrow> 2 < length (mcp_ShardKey props)"
  proof (cases "2 < length (mcp_ShardKey props)")
    case True
    with big show ?thesis by blast
  next
    case False
    with small cosmos_read_indexes_error show ?thesis by simp
  qed
  have keys: "1 \<le> length (mcp_ShardKey props) \<and> length (mcp_ShardKey props) \<le> 2 \<longrightarrow>
               attrs (rd (fst ?R)) ''shard_key''
                 = Some (VString (fst (last (mcp_ShardKey props))))
               \<and> fst (last (mcp_ShardKey props)) \<in> fst ` set (mcp_ShardKey props)
               \<and> (cr_set_default_ttl_seconds meta = None \<and> cr_set_index meta = None
                    \<and> cr_set_system_indexes meta = None
                    \<and> (snd (cr_throughputResp meta) = None
                         \<or> ResponseWasNotFound (th_Response (fst (cr_throughputResp meta))))
                  \<longrightarrow> snd ?R = None)"
  proof (intro impI)
    assume len: "1 \<le> length (mcp_ShardKey props) \<and> length (mcp_ShardKey props) \<le> 2"
    then have ne: "mcp_ShardKey props \<noteq> []" and le: "\<not> 2 < length (mcp_ShardKey props)"
      by auto
    from small[OF le] set_shard_keys_attr[OF ne]
    have a: "attrs (rd (fst ?R)) ''shard_key'' = Some (VString (fst (last (mcp_ShardKey props))))"
      by (simp add: cosmos_read_indexes_shard_key)
    from ne have b: "fst (last (mcp_ShardKey props)) \<in> fst ` set (mcp_ShardKey props)"
      by simp
    have c: "cr_set_default_ttl_seconds meta = None \<and> cr_set_index meta = None
                    \<and> cr_set_system_indexes meta = None
                    \<and> (snd (cr_throughputResp meta) = None
                         \<or> ResponseWasNotFound (th_Response (fst (cr_throughputResp meta))))
                  \<longrightarrow> snd ?R = None"
      using small[OF le] by (simp add: cosmos_read_indexes_ok)
    from a b c show "attrs (rd (fst ?R)) ''shard_key''
                 = Some (VString (fst (last (mcp_ShardKey props))))
               \<and> fst (last (mcp_ShardKey props)) \<in> fst ` set (mcp_ShardKey props)
               \<and> (cr_set_default_ttl_seconds meta = None \<and> cr_set_index meta = None
                    \<and> cr_set_system_indexes meta = None
                    \<and> (snd (cr_throughputResp meta) = None
                         \<or> ResponseWasNotFound (th_Response (fst (cr_throughputResp meta))))
                  \<longrightarrow> snd ?R = None)" by blast
  qed
  from iff big keys show ?thesis by blast
qed

text \<open>
  The theorem on a collection with two shard keys (the handler succeeds and keeps the
  second) and on one with three (the handler fails).
\<close>

theorem C10_shard_keys_witness:
  "snd (resourceArmCosmosDbMongoCollectionRead two_shard_keys_meta
          (existing_resource sample_cosmos_id sample_cosmos_config)) = None
   \<and> attrs (rd (fst (resourceArmCosmosDbMongoCollectionRead two_shard_keys_meta
          (existing_resource sample_cosmos_id sample_cosmos_config)))) ''shard_key''
       = Some (VString ''region'')
   \<and> snd (resourceArmCosmosDbMongoCollectionRead three_shard_keys_meta
          (existing_resource sample_cosmos_id sample_cosmos_config))
       = Some (Errorf ''unexpected number of shard keys: %d'' [N 3] None)"
  using C10_shard_keys
    [where meta = two_shard_keys_meta
       and r = "existing_resource sample_cosmos_id sample_cosmos_config"
       and rid = "\<lparr>cdc_ResourceGroup = ''rg1'', cdc_Account = ''acc1'', cdc_Database = ''db1'',
                    cdc_Collection = ''coll1''\<rparr>"
       and props = "\<lparr>mcp_ID = Some ''coll1'',
                      mcp_ShardKey = [(''uid'', Some ''Hash''), (''region'', Some ''Hash'')],
                      mcp_Indexes = None\<rparr>"]
    C10_shard_keys
    [where meta = three_shard_keys_meta
       and r = "existing_resource sample_cosmos_id sample_cosmos_config"
       and rid = "\<lparr>cdc_ResourceGroup = ''rg1'', cdc_Account = ''acc1'', cdc_Database = ''db1'',
                    cdc_Collection = ''coll1''\<rparr>"
       and props = "\<lparr>mcp_ID = Some ''coll1'',
                      mcp_ShardKey = [(''uid'', Some ''Hash''), (''region'', Some ''Hash''),
                                      (''tenant'', Some ''Hash'')],
                      mcp_Indexes = None\<rparr>"]
  by (simp add: sample_defs two_shard_keys_meta_def three_shard_keys_meta_def)

section \<open>Properties: the resource ID after a create\<close>

text \<open>What a read handler does to the resource ID.\<close>

lemma spring_read_Id:
  "Id (rd (fst (resourceArmSpringCloudAppRead meta r)))
     = (if spring_read_finds_gone meta (Id (rd r)) then [] else Id (rd r))"
  by (simp add: resourceArmSpringCloudAppRead_def spring_read_finds_gone_def run_defs Let_def
           split: sum.splits option.splits)

lemma eventgrid_read_Id:
  "Id (rd (fst (resourceArmEventGridDomainTopicRead meta r)))
     = (if eventgrid_read_finds_gone meta (Id (rd r)) then [] else Id (rd r))"
  by (simp add: resourceArmEventGridDomainTopicRead_def eventgrid_read_finds_gone_def run_defs
           Let_def split: sum.splits option.splits)

lemma set_shard_keys_Id: "Id (rd (set_shard_keys ks r)) = Id (rd r)"
  by (induction ks arbitrary: r) (auto simp: d_Set_def)

lemma cosmos_read_throughput_Id:
  "Id (rd (fst (cosmos_read_throughput meta rid r))) = Id (rd r)"
  by (simp add: cosmos_read_throughput_def run_defs Let_def split: option.splits)

lemma cosmos_read_indexes_Id:
  "Id (rd (fst (cosmos_read_indexes meta rid input r))) = Id (rd r)"
  by (simp add: cosmos_read_indexes_def cosmos_read_throughput_Id run_defs Let_def
           split: option.splits prod.splits)

lemma cosmos_read_Id:
  "Id (rd (fst (resourceArmCosmosDbMongoCollectionRead meta r)))
     = (if cosmos_read_finds_gone meta (Id (rd r)) then [] else Id (rd r))"
  by (simp add: resourceArmCosmosDbMongoCollectionRead_def cosmos_read_finds_gone_def
        cosmos_read_throughput_Id cosmos_read_indexes_Id set_shard_keys_Id run_defs Let_def
      split: sum.splits option.splits)

lemma datashare_read_advance_Id:
  "Id (rd (fst (datashare_read_advance meta rid it r))) = Id (rd r)"
  by (simp add: datashare_read_advance_def run_defs Let_def split: option.splits)

lemma datashare_read_schedule_Id:
  "Id (rd (fst (datashare_read_schedule meta rid it r))) = Id (rd r)"
  by (simp add: datashare_read_schedule_def datashare_read_advance_Id run_defs Let_def
           split: option.splits sum.splits)

lemma datashare_read_sync_Id:
  "Id (rd (fst (datashare_read_sync meta rid r))) = Id (rd r)"
  by (simp add: datashare_read_sync_def datashare_read_schedule_Id run_defs Let_def
           split: option.splits)

lemma datashare_read_Id:
  "Id (rd (fst (resourceArmDataShareRead meta r)))
     = (if datashare_read_finds_gone meta (Id (rd r)) then [] else Id (rd r))"
  by (simp add: resourceArmDataShareRead_def datashare_read_finds_gone_def
        datashare_read_sync_Id run_defs Let_def
      split: sum.splits option.splits)

lemma spring_create_Id:
  "(app_ID (fst (sc_resp meta)) = None \<or> app_ID (fst (sc_resp meta)) = Some [] \<longrightarrow>
      snd (resourceArmSpringCloudAppCreate meta r) \<noteq> None
      \<and> Id (rd (fst (resourceArmSpringCloudAppCreate meta r))) = Id (rd r))
   \<and> (snd (resourceArmSpringCloudAppCreate meta r) = None \<longrightarrow>
        (\<exists>i. app_ID (fst (sc_resp meta)) = Some i \<and> i \<noteq> []
           \<and> Id (rd (fst (resourceArmSpringCloudAppCreate meta r)))
               = (if spring_read_finds_gone meta i then [] else i)))"
  by (auto simp: resourceArmSpringCloudAppCreate_def spring_read_Id run_defs Let_def
      split: option.splits)

lemma eventgrid_create_rest_Id:
  "(dt_ID (fst (ec_read meta)) = None \<longrightarrow>
      snd (eventgrid_create_rest meta n dn rg r) \<noteq> None
      \<and> Id (rd (fst (eventgrid_create_rest meta n dn rg r))) = Id (rd r))
   \<and> (snd (eventgrid_create_rest meta n dn rg r) = None \<longrightarrow>
        (\<exists>i. dt_ID (fst (ec_read meta)) = Some i
           \<and> Id (rd (fst (eventgrid_create_rest meta n dn rg r)))
               = (if eventgrid_read_finds_gone meta i then [] else i)))"
  by (auto simp: eventgrid_create_rest_def eventgrid_read_Id run_defs Let_def
      split: option.splits)

lemma eventgrid_create_Id:
  "(dt_ID (fst (ec_read meta)) = None \<longrightarrow>
      snd (resourceArmEventGridDomainTopicCreate meta r) \<noteq> None
      \<and> Id (rd (fst (resourceArmEventGridDomainTopicCreate meta r))) = Id (rd r))
   \<and> (snd (resourceArmEventGridDomainTopicCreate meta r) = None \<longrightarrow>
        (\<exists>i. dt_ID (fst (ec_read meta)) = Some i
           \<and> Id (rd (fst (resourceArmEventGridDomainTopicCreate meta r)))
               = (if eventgrid_read_finds_gone meta i then [] else i)))"
  using eventgrid_create_rest_Id[of meta "Get_string (rd r) ''name''"
          "Get_string (rd r) ''domain_name''" "Get_string (rd r) ''resource_group_name''" r]
        eventgrid_create_rest_Id[of meta "Get_string (rd r) ''name''"
          "Get_string (rd r) ''domain_name''" "Get_string (rd r) ''resource_group_name''"
          "emit (Called ''DomainTopicsClient.Get'' [Get_string (rd r) ''resource_group_name'',
             Get_string (rd r) ''domain_name'', Get_string (rd r) ''name'']) r"]
  by (auto simp: resourceArmEventGridDomainTopicCreate_def run_defs Let_def)

lemma cosmos_create_rest_Id:
  "(\<forall>i. CosmosGetIDFromResponse meta (mc_Response (fst (cc_resp meta))) \<noteq> Inr i) \<longrightarrow>
      snd (cosmos_create_rest meta n rg a db r) \<noteq> None
      \<and> Id (rd (fst (cosmos_create_rest meta n rg a db r))) = Id (rd r)"
  "snd (cosmos_create_rest meta n rg a db r) = None \<longrightarrow>
        (\<exists>i. CosmosGetIDFromResponse meta (mc_Response (fst (cc_resp meta))) = Inr i
           \<and> Id (rd (fst (cosmos_create_rest meta n rg a db r)))
               = (if cosmos_read_finds_gone meta i then [] else i))"
  by (auto simp: cosmos_create_rest_def cosmos_read_Id run_defs Let_def
      split: option.splits sum.splits)

lemma cosmos_create_Id:
  "((\<forall>i. CosmosGetIDFromResponse meta (mc_Response (fst (cc_resp meta))) \<noteq> Inr i) \<longrightarrow>
      snd (resourceArmCosmosDbMongoCollectionCreate meta r) \<noteq> None
      \<and> Id (rd (fst (resourceArmCosmosDbMongoCollectionCreate meta r))) = Id (rd r))
   \<and> (snd (resourceArmCosmosDbMongoCollectionCreate meta r) = None \<longrightarrow>
        (\<exists>i. CosmosGetIDFromResponse meta (mc_Response (fst (cc_resp meta))) = Inr i
           \<and> Id (rd (fst (resourceArmCosmosDbMongoCollectionCreate meta r)))
               = (if cosmos_read_finds_gone meta i then [] else i)))"
  using cosmos_create_rest_Id[of meta "Get_string (rd r) ''name''"
          "Get_string (rd r) ''resource_group_name''" "Get_string (rd r) ''account_name''"
          "Get_string (rd r) ''database_name''" r]
        cosmos_create_rest_Id[of meta "Get_string (rd r) ''name''"
          "Get_string (rd r) ''resource_group_name''" "Get_string (rd r) ''account_name''"
          "Get_string (rd r) ''database_name''"
          "emit (Called ''DatabaseClient.GetMongoDBCollection''
             [Get_string (rd r) ''resource_group_name'', Get_string (rd r) ''account_name'',
              Get_string (rd r) ''database_name'', Get_string (rd r) ''name'']) r"]
  by (auto simp: resourceArmCosmosDbMongoCollectionCreate_def run_defs Let_def
           split: option.splits sum.splits)

lemma datashare_create_schedule_Id:
  "snd (datashare_create_schedule meta a n r) = None \<Longrightarrow>
     Id (rd (fst (datashare_create_schedule meta a n r)))
       = (if datashare_read_finds_gone meta (Id (rd r)) then [] else Id (rd r))"
  by (auto simp: datashare_create_schedule_def datashare_read_Id run_defs Let_def
           split: option.splits)

lemma datashare_delete_origin_Id:
  "snd (datashare_delete_origin meta a n origin r) = None \<Longrightarrow>
     Id (rd (fst (datashare_delete_origin meta a n origin r)))
       = (if datashare_read_finds_gone meta (Id (rd r)) then [] else Id (rd r))"
  unfolding datashare_delete_origin_def Let_def
  by (auto simp: run_defs split: option.splits dest!: datashare_create_schedule_Id)

lemma datashare_replace_schedule_Id:
  "snd (datashare_replace_schedule meta a n r) = None \<Longrightarrow>
     Id (rd (fst (datashare_replace_schedule meta a n r)))
       = (if datashare_read_finds_gone meta (Id (rd r)) then [] else Id (rd r))"
  unfolding datashare_replace_schedule_def
  by (auto split: option.splits tfvalue.splits list.splits if_splits
           dest!: datashare_create_schedule_Id datashare_delete_origin_Id)

lemma datashare_create_share_Id:
  "(sh_ID (fst (dc_resp meta)) = None \<or> sh_ID (fst (dc_resp meta)) = Some [] \<longrightarrow>
      snd (datashare_create_share meta a n r) \<noteq> None
      \<and> Id (rd (fst (datashare_create_share meta a n r))) = Id (rd r))
   \<and> (snd (datashare_create_share meta a n r) = None \<longrightarrow>
        (\<exists>i. sh_ID (fst (dc_resp meta)) = Some i \<and> i \<noteq> []
           \<and> Id (rd (fst (datashare_create_share meta a n r)))
               = (if datashare_read_finds_gone meta i then [] else i)))"
  unfolding datashare_create_share_def Let_def
  by (auto simp: run_defs split: option.splits dest!: datashare_replace_schedule_Id)

lemma datashare_create_Id:
  "(sh_ID (fst (dc_resp meta)) = None \<or> sh_ID (fst (dc_resp meta)) = Some [] \<longrightarrow>
      snd (resourceArmDataShareCreateUpdate meta r) \<noteq> None
      \<and> Id (rd (fst (resourceArmDataShareCreateUpdate meta r))) = Id (rd r))
   \<and> (snd (resourceArmDataShareCreateUpdate meta r) = None \<longrightarrow>
        (\<exists>i. sh_ID (fst (dc_resp meta)) = Some i \<and> i \<noteq> []
           \<and> Id (rd (fst (resourceArmDataShareCreateUpdate meta r)))
               = (if datashare_read_finds_gone meta i then [] else i)))"
proof (cases "DataShareAccountID meta (Get_string (rd r) ''account_id'')")
  case (Inl err)
  then show ?thesis by (simp add: resourceArmDataShareCreateUpdate_def Let_def)
next
  case (Inr a)
  let ?n = "Get_string (rd r) ''name''"
  let ?r1 = "emit (Called ''SharesClient.Get'' [dsa_ResourceGroup a, dsa_Name a, ?n]) r"
  from Inr datashare_create_share_Id[of meta a ?n r] datashare_create_share_Id[of meta a ?n ?r1]
  show ?thesis
    by (auto simp: resourceArmDataShareCreateUpdate_def run_defs Let_def)
qed

text \<open>The definitions of the handlers, of the resource data and of the samples, for evaluation.\<close>

lemmas spring_defs =
  resourceArmSpringCloudAppRead_def resourceArmSpringCloudAppCreate_def
  resourceArmSpringCloudAppDelete_def

lemmas eventgrid_defs =
  resourceArmEventGridDomainTopicRead_def eventgrid_create_rest_def
  resourceArmEventGridDomainTopicCreate_def resourceArmEventGridDomainTopicDelete_def

lemmas datashare_defs =
  datashare_read_advance_def datashare_read_schedule_def datashare_read_sync_def
  resourceArmDataShareRead_def datashare_create_schedule_def datashare_delete_origin_def
  datashare_replace_schedule_def datashare_create_share_def resourceArmDataShareCreateUpdate_def
  resourceArmDataShareDelete_def expandAzureRmDataShareSnapshotSchedule_def
  flattenAzureRmDataShareSnapshotSchedule_def snapshot_schedule_0_name_def
  assert_scheduled_def

lemmas cosmos_defs =
  cosmos_read_throughput_def cosmos_read_indexes_def resourceArmCosmosDbMongoCollectionRead_def
  cosmos_create_rest_def resourceArmCosmosDbMongoCollectionCreate_def
  cosmos_update_throughput_def resourceArmCosmosDbMongoCollectionUpdate_def
  resourceArmCosmosDbMongoCollectionDelete_def ttl_of_def create_parameters_def
  update_parameters_def
  flattenCosmosMongoCollectionIndex_def expandCosmosMongoCollectionIndex_def

lemmas data_defs =
  Get_string_def Get_int_def Get_list_def GetOk_def HasChange_def GetChange_def VStringPtr_def
  VIntPtr_def

lemmas sample_data_defs =
  sample_datashare_config_def sample_cosmos_config_def sample_spring_config_def
  sample_eventgrid_config_def sample_share_def sample_collection_def sample_setting_def
  sample_spring_id_def sample_eventgrid_id_def sample_datashare_id_def
  sample_datashare_account_id_def sample_cosmos_id_def

text \<open>
  Claim C3, as amended. In every create handler, when the read-back after the create
  does not yield an ID, the handler returns an error and leaves the resource ID as it
  was: DataShare and Spring Cloud App for an ID that is nil or empty, EventGrid Domain
  Topic for an ID that is nil, Cosmos Mongo collection when
  \<^verbatim>\<open>CosmosGetIDFromResponse\<close> fails on the response. When a create handler returns nil,
  the read-back has yielded an ID (non-empty for DataShare and Spring Cloud App), the
  handler has set the resource ID to it and has run the read handler, and the resource
  ID in state is that ID, unless the read handler found the resource gone, in which case
  it is the empty string.
\<close>

theorem C3_create_sets_id:
  "((sh_ID (fst (dc_resp dmeta)) = None \<or> sh_ID (fst (dc_resp dmeta)) = Some [] \<longrightarrow>
       snd (resourceArmDataShareCreateUpdate dmeta dr) \<noteq> None
       \<and> Id (rd (fst (resourceArmDataShareCreateUpdate dmeta dr))) = Id (rd dr))
    \<and> (snd (resourceArmDataShareCreateUpdate dmeta dr) = None \<longrightarrow>
         (\<exists>i. sh_ID (fst (dc_resp dmeta)) = Some i \<and> i \<noteq> []
            \<and> Id (rd (fst (resourceArmDataShareCreateUpdate dmeta dr)))
                = (if datashare_read_finds_gone dmeta i then [] else i))))
   \<and> ((app_ID (fst (sc_resp smeta)) = None \<or> app_ID (fst (sc_resp smeta)) = Some [] \<longrightarrow>
       snd (resourceArmSpringCloudAppCreate smeta sr) \<noteq> None
       \<and> Id (rd (fst (resourceArmSpringCloudAppCreate smeta sr))) = Id (rd sr))
    \<and> (snd (resourceArmSpringCloudAppCreate smeta sr) = None \<longrightarrow>
         (\<exists>i. app_ID (fst (sc_resp smeta)) = Some i \<and> i \<noteq> []
            \<and> Id (rd (fst (resourceArmSpringCloudAppCreate smeta sr)))
                = (if spring_read_finds_gone smeta i then [] else i))))
   \<and> ((dt_ID (fst (ec_read emeta)) = None \<longrightarrow>
       snd (resourceArmEventGridDomainTopicCreate emeta er) \<noteq> None
       \<and> Id (rd (fst (resourceArmEventGridDomainTopicCreate emeta er))) = Id (rd er))
    \<and> (snd (resourceArmEventGridDomainTopicCreate emeta er) = None \<longrightarrow>
         (\<exists>i. dt_ID (fst (ec_read emeta)) = Some i
            \<and> Id (rd (fst (resourceArmEventGridDomainTopicCreate emeta er)))
                = (if eventgrid_read_finds_gone emeta i then [] else i))))
   \<and> ((CosmosGetIDFromResponse cmeta (mc_Response (fst (cc_resp cmeta))) = Inl cerr \<longrightarrow>
       snd (resourceArmCosmosDbMongoCollectionCreate cmeta cr) \<noteq> None
       \<and> Id (rd (fst (resourceArmCosmosDbMongoCollectionCreate cmeta cr))) = Id (rd cr))
    \<and> (snd (resourceArmCosmosDbMongoCollectionCreate cmeta cr) = None \<longrightarrow>
         (\<exists>i. CosmosGetIDFromResponse cmeta (mc_Response (fst (cc_resp cmeta))) = Inr i
            \<and> Id (rd (fst (resourceArmCosmosDbMongoCollectionCreate cmeta cr)))
                = (if cosmos_read_finds_gone cmeta i then [] else i))))"
proof (intro conjI)
  show "sh_ID (fst (dc_resp dmeta)) = None \<or> sh_ID (fst (dc_resp dmeta)) = Some [] \<longrightarrow>
       snd (resourceArmDataShareCreateUpdate dmeta dr) \<noteq> None
       \<and> Id (rd (fst (resourceArmDataShareCreateUpdate dmeta dr))) = Id (rd dr)"
    using datashare_create_Id[of dmeta dr] by blast
  show "snd (resourceArmDataShareCreateUpdate dmeta dr) = None \<longrightarrow>
         (\<exists>i. sh_ID (fst (dc_resp dmeta)) = Some i \<and> i \<noteq> []
            \<and> Id (rd (fst (resourceArmDataShareCreateUpdate dmeta dr)))
                = (if datashare_read_finds_gone dmeta i then [] else i))"
    using datashare_create_Id[of dmeta dr] by blast
  show "app_ID (fst (sc_resp smeta)) = None \<or> app_ID (fst (sc_resp smeta)) = Some [] \<longrightarrow>
       snd (resourceArmSpringCloudAppCreate smeta sr) \<noteq> None
       \<and> Id (rd (fst (resourceArmSpringCloudAppCreate smeta sr))) = Id (rd sr)"
    using spring_create_Id[of smeta sr] by blast
  show "snd (resourceArmSpringCloudAppCreate smeta sr) = None \<longrightarrow>
         (\<exists>i. app_ID (fst (sc_resp smeta)) = Some i \<and> i \<noteq> []
            \<and> Id (rd (fst (resourceArmSpringCloudAppCreate smeta sr)))
                = (if spring_read_finds_gone smeta i then [] else i))"
    using spring_create_Id[of smeta sr] by blast
  show "dt_ID (fst (ec_read emeta)) = None \<longrightarrow>
       snd (resourceArmEventGridDomainTopicCreate emeta er) \<noteq> None
       \<and> Id (rd (fst (resourceArmEventGridDomainTopicCreate emeta er))) = Id (rd er)"
    using eventgrid_create_Id[of emeta er] by blast
  show "snd (resourceArmEventGridDomainTopicCreate emeta er) = None \<longrightarrow>
         (\<exists>i. dt_ID (fst (ec_read emeta)) = Some i
            \<and> Id (rd (fst (resourceArmEventGridDomainTopicCreate emeta er)))
                = (if eventgrid_read_finds_gone emeta i then [] else i))"
    using eventgrid_create_Id[of emeta er] by blast
  show "CosmosGetIDFromResponse cmeta (mc_Response (fst (cc_resp cmeta))) = Inl cerr \<longrightarrow>
       snd (resourceArmCosmosDbMongoCollectionCreate cmeta cr) \<noteq> None
       \<and> Id (rd (fst (resourceArmCosmosDbMongoCollectionCreate cmeta cr))) = Id (rd cr)"
    using cosmos_create_Id[of cmeta cr] by auto
  show "snd (resourceArmCosmosDbMongoCollectionCreate cmeta cr) = None \<longrightarrow>
         (\<exists>i. CosmosGetIDFromResponse cmeta (mc_Response (fst (cc_resp cmeta))) = Inr i
            \<and> Id (rd (fst (resourceArmCosmosDbMongoCollectionCreate cmeta cr)))
                = (if cosmos_read_finds_gone cmeta i then [] else i))"
    using cosmos_create_Id[of cmeta cr] by blast
qed

text \<open>On the sample services every create handler succeeds.\<close>

lemma sample_datashare_create_ok:
  "snd (resourceArmDataShareCreateUpdate sample_datashare_meta
          (new_resource sample_datashare_config)) = None"
  by (simp add: datashare_defs data_defs sample_defs sample_data_defs run_defs Let_def)

lemma sample_spring_create_ok:
  "snd (resourceArmSpringCloudAppCreate sample_spring_meta
          (new_resource sample_spring_config)) = None"
  by (simp add: spring_defs data_defs sample_defs sample_data_defs run_defs Let_def)

lemma sample_eventgrid_create_ok:
  "snd (resourceArmEventGridDomainTopicCreate sample_eventgrid_meta
          (new_resource sample_eventgrid_config)) = None"
  by (simp add: eventgrid_defs data_defs sample_defs sample_data_defs run_defs Let_def)

lemma sample_cosmos_create_ok:
  "snd (resourceArmCosmosDbMongoCollectionCreate sample_cosmos_meta
          (new_resource sample_cosmos_config)) = None"
  by (simp add: cosmos_defs data_defs sample_defs sample_data_defs run_defs Let_def)

text \<open>
  The theorem on the sample services: each create handler returns nil and the resource
  ID is the one the service returned.
\<close>

theorem C3_create_sets_id_witness:
  "snd (resourceArmDataShareCreateUpdate sample_datashare_meta
          (new_resource sample_datashare_config)) = None
   \<and> Id (rd (fst (resourceArmDataShareCreateUpdate sample_datashare_meta
          (new_resource sample_datashare_config)))) = sample_datashare_id
   \<and> snd (resourceArmSpringCloudAppCreate sample_spring_meta
          (new_resource sample_spring_config)) = None
   \<and> Id (rd (fst (resourceArmSpringCloudAppCreate sample_spring_meta
          (new_resource sample_spring_config)))) = sample_spring_id
   \<and> snd (resourceArmEventGridDomainTopicCreate sample_eventgrid_meta
          (new_resource sample_eventgrid_config)) = None
   \<and> Id (rd (fst (resourceArmEventGridDomainTopicCreate sample_eventgrid_meta
          (new_resource sample_eventgrid_config)))) = sample_eventgrid_id
   \<and> snd (resourceArmCosmosDbMongoCollectionCreate sample_cosmos_meta
          (new_resource sample_cosmos_config)) = None
   \<and> Id (rd (fst (resourceArmCosmosDbMongoCollectionCreate sample_cosmos_meta
          (new_resource sample_cosmos_config)))) = sample_cosmos_id"
  using C3_create_sets_id
          [where dmeta = sample_datashare_meta and dr = "new_resource sample_datashare_config"
             and smeta = sample_spring_meta and sr = "new_resource sample_spring_config"
             and emeta = sample_eventgrid_meta and er = "new_resource sample_eventgrid_config"
             and cmeta = sample_cosmos_meta and cr = "new_resource sample_cosmos_config"
             and cerr = "Failure []"]
        sample_datashare_create_ok sample_spring_create_ok sample_eventgrid_create_ok
        sample_cosmos_create_ok
  by (simp add: sample_defs sample_share_def sample_collection_def
        datashare_read_finds_gone_def spring_read_finds_gone_def eventgrid_read_finds_gone_def
        cosmos_read_finds_gone_def)

text \<open>
  The claim as first stated ends with "a successfully created resource always has a
  non-empty ID in state". On a service where the share is created and read back with
  its ID, and the \<^verbatim>\<open>Get\<close> of the read handler that the create handler calls last answers
  404, the create handler returns nil and the resource ID is empty.
\<close>

theorem C3_create_sets_id_counterexample:
  "snd (resourceArmDataShareCreateUpdate gone_datashare_meta
          (new_resource sample_datashare_config)) = None
   \<and> Id (rd (fst (resourceArmDataShareCreateUpdate gone_datashare_meta
          (new_resource sample_datashare_config)))) = []"
  by (simp add: datashare_defs data_defs sample_defs sample_data_defs run_defs Let_def)

section \<open>Properties: the existence check of the create handlers\<close>




lemma set_shard_keys_trace: "trace (set_shard_keys ks r) = trace r"
  by (induction ks arbitrary: r) (auto simp: d_Set_def)
























section \<open>Properties: long-running operations\<close>

text \<open>
  Calls that return their result directly leave the pending operations as they are; once
  nothing is pending, what is pending after more events depends on those events only;
  and an operation that was never waited for is pending.
\<close>

lemma pending_append_call [simp]: "pending (xs @ Called m a # ys) = pending (xs @ ys)"
  by (induction xs rule: pending.induct) auto

lemma pending_settled_append: "pending xs = [] \<Longrightarrow> pending (xs @ ys) = pending ys"
  by (induction xs rule: pending.induct) (auto split: if_splits)

lemma unawaited_subset_pending: "set (unawaited tr) \<subseteq> set (pending tr)"
proof (induction tr rule: pending.induct)
  case 1
  then show ?case by simp
next
  case (2 m as tr)
  have "Waited m None \<in> set tr \<Longrightarrow> m \<in> set (waited_methods tr)"
    by (induction tr rule: waited_methods.induct) auto
  with 2 show ?case by auto
qed auto

lemma settled_unawaited: "pending tr = [] \<Longrightarrow> unawaited tr = []"
  using unawaited_subset_pending[of tr] by auto

lemma waited_methods_append:
  "waited_methods (xs @ ys) = waited_methods xs @ waited_methods ys"
  by (induction xs rule: waited_methods.induct) auto

lemma unawaited_settled_append: "unawaited xs = [] \<Longrightarrow> unawaited (xs @ ys) = unawaited ys"
  by (induction xs rule: unawaited.induct) (auto simp: waited_methods_append split: if_splits)

text \<open>The read handlers begin no operation.\<close>

lemma spring_read_pending:
  "pending (trace (fst (resourceArmSpringCloudAppRead meta r))) = pending (trace r)"
  by (simp add: spring_defs run_defs Let_def split: sum.splits option.splits)

lemma eventgrid_read_pending:
  "pending (trace (fst (resourceArmEventGridDomainTopicRead meta r))) = pending (trace r)"
  by (simp add: eventgrid_defs run_defs Let_def split: sum.splits option.splits)

lemma cosmos_read_throughput_pending:
  "pending (trace (fst (cosmos_read_throughput meta rid r))) = pending (trace r)"
  by (simp add: cosmos_read_throughput_def run_defs Let_def split: option.splits)

lemma cosmos_read_indexes_pending:
  "pending (trace (fst (cosmos_read_indexes meta rid input r))) = pending (trace r)"
  by (simp add: cosmos_read_indexes_def cosmos_read_throughput_pending run_defs Let_def
           split: option.splits prod.splits)

lemma cosmos_read_pending:
  "pending (trace (fst (resourceArmCosmosDbMongoCollectionRead meta r))) = pending (trace r)"
  by (simp add: resourceArmCosmosDbMongoCollectionRead_def cosmos_read_indexes_pending
        cosmos_read_throughput_pending set_shard_keys_trace run_defs Let_def
      split: sum.splits option.splits)

lemma datashare_read_advance_pending:
  "pending (trace (fst (datashare_read_advance meta rid it r))) = pending (trace r)"
  by (simp add: datashare_read_advance_def run_defs Let_def split: option.splits)

lemma datashare_read_schedule_pending:
  "pending (trace (fst (datashare_read_schedule meta rid it r))) = pending (trace r)"
  by (simp add: datashare_read_schedule_def datashare_read_advance_pending run_defs Let_def
           split: option.splits sum.splits)

lemma datashare_read_sync_pending:
  "pending (trace (fst (datashare_read_sync meta rid r))) = pending (trace r)"
  by (simp add: datashare_read_sync_def datashare_read_schedule_pending run_defs Let_def
           split: option.splits)

lemma datashare_read_pending:
  "pending (trace (fst (resourceArmDataShareRead meta r))) = pending (trace r)"
  by (simp add: resourceArmDataShareRead_def datashare_read_sync_pending run_defs Let_def
           split: sum.splits option.splits)

text \<open>
  The other handlers and their parts: entered with nothing pending, they return nil with
  nothing pending.
\<close>

lemma spring_create_pending:
  "pending (trace r) = [] \<Longrightarrow> snd (resourceArmSpringCloudAppCreate meta r) = None
   \<Longrightarrow> pending (trace (fst (resourceArmSpringCloudAppCreate meta r))) = []"
  by (auto simp: resourceArmSpringCloudAppCreate_def spring_read_pending pending_settled_append
        run_defs Let_def split: option.splits if_splits)

lemma spring_delete_pending:
  "pending (trace r) = [] \<Longrightarrow> snd (resourceArmSpringCloudAppDelete meta r) = None
   \<Longrightarrow> pending (trace (fst (resourceArmSpringCloudAppDelete meta r))) = []"
  by (auto simp: resourceArmSpringCloudAppDelete_def pending_settled_append
        run_defs Let_def split: option.splits sum.splits)

lemma eventgrid_create_rest_pending:
  "pending (trace r) = [] \<Longrightarrow> snd (eventgrid_create_rest meta n dn rg r) = None
   \<Longrightarrow> pending (trace (fst (eventgrid_create_rest meta n dn rg r))) = []"
  by (auto simp: eventgrid_create_rest_def eventgrid_read_pending pending_settled_append
        run_defs Let_def split: option.splits if_splits)

lemma eventgrid_create_pending:
  "pending (trace r) = [] \<Longrightarrow> snd (resourceArmEventGridDomainTopicCreate meta r) = None
   \<Longrightarrow> pending (trace (fst (resourceArmEventGridDomainTopicCreate meta r))) = []"
  by (auto simp: resourceArmEventGridDomainTopicCreate_def pending_settled_append
        run_defs Let_def split: if_splits intro!: eventgrid_create_rest_pending)

lemma eventgrid_delete_pending:
  "pending (trace r) = [] \<Longrightarrow> snd (resourceArmEventGridDomainTopicDelete meta r) = None
   \<Longrightarrow> unawaited (trace (fst (resourceArmEventGridDomainTopicDelete meta r))) = []
       \<and> (pending (trace (fst (resourceArmEventGridDomainTopicDelete meta r))) = []
            \<or> (WaitForCompletionRef (fst (ed_future meta)) \<noteq> None
                 \<and> ResponseWasNotFound (Response_after (fst (ed_future meta)))))"
proof -
  assume p: "pending (trace r) = []" and n: "snd (resourceArmEventGridDomainTopicDelete meta r) = None"
  have u: "unawaited (trace r) = []" using p by (rule settled_unawaited)
  show ?thesis using n p u
    by (auto simp: resourceArmEventGridDomainTopicDelete_def pending_settled_append
          unawaited_settled_append run_defs Let_def split: option.splits sum.splits if_splits)
qed

lemma cosmos_create_rest_pending:
  "pending (trace r) = [] \<Longrightarrow> snd (cosmos_create_rest meta n rg a db r) = None
   \<Longrightarrow> pending (trace (fst (cosmos_create_rest meta n rg a db r))) = []"
  by (auto simp: cosmos_create_rest_def cosmos_read_pending pending_settled_append
        run_defs Let_def split: option.splits sum.splits if_splits)

lemma cosmos_create_pending:
  "pending (trace r) = [] \<Longrightarrow> snd (resourceArmCosmosDbMongoCollectionCreate meta r) = None
   \<Longrightarrow> pending (trace (fst (resourceArmCosmosDbMongoCollectionCreate meta r))) = []"
  by (auto simp: resourceArmCosmosDbMongoCollectionCreate_def pending_settled_append
        run_defs Let_def split: if_splits option.splits sum.splits
        intro!: cosmos_create_rest_pending)

lemma cosmos_update_throughput_pending:
  "pending (trace r) = [] \<Longrightarrow> snd (cosmos_update_throughput meta rid r) = None
   \<Longrightarrow> pending (trace (fst (cosmos_update_throughput meta rid r))) = []"
  by (cases "snd (cu_throughputFuture meta (int32 (Get_int (rd r) ''throughput'')))")
     (auto simp: cosmos_update_throughput_def cosmos_read_pending pending_settled_append
        run_defs Let_def split: option.splits if_splits)

lemma cosmos_update_pending:
  "pending (trace r) = [] \<Longrightarrow> snd (resourceArmCosmosDbMongoCollectionUpdate meta r) = None
   \<Longrightarrow> pending (trace (fst (resourceArmCosmosDbMongoCollectionUpdate meta r))) = []"
  by (auto simp: resourceArmCosmosDbMongoCollectionUpdate_def pending_settled_append
        run_defs Let_def split: option.splits sum.splits
        intro!: cosmos_update_throughput_pending)

lemma cosmos_delete_pending:
  "pending (trace r) = [] \<Longrightarrow> snd (resourceArmCosmosDbMongoCollectionDelete meta r) = None
   \<Longrightarrow> pending (trace (fst (resourceArmCosmosDbMongoCollectionDelete meta r))) = []"
  by (cases "snd (cd_future meta)")
     (auto simp: resourceArmCosmosDbMongoCollectionDelete_def pending_settled_append
        run_defs Let_def split: option.splits sum.splits if_splits)

lemma datashare_create_schedule_pending:
  "pending (trace r) = [] \<Longrightarrow> snd (datashare_create_schedule meta a n r) = None
   \<Longrightarrow> pending (trace (fst (datashare_create_schedule meta a n r))) = []"
  by (auto simp: datashare_create_schedule_def datashare_read_pending pending_settled_append
        run_defs Let_def split: option.splits)

lemma datashare_delete_origin_pending:
  "pending (trace r) = [] \<Longrightarrow> snd (datashare_delete_origin meta a n origin r) = None
   \<Longrightarrow> pending (trace (fst (datashare_delete_origin meta a n origin r))) = []"
  by (auto simp: datashare_delete_origin_def pending_settled_append run_defs Let_def
        split: option.splits intro!: datashare_create_schedule_pending)

lemma datashare_replace_schedule_pending:
  "pending (trace r) = [] \<Longrightarrow> snd (datashare_replace_schedule meta a n r) = None
   \<Longrightarrow> pending (trace (fst (datashare_replace_schedule meta a n r))) = []"
  by (auto simp: datashare_replace_schedule_def
        split: option.splits tfvalue.splits list.splits if_splits
        intro!: datashare_create_schedule_pending datashare_delete_origin_pending)

lemma datashare_create_share_pending:
  "pending (trace r) = [] \<Longrightarrow> snd (datashare_create_share meta a n r) = None
   \<Longrightarrow> pending (trace (fst (datashare_create_share meta a n r))) = []"
  by (auto simp: datashare_create_share_def pending_settled_append run_defs Let_def
        split: option.splits if_splits intro!: datashare_replace_schedule_pending)

lemma datashare_create_pending:
  "pending (trace r) = [] \<Longrightarrow> snd (resourceArmDataShareCreateUpdate meta r) = None
   \<Longrightarrow> pending (trace (fst (resourceArmDataShareCreateUpdate meta r))) = []"
  by (auto simp: resourceArmDataShareCreateUpdate_def pending_settled_append run_defs Let_def
        split: sum.splits if_splits intro!: datashare_create_share_pending)

lemma datashare_delete_pending:
  "pending (trace r) = [] \<Longrightarrow> snd (resourceArmDataShareDelete meta r) = None
   \<Longrightarrow> pending (trace (fst (resourceArmDataShareDelete meta r))) = []"
  by (auto simp: resourceArmDataShareDelete_def pending_settled_append run_defs Let_def
        split: sum.splits option.splits if_splits)

text \<open>
  Claim C2, as amended. Every handler that is entered with no operation pending and
  returns nil has called \<^verbatim>\<open>WaitForCompletionRef\<close> on the future of every long-running
  operation it began. In every handler but the EventGrid Domain Topic delete handler,
  each of those waits has returned nil, so no operation the handler began is pending. The
  EventGrid Domain Topic delete handler also returns nil when the wait fails and the
  future's response is classified as not found; the operation it began is pending in
  that case only.
\<close>

theorem C2_waits_for_completion:
  "(pending (trace dcr) = [] \<and> snd (resourceArmDataShareCreateUpdate dmeta dcr) = None \<longrightarrow>
      pending (trace (fst (resourceArmDataShareCreateUpdate dmeta dcr))) = [])
   \<and> (pending (trace drr) = [] \<and> snd (resourceArmDataShareRead dmeta drr) = None \<longrightarrow>
      pending (trace (fst (resourceArmDataShareRead dmeta drr))) = [])
   \<and> (pending (trace ddr) = [] \<and> snd (resourceArmDataShareDelete dmeta ddr) = None \<longrightarrow>
      pending (trace (fst (resourceArmDataShareDelete dmeta ddr))) = [])
   \<and> (pending (trace ccr) = [] \<and> snd (resourceArmCosmosDbMongoCollectionCreate cmeta ccr) = None \<longrightarrow>
      pending (trace (fst (resourceArmCosmosDbMongoCollectionCreate cmeta ccr))) = [])
   \<and> (pending (trace cur) = [] \<and> snd (resourceArmCosmosDbMongoCollectionUpdate cmeta cur) = None \<longrightarrow>
      pending (trace (fst (resourceArmCosmosDbMongoCollectionUpdate cmeta cur))) = [])
   \<and> (pending (trace crr) = [] \<and> snd (resourceArmCosmosDbMongoCollectionRead cmeta crr) = None \<longrightarrow>
      pending (trace (fst (resourceArmCosmosDbMongoCollectionRead cmeta crr))) = [])
   \<and> (pending (trace cdr) = [] \<and> snd (resourceArmCosmosDbMongoCollectionDelete cmeta cdr) = None \<longrightarrow>
      pending (trace (fst (resourceArmCosmosDbMongoCollectionDelete cmeta cdr))) = [])
   \<and> (pending (trace scr) = [] \<and> snd (resourceArmSpringCloudAppCreate smeta scr) = None \<longrightarrow>
      pending (trace (fst (resourceArmSpringCloudAppCreate smeta scr))) = [])
   \<and> (pending (trace srr) = [] \<and> snd (resourceArmSpringCloudAppRead smeta srr) = None \<longrightarrow>
      pending (trace (fst (resourceArmSpringCloudAppRead smeta srr))) = [])
   \<and> (pending (trace sdr) = [] \<and> snd (resourceArmSpringCloudAppDelete smeta sdr) = None \<longrightarrow>
      pending (trace (fst (resourceArmSpringCloudAppDelete smeta sdr))) = [])
   \<and> (pending (trace ecr) = [] \<and> snd (resourceArmEventGridDomainTopicCreate emeta ecr) = None \<longrightarrow>
      pending (trace (fst (resourceArmEventGridDomainTopicCreate emeta ecr))) = [])
   \<and> (pending (trace egr) = [] \<and> snd (resourceArmEventGridDomainTopicRead emeta egr) = None \<longrightarrow>
      pending (trace (fst (resourceArmEventGridDomainTopicRead emeta egr))) = [])
   \<and> (pending (trace edr) = [] \<and> snd (resourceArmEventGridDomainTopicDelete emeta edr) = None \<longrightarrow>
      unawaited (trace (fst (resourceArmEventGridDomainTopicDelete emeta edr))) = []
      \<and> (pending (trace (fst (resourceArmEventGridDomainTopicDelete emeta edr))) = []
           \<or> (WaitForCompletionRef (fst (ed_future emeta)) \<noteq> None
                \<and> ResponseWasNotFound (Response_after (fst (ed_future emeta))))))"
  using datashare_create_pending[of dcr dmeta] datashare_read_pending[of dmeta drr]
        datashare_delete_pending[of ddr dmeta] cosmos_create_pending[of ccr cmeta]
        cosmos_update_pending[of cur cmeta] cosmos_read_pending[of cmeta crr]
        cosmos_delete_pending[of cdr cmeta] spring_create_pending[of scr smeta]
        spring_read_pending[of smeta srr] spring_delete_pending[of sdr smeta]
        eventgrid_create_pending[of ecr emeta] eventgrid_read_pending[of emeta egr]
        eventgrid_delete_pending[of edr emeta]
  by simp

text \<open>On the sample services the remaining handlers succeed too.\<close>

lemma sample_datashare_read_ok:
  "snd (resourceArmDataShareRead sample_datashare_meta
          (existing_resource sample_datashare_id sample_datashare_config)) = None"
  by (simp add: datashare_defs data_defs sample_defs sample_data_defs run_defs Let_def)

lemma sample_datashare_delete_ok:
  "snd (resourceArmDataShareDelete sample_datashare_meta
          (existing_resource sample_datashare_id sample_datashare_config)) = None"
  by (simp add: datashare_defs data_defs sample_defs sample_data_defs run_defs Let_def)

lemma sample_cosmos_update_ok:
  "snd (resourceArmCosmosDbMongoCollectionUpdate sample_cosmos_meta
          (existing_resource sample_cosmos_id sample_cosmos_config)) = None"
  by (simp add: cosmos_defs data_defs sample_defs sample_data_defs run_defs Let_def)

lemma sample_cosmos_read_ok:
  "snd (resourceArmCosmosDbMongoCollectionRead sample_cosmos_meta
          (existing_resource sample_cosmos_id sample_cosmos_config)) = None"
  by (simp add: cosmos_defs data_defs sample_defs sample_data_defs run_defs Let_def)

lemma sample_cosmos_delete_ok:
  "snd (resourceArmCosmosDbMongoCollectionDelete sample_cosmos_meta
          (existing_resource sample_cosmos_id sample_cosmos_config)) = None"
  by (simp add: cosmos_defs data_defs sample_defs sample_data_defs run_defs Let_def)

lemma sample_spring_read_ok:
  "snd (resourceArmSpringCloudAppRead sample_spring_meta
          (existing_resource sample_spring_id sample_spring_config)) = None"
  by (simp add: spring_defs data_defs sample_defs sample_data_defs run_defs Let_def)

lemma sample_spring_delete_ok:
  "snd (resourceArmSpringCloudAppDelete sample_spring_meta
          (existing_resource sample_spring_id sample_spring_config)) = None"
  by (simp add: spring_defs data_defs sample_defs sample_data_defs run_defs Let_def)

lemma sample_eventgrid_read_ok:
  "snd (resourceArmEventGridDomainTopicRead sample_eventgrid_meta
          (existing_resource sample_eventgrid_id sample_eventgrid_config)) = None"
  by (simp add: eventgrid_defs data_defs sample_defs sample_data_defs run_defs Let_def)

lemma sample_eventgrid_delete_ok:
  "snd (resourceArmEventGridDomainTopicDelete sample_eventgrid_meta
          (existing_resource sample_eventgrid_id sample_eventgrid_config)) = None"
  by (simp add: eventgrid_defs data_defs sample_defs sample_data_defs run_defs Let_def)

text \<open>The theorem on the sample services: every handler returns nil with nothing pending.\<close>

theorem C2_waits_for_completion_witness:
  "pending (trace (fst (resourceArmDataShareCreateUpdate sample_datashare_meta
        (new_resource sample_datashare_config)))) = []
   \<and> pending (trace (fst (resourceArmDataShareRead sample_datashare_meta
        (existing_resource sample_datashare_id sample_datashare_config)))) = []
   \<and> pending (trace (fst (resourceArmDataShareDelete sample_datashare_meta
        (existing_resource sample_datashare_id sample_datashare_config)))) = []
   \<and> pending (trace (fst (resourceArmCosmosDbMongoCollectionCreate sample_cosmos_meta
        (new_resource sample_cosmos_config)))) = []
   \<and> pending (trace (fst (resourceArmCosmosDbMongoCollectionUpdate sample_cosmos_meta
        (existing_resource sample_cosmos_id sample_cosmos_config)))) = []
   \<and> pending (trace (fst (resourceArmCosmosDbMongoCollectionRead sample_cosmos_meta
        (existing_resource sample_cosmos_id sample_cosmos_config)))) = []
   \<and> pending (trace (fst (resourceArmCosmosDbMongoCollectionDelete sample_cosmos_meta
        (existing_resource sample_cosmos_id sample_cosmos_config)))) = []
   \<and> pending (trace (fst (resourceArmSpringCloudAppCreate sample_spring_meta
        (new_resource sample_spring_config)))) = []
   \<and> pending (trace (fst (resourceArmSpringCloudAppRead sample_spring_meta
        (existing_resource sample_spring_id sample_spring_config)))) = []
   \<and> pending (trace (fst (resourceArmSpringCloudAppDelete sample_spring_meta
        (existing_resource sample_spring_id sample_spring_config)))) = []
   \<and> pending (trace (fst (resourceArmEventGridDomainTopicCreate sample_eventgrid_meta
        (new_resource sample_eventgrid_config)))) = []
   \<and> pending (trace (fst (resourceArmEventGridDomainTopicRead sample_eventgrid_meta
        (existing_resource sample_eventgrid_id sample_eventgrid_config)))) = []
   \<and> pending (trace (fst (resourceArmEventGridDomainTopicDelete sample_eventgrid_meta
        (existing_resource sample_eventgrid_id sample_eventgrid_config)))) = []"
  using C2_waits_for_completion
          [where dmeta = sample_datashare_meta and cmeta = sample_cosmos_meta
             and smeta = sample_spring_meta and emeta = sample_eventgrid_meta
             and dcr = "new_resource sample_datashare_config"
             and drr = "existing_resource sample_datashare_id sample_datashare_config"
             and ddr = "existing_resource sample_datashare_id sample_datashare_config"
             and ccr = "new_resource sample_cosmos_config"
             and cur = "existing_resource sample_cosmos_id sample_cosmos_config"
             and crr = "existing_resource sample_cosmos_id sample_cosmos_config"
             and cdr = "existing_resource sample_cosmos_id sample_cosmos_config"
             and scr = "new_resource sample_spring_config"
             and srr = "existing_resource sample_spring_id sample_spring_config"
             and sdr = "existing_resource sample_spring_id sample_spring_config"
             and ecr = "new_resource sample_eventgrid_config"
             and egr = "existing_resource sample_eventgrid_id sample_eventgrid_config"
             and edr = "existing_resource sample_eventgrid_id sample_eventgrid_config"]
        sample_datashare_create_ok sample_datashare_read_ok sample_datashare_delete_ok
        sample_cosmos_create_ok sample_cosmos_update_ok sample_cosmos_read_ok
        sample_cosmos_delete_ok sample_spring_create_ok sample_spring_read_ok
        sample_spring_delete_ok sample_eventgrid_create_ok sample_eventgrid_read_ok
        sample_eventgrid_delete_ok
  by (simp add: sample_defs)

text \<open>
  The claim as first stated has no handler return nil while an operation it began is
  pending. The EventGrid Domain Topic delete handler begins the delete, waits, is told
  that the wait failed, finds a 404 as the future's response, and returns nil: no wait
  has reported the operation complete.
\<close>

theorem C2_waits_for_completion_counterexample:
  "snd (resourceArmEventGridDomainTopicDelete lost_delete_eventgrid_meta
          (existing_resource sample_eventgrid_id sample_eventgrid_config)) = None
   \<and> trace (fst (resourceArmEventGridDomainTopicDelete lost_delete_eventgrid_meta
          (existing_resource sample_eventgrid_id sample_eventgrid_config)))
       = [Began ''DomainTopicsClient.Delete'' [''rg1'', ''dom1'', ''topic1''] None,
          Waited ''DomainTopicsClient.Delete'' (Some (Failure ''polling failed''))]
   \<and> pending (trace (fst (resourceArmEventGridDomainTopicDelete lost_delete_eventgrid_meta
          (existing_resource sample_eventgrid_id sample_eventgrid_config))))
       = [''DomainTopicsClient.Delete'']"
  by (simp add: eventgrid_defs lost_delete_eventgrid_meta_def data_defs sample_defs
        sample_data_defs run_defs Let_def)

section \<open>Properties: the vaults client\<close>

text \<open>The request each preparer builds when \<^verbatim>\<open>Prepare\<close> accepts its decorators.\<close>

lemma CreateOrUpdatePreparer_request:
  "CreateOrUpdatePreparer client resourceGroupName vaultName vault =
     (case prepare_failure client (CreateOrUpdate_decorators client resourceGroupName vaultName vault) of
        Some err \<Rightarrow> (None, Some err)
      | None \<Rightarrow>
          (Some \<lparr>Method = ''PUT'', ContentType = Some ''application/json; charset=utf-8'',
                 BaseURL = BaseURI client,
                 PathTemplate = ''/subscriptions/{subscriptionId}/resourceGroups/{resourceGroupName}/providers/Microsoft.RecoveryServices/vaults/{vaultName}'',
                 PathParameters =
                   [(''resourceGroupName'', Encode client ''path'' resourceGroupName),
                    (''subscriptionId'', Encode client ''path'' (SubscriptionID client)),
                    (''vaultName'', Encode client ''path'' vaultName)],
                 QueryParameters = [(''api-version'', ''2016-06-01'')],
                 Body = Some (VaultBody vault)\<rparr>, None))"
  unfolding CreateOrUpdatePreparer_def Prepare_def
  by (simp add: CreateOrUpdate_decorators_def APIVersion_def empty_request_def Let_def
           split: option.splits)

lemma DeletePreparer_request:
  "DeletePreparer client resourceGroupName vaultName =
     (case prepare_failure client (Delete_decorators client resourceGroupName vaultName) of
        Some err \<Rightarrow> (None, Some err)
      | None \<Rightarrow>
          (Some \<lparr>Method = ''DELETE'', ContentType = None,
                 BaseURL = BaseURI client,
                 PathTemplate = ''/subscriptions/{subscriptionId}/resourceGroups/{resourceGroupName}/providers/Microsoft.RecoveryServices/vaults/{vaultName}'',
                 PathParameters =
                   [(''resourceGroupName'', Encode client ''path'' resourceGroupName),
                    (''subscriptionId'', Encode client ''path'' (SubscriptionID client)),
                    (''vaultName'', Encode client ''path'' vaultName)],
                 QueryParameters = [(''api-version'', ''2016-06-01'')],
                 Body = None\<rparr>, None))"
  unfolding DeletePreparer_def Prepare_def
  by (simp add: Delete_decorators_def APIVersion_def empty_request_def Let_def
           split: option.splits)

lemma GetPreparer_request:
  "GetPreparer client resourceGroupName vaultName =
     (case prepare_failure client (Get_decorators client resourceGroupName vaultName) of
        Some err \<Rightarrow> (None, Some err)
      | None \<Rightarrow>
          (Some \<lparr>Method = ''GET'', ContentType = None,
                 BaseURL = BaseURI client,
                 PathTemplate = ''/subscriptions/{subscriptionId}/resourceGroups/{resourceGroupName}/providers/Microsoft.RecoveryServices/vaults/{vaultName}'',
                 PathParameters =
                   [(''resourceGroupName'', Encode client ''path'' resourceGroupName),
                    (''subscriptionId'', Encode client ''path'' (SubscriptionID client)),
                    (''vaultName'', Encode client ''path'' vaultName)],
                 QueryParameters = [(''api-version'', ''2016-06-01'')],
                 Body = None\<rparr>, None))"
  unfolding GetPreparer_def Prepare_def
  by (simp add: Get_decorators_def APIVersion_def empty_request_def Let_def
           split: option.splits)

lemma ListByResourceGroupPreparer_request:
  "ListByResourceGroupPreparer client resourceGroupName =
     (case prepare_failure client (ListByResourceGroup_decorators client resourceGroupName) of
        Some err \<Rightarrow> (None, Some err)
      | None \<Rightarrow>
          (Some \<lparr>Method = ''GET'', ContentType = None,
                 BaseURL = BaseURI client,
                 PathTemplate = ''/subscriptions/{subscriptionId}/resourceGroups/{resourceGroupName}/providers/Microsoft.RecoveryServices/vaults'',
                 PathParameters =
                   [(''resourceGroupName'', Encode client ''path'' resourceGroupName),
                    (''subscriptionId'', Encode client ''path'' (SubscriptionID client))],
                 QueryParameters = [(''api-version'', ''2016-06-01'')],
                 Body = None\<rparr>, None))"
  unfolding ListByResourceGroupPreparer_def Prepare_def
  by (simp add: ListByResourceGroup_decorators_def APIVersion_def empty_request_def Let_def
           split: option.splits)

lemma ListBySubscriptionIDPreparer_request:
  "ListBySubscriptionIDPreparer client =
     (case prepare_failure client (ListBySubscriptionID_decorators client) of
        Some err \<Rightarrow> (None, Some err)
      | None \<Rightarrow>
          (Some \<lparr>Method = ''GET'', ContentType = None,
                 BaseURL = BaseURI client,
                 PathTemplate = ''/subscriptions/{subscriptionId}/providers/Microsoft.RecoveryServices/vaults'',
                 PathParameters =
                   [(''subscriptionId'', Encode client ''path'' (SubscriptionID client))],
                 QueryParameters = [(''api-version'', ''2016-06-01'')],
                 Body = None\<rparr>, None))"
  unfolding ListBySubscriptionIDPreparer_def Prepare_def
  by (simp add: ListBySubscriptionID_decorators_def APIVersion_def empty_request_def Let_def
           split: option.splits)

lemma UpdatePreparer_request:
  "UpdatePreparer client resourceGroupName vaultName patch =
     (case prepare_failure client (Update_decorators client resourceGroupName vaultName patch) of
        Some err \<Rightarrow> (None, Some err)
      | None \<Rightarrow>
          (Some \<lparr>Method = ''PATCH'', ContentType = Some ''application/json; charset=utf-8'',
                 BaseURL = BaseURI client,
                 PathTemplate = ''/subscriptions/{subscriptionId}/resourceGroups/{resourceGroupName}/providers/Microsoft.RecoveryServices/vaults/{vaultName}'',
                 PathParameters =
                   [(''resourceGroupName'', Encode client ''path'' resourceGroupName),
                    (''subscriptionId'', Encode client ''path'' (SubscriptionID client)),
                    (''vaultName'', Encode client ''path'' vaultName)],
                 QueryParameters = [(''api-version'', ''2016-06-01'')],
                 Body = Some (PatchVaultBody patch)\<rparr>, None))"
  unfolding UpdatePreparer_def Prepare_def
  by (simp add: Update_decorators_def APIVersion_def empty_request_def Let_def
           split: option.splits)

text \<open>The query and path parameters of a prepared request, preparer by preparer.\<close>

lemma CreateOrUpdate_prepared:
  assumes "fst (CreateOrUpdatePreparer client resourceGroupName vaultName vault) = Some req"
  shows "map_of (QueryParameters req) ''api-version'' = Some ''2016-06-01''
      \<and> PathParameters req =
          [(''resourceGroupName'', Encode client ''path'' resourceGroupName),
           (''subscriptionId'', Encode client ''path'' (SubscriptionID client)),
           (''vaultName'', Encode client ''path'' vaultName)]"
proof -
  from assms have "req = the (fst (CreateOrUpdatePreparer client resourceGroupName vaultName vault))" by simp
  with assms show ?thesis
    by (simp add: CreateOrUpdatePreparer_request split: option.splits)
qed

lemma Delete_prepared:
  assumes "fst (DeletePreparer client resourceGroupName vaultName) = Some req"
  shows "map_of (QueryParameters req) ''api-version'' = Some ''2016-06-01''
      \<and> PathParameters req =
          [(''resourceGroupName'', Encode client ''path'' resourceGroupName),
           (''subscriptionId'', Encode client ''path'' (SubscriptionID client)),
           (''vaultName'', Encode client ''path'' vaultName)]"
proof -
  from assms have "req = the (fst (DeletePreparer client resourceGroupName vaultName))" by simp
  with assms show ?thesis
    by (simp add: DeletePreparer_request split: option.splits)
qed

lemma Get_prepared:
  assumes "fst (GetPreparer client resourceGroupName vaultName) = Some req"
  shows "map_of (QueryParameters req) ''api-version'' = Some ''2016-06-01''
      \<and> PathParameters req =
          [(''resourceGroupName'', Encode client ''path'' resourceGroupName),
           (''subscriptionId'', Encode client ''path'' (SubscriptionID client)),
           (''vaultName'', Encode client ''path'' vaultName)]"
proof -
  from assms have "req = the (fst (GetPreparer client resourceGroupName vaultName))" by simp
  with assms show ?thesis
    by (simp add: GetPreparer_request split: option.splits)
qed

lemma ListByResourceGroup_prepared:
  assumes "fst (ListByResourceGroupPreparer client resourceGroupName) = Some req"
  shows "map_of (QueryParameters req) ''api-version'' = Some ''2016-06-01''
      \<and> PathParameters req =
          [(''resourceGroupName'', Encode client ''path'' resourceGroupName),
           (''subscriptionId'', Encode client ''path'' (SubscriptionID client))]"
proof -
  from assms have "req = the (fst (ListByResourceGroupPreparer client resourceGroupName))" by simp
  with assms show ?thesis
    by (simp add: ListByResourceGroupPreparer_request split: option.splits)
qed

lemma ListBySubscriptionID_prepared:
  assumes "fst (ListBySubscriptionIDPreparer client) = Some req"
  shows "map_of (QueryParameters req) ''api-version'' = Some ''2016-06-01''
      \<and> PathParameters req =
          [(''subscriptionId'', Encode client ''path'' (SubscriptionID client))]"
proof -
  from assms have "req = the (fst (ListBySubscriptionIDPreparer client))" by simp
  with assms show ?thesis
    by (simp add: ListBySubscriptionIDPreparer_request split: option.splits)
qed

lemma Update_prepared:
  assumes "fst (UpdatePreparer client resourceGroupName vaultName patch) = Some req"
  shows "map_of (QueryParameters req) ''api-version'' = Some ''2016-06-01''
      \<and> PathParameters req =
          [(''resourceGroupName'', Encode client ''path'' resourceGroupName),
           (''subscriptionId'', Encode client ''path'' (SubscriptionID client)),
           (''vaultName'', Encode client ''path'' vaultName)]"
proof -
  from assms have "req = the (fst (UpdatePreparer client resourceGroupName vaultName patch))" by simp
  with assms show ?thesis
    by (simp add: UpdatePreparer_request split: option.splits)
qed

text \<open>
  Claim C5, as amended. Every request a preparer of the vaults client prepares carries the
  query parameter \<^verbatim>\<open>api-version\<close> with the value \<^verbatim>\<open>2016-06-01\<close>, and the encoded
  subscription ID as the path parameter \<^verbatim>\<open>subscriptionId\<close>. The preparers of
  \<^verbatim>\<open>CreateOrUpdate\<close>, \<^verbatim>\<open>Delete\<close>, \<^verbatim>\<open>Get\<close> and \<^verbatim>\<open>Update\<close> also pass the encoded
  \<^verbatim>\<open>resourceGroupName\<close> and \<^verbatim>\<open>vaultName\<close>; the preparer of \<^verbatim>\<open>ListByResourceGroup\<close> passes
  \<^verbatim>\<open>resourceGroupName\<close> and no vault name; the preparer of \<^verbatim>\<open>ListBySubscriptionID\<close>
  passes neither.
\<close>

theorem C5_preparers:
  "(fst (CreateOrUpdatePreparer client resourceGroupName vaultName vault) = Some req \<longrightarrow>
      map_of (QueryParameters req) ''api-version'' = Some ''2016-06-01''
      \<and> PathParameters req =
          [(''resourceGroupName'', Encode client ''path'' resourceGroupName),
           (''subscriptionId'', Encode client ''path'' (SubscriptionID client)),
           (''vaultName'', Encode client ''path'' vaultName)])
   \<and> (fst (DeletePreparer client resourceGroupName vaultName) = Some req \<longrightarrow>
      map_of (QueryParameters req) ''api-version'' = Some ''2016-06-01''
      \<and> PathParameters req =
          [(''resourceGroupName'', Encode client ''path'' resourceGroupName),
           (''subscriptionId'', Encode client ''path'' (SubscriptionID client)),
           (''vaultName'', Encode client ''path'' vaultName)])
   \<and> (fst (GetPreparer client resourceGroupName vaultName) = Some req \<longrightarrow>
      map_of (QueryParameters req) ''api-version'' = Some ''2016-06-01''
      \<and> PathParameters req =
          [(''resourceGroupName'', Encode client ''path'' resourceGroupName),
           (''subscriptionId'', Encode client ''path'' (SubscriptionID client)),
           (''vaultName'', Encode client ''path'' vaultName)])
   \<and> (fst (ListByResourceGroupPreparer client resourceGroupName) = Some req \<longrightarrow>
      map_of (QueryParameters req) ''api-version'' = Some ''2016-06-01''
      \<and> PathParameters req =
          [(''resourceGroupName'', Encode client ''path'' resourceGroupName),
           (''subscriptionId'', Encode client ''path'' (SubscriptionID client))])
   \<and> (fst (ListBySubscriptionIDPreparer client) = Some req \<longrightarrow>
      map_of (QueryParameters req) ''api-version'' = Some ''2016-06-01''
      \<and> PathParameters req =
          [(''subscriptionId'', Encode client ''path'' (SubscriptionID client))])
   \<and> (fst (UpdatePreparer client resourceGroupName vaultName patch) = Some req \<longrightarrow>
      map_of (QueryParameters req) ''api-version'' = Some ''2016-06-01''
      \<and> PathParameters req =
          [(''resourceGroupName'', Encode client ''path'' resourceGroupName),
           (''subscriptionId'', Encode client ''path'' (SubscriptionID client)),
           (''vaultName'', Encode client ''path'' vaultName)])"
proof (intro conjI)
  show "fst (CreateOrUpdatePreparer client resourceGroupName vaultName vault) = Some req \<longrightarrow>
      map_of (QueryParameters req) ''api-version'' = Some ''2016-06-01''
      \<and> PathParameters req =
          [(''resourceGroupName'', Encode client ''path'' resourceGroupName),
           (''subscriptionId'', Encode client ''path'' (SubscriptionID client)),
           (''vaultName'', Encode client ''path'' vaultName)]"
    by (rule impI) (rule CreateOrUpdate_prepared)
  show "fst (DeletePreparer client resourceGroupName vaultName) = Some req \<longrightarrow>
      map_of (QueryParameters req) ''api-version'' = Some ''2016-06-01''
      \<and> PathParameters req =
          [(''resourceGroupName'', Encode client ''path'' resourceGroupName),
           (''subscriptionId'', Encode client ''path'' (SubscriptionID client)),
           (''vaultName'', Encode client ''path'' vaultName)]"
    by (rule impI) (rule Delete_prepared)
  show "fst (GetPreparer client resourceGroupName vaultName) = Some req \<longrightarrow>
      map_of (QueryParameters req) ''api-version'' = Some ''2016-06-01''
      \<and> PathParameters req =
          [(''resourceGroupName'', Encode client ''path'' resourceGroupName),
           (''subscriptionId'', Encode client ''path'' (SubscriptionID client)),
           (''vaultName'', Encode client ''path'' vaultName)]"
    by (rule impI) (rule Get_prepared)
  show "fst (ListByResourceGroupPreparer client resourceGroupName) = Some req \<longrightarrow>
      map_of (QueryParameters req) ''api-version'' = Some ''2016-06-01''
      \<and> PathParameters req =
          [(''resourceGroupName'', Encode client ''path'' resourceGroupName),
           (''subscriptionId'', Encode client ''path'' (SubscriptionID client))]"
    by (rule impI) (rule ListByResourceGroup_prepared)
  show "fst (ListBySubscriptionIDPreparer client) = Some req \<longrightarrow>
      map_of (QueryParameters req) ''api-version'' = Some ''2016-06-01''
      \<and> PathParameters req =
          [(''subscriptionId'', Encode client ''path'' (SubscriptionID client))]"
    by (rule impI) (rule ListBySubscriptionID_prepared)
  show "fst (UpdatePreparer client resourceGroupName vaultName patch) = Some req \<longrightarrow>
      map_of (QueryParameters req) ''api-version'' = Some ''2016-06-01''
      \<and> PathParameters req =
          [(''resourceGroupName'', Encode client ''path'' resourceGroupName),
           (''subscriptionId'', Encode client ''path'' (SubscriptionID client)),
           (''vaultName'', Encode client ''path'' vaultName)]"
    by (rule impI) (rule Update_prepared)
qed

text \<open>The theorem on the sample client, for three of the preparers.\<close>

theorem C5_preparers_witness:
  "map_of (QueryParameters (the (fst (CreateOrUpdatePreparer sample_vaults_client ''rg1'' ''vault1''
             zero_Vault)))) ''api-version'' = Some ''2016-06-01''
   \<and> PathParameters (the (fst (CreateOrUpdatePreparer sample_vaults_client ''rg1'' ''vault1''
             zero_Vault)))
       = [(''resourceGroupName'', ''rg1''), (''subscriptionId'', ''s1''), (''vaultName'', ''vault1'')]
   \<and> PathParameters (the (fst (ListByResourceGroupPreparer sample_vaults_client ''rg1'')))
       = [(''resourceGroupName'', ''rg1''), (''subscriptionId'', ''s1'')]
   \<and> PathParameters (the (fst (ListBySubscriptionIDPreparer sample_vaults_client)))
       = [(''subscriptionId'', ''s1'')]"
proof -
  have a: "fst (CreateOrUpdatePreparer sample_vaults_client ''rg1'' ''vault1'' zero_Vault)
             = Some (the (fst (CreateOrUpdatePreparer sample_vaults_client ''rg1'' ''vault1''
                                 zero_Vault)))"
    by (simp add: CreateOrUpdatePreparer_def Prepare_def sample_vaults_client_def)
  have b: "fst (ListByResourceGroupPreparer sample_vaults_client ''rg1'')
             = Some (the (fst (ListByResourceGroupPreparer sample_vaults_client ''rg1'')))"
    by (simp add: ListByResourceGroupPreparer_def Prepare_def sample_vaults_client_def)
  have c: "fst (ListBySubscriptionIDPreparer sample_vaults_client)
             = Some (the (fst (ListBySubscriptionIDPreparer sample_vaults_client)))"
    by (simp add: ListBySubscriptionIDPreparer_def Prepare_def sample_vaults_client_def)
  from a C5_preparers
         [where client = sample_vaults_client and resourceGroupName = "''rg1''"
            and vaultName = "''vault1''" and vault = zero_Vault
            and req = "the (fst (CreateOrUpdatePreparer sample_vaults_client ''rg1'' ''vault1''
                                   zero_Vault))"]
  have 1: "map_of (QueryParameters (the (fst (CreateOrUpdatePreparer sample_vaults_client ''rg1''
             ''vault1'' zero_Vault)))) ''api-version'' = Some ''2016-06-01''
   \<and> PathParameters (the (fst (CreateOrUpdatePreparer sample_vaults_client ''rg1'' ''vault1''
             zero_Vault)))
       = [(''resourceGroupName'', ''rg1''), (''subscriptionId'', ''s1''), (''vaultName'', ''vault1'')]"
    by (simp add: sample_vaults_client_def)
  from b C5_preparers
         [where client = sample_vaults_client and resourceGroupName = "''rg1''"
            and req = "the (fst (ListByResourceGroupPreparer sample_vaults_client ''rg1''))"]
  have 2: "PathParameters (the (fst (ListByResourceGroupPreparer sample_vaults_client ''rg1'')))
       = [(''resourceGroupName'', ''rg1''), (''subscriptionId'', ''s1'')]"
    by (simp add: sample_vaults_client_def)
  from c C5_preparers
         [where client = sample_vaults_client
            and req = "the (fst (ListBySubscriptionIDPreparer sample_vaults_client))"]
  have 3: "PathParameters (the (fst (ListBySubscriptionIDPreparer sample_vaults_client)))
       = [(''subscriptionId'', ''s1'')]"
    by (simp add: sample_vaults_client_def)
  from 1 2 3 show ?thesis by blast
qed

text \<open>
  The claim as first stated has every preparer encode \<^verbatim>\<open>resourceGroupName\<close>,
  \<^verbatim>\<open>subscriptionId\<close> and \<^verbatim>\<open>vaultName\<close>. The request that the preparer of
  \<^verbatim>\<open>ListBySubscriptionID\<close> prepares has the subscription ID as its only path parameter.
\<close>

theorem C5_preparers_counterexample:
  "ListBySubscriptionIDPreparer sample_vaults_client =
     (Some \<lparr>Method = ''GET'', ContentType = None, BaseURL = ''https://management.azure.com'',
            PathTemplate = ''/subscriptions/{subscriptionId}/providers/Microsoft.RecoveryServices/vaults'',
            PathParameters = [(''subscriptionId'', ''s1'')],
            QueryParameters = [(''api-version'', ''2016-06-01'')],
            Body = None\<rparr>, None)"
  by (simp add: ListBySubscriptionIDPreparer_request sample_vaults_client_def)










section \<open>Properties: paged listing\<close>

text \<open>The function that fetches the next list, with and without a next link.\<close>

lemma next_results_without_link:
  "vaultListPreparer client lastResults = (None, None) \<Longrightarrow>
     listByResourceGroupNextResults client lastResults = (zero_VaultList, None, [Prepared])"
  by (simp add: listByResourceGroupNextResults_def)

lemma next_results_sends_iff:
  "(\<exists>req. Sent req \<in> set (snd (snd (listByResourceGroupNextResults client lastResults))))
     \<longleftrightarrow> (\<exists>rq. vaultListPreparer client lastResults = (Some rq, None))"
  by (cases "vaultListPreparer client lastResults")
     (auto simp: listByResourceGroupNextResults_def split: option.splits prod.splits)

lemma no_next_link_preparer:
  "no_next_link vl \<Longrightarrow> vaultListPreparer client vl = (None, None)"
  by (auto simp: no_next_link_def vaultListPreparer_def split: option.splits)

lemma next_results_serves:
  assumes "serves client vl (nxt # rest)"
  shows "\<exists>stages. listByResourceGroupNextResults client vl = (nxt, None, stages)
                  \<and> sends stages = 1"
  using assms
  by (auto simp: listByResourceGroupNextResults_def vaultListPreparer_def Prepare_def
        ListByResourceGroupSender_def ListByResourceGroupResponder_def sends_def
      split: option.splits prod.splits)

lemma sends_append: "sends (xs @ ys) = sends xs + sends ys"
  by (simp add: sends_def)

text \<open>Reading an iterator within a list, and across the lists a client serves.\<close>

lemma IsEmpty_values: "IsEmpty vl \<longleftrightarrow> values_of vl = []"
  by (auto simp: IsEmpty_def values_of_def split: option.splits)

lemma enumerate_done:
  "IsEmpty vl \<Longrightarrow>
     enumerate_values (Suc n) \<lparr>iter_i = i, iter_page = \<lparr>page_fn = f, page_vl = vl\<rparr>\<rparr>
       = Some ([], None, [])"
  by (simp add: iter_NotDone_def page_NotDone_def)

lemma enumerate_within:
  assumes "i < length (values_of vl)" and "f vl = (next, None, st)"
  shows "enumerate_values (length (values_of vl) - i + n)
           \<lparr>iter_i = i, iter_page = \<lparr>page_fn = f, page_vl = vl\<rparr>\<rparr>
         = (case enumerate_values n \<lparr>iter_i = 0, iter_page = \<lparr>page_fn = f, page_vl = next\<rparr>\<rparr> of
              None \<Rightarrow> None
            | Some (vs, err, st') \<Rightarrow> Some (drop i (values_of vl) @ vs, err, st @ st'))"
  using assms(1)
proof (induction "length (values_of vl) - i" arbitrary: i)
  case 0
  then show ?case by simp
next
  case (Suc k)
  from Suc.prems have ne: "\<not> IsEmpty vl" by (auto simp: IsEmpty_values)
  from Suc.hyps(2) have fuel: "length (values_of vl) - i + n = Suc (k + n)" by simp
  show ?case
  proof (cases "i + 1 < length (values_of vl)")
    case True
    with Suc.hyps(2) have k: "k = length (values_of vl) - Suc i" by simp
    from Suc.hyps(1)[OF k] True
    have ih: "enumerate_values (k + n)
           \<lparr>iter_i = Suc i, iter_page = \<lparr>page_fn = f, page_vl = vl\<rparr>\<rparr>
         = (case enumerate_values n \<lparr>iter_i = 0, iter_page = \<lparr>page_fn = f, page_vl = next\<rparr>\<rparr> of
              None \<Rightarrow> None
            | Some (vs, err, st') \<Rightarrow> Some (drop (Suc i) (values_of vl) @ vs, err, st @ st'))"
      by (simp add: k)
    from Suc.prems have d: "drop i (values_of vl) = values_of vl ! i # drop (Suc i) (values_of vl)"
      by (simp add: Cons_nth_drop_Suc)
    show ?thesis
      unfolding fuel
      using True Suc.prems ne
      by (simp add: iter_NotDone_def page_NotDone_def page_Values_def iter_NextWithContext_def
            iter_Value_def ih d split: option.splits prod.splits)
  next
    case False
    with Suc.prems have last: "Suc i = length (values_of vl)" by simp
    with Suc.hyps(2) have k: "k = 0" by simp
    from Suc.prems last have d: "drop i (values_of vl) = [values_of vl ! i]"
      by (metis Cons_nth_drop_Suc drop_all order_refl)
    show ?thesis
      unfolding fuel
      using False Suc.prems ne assms(2)
      by (simp add: iter_NotDone_def page_NotDone_def page_Values_def iter_NextWithContext_def
            page_NextWithContext_def iter_Value_def k d split: option.splits prod.splits)
  qed
qed

lemma enumerate_serves:
  assumes "serves client vl rest"
      and "length (concat (map values_of (vl # rest))) < fuel"
  shows "\<exists>stages.
           enumerate_values fuel
             \<lparr>iter_i = 0,
              iter_page = \<lparr>page_fn = listByResourceGroupNextResults client, page_vl = vl\<rparr>\<rparr>
           = Some (concat (map values_of (takeWhile (\<lambda>l. \<not> IsEmpty l) (vl # rest))),
                   None, stages)
           \<and> sends stages = min (length (takeWhile (\<lambda>l. \<not> IsEmpty l) (vl # rest))) (length rest)"
  using assms
proof (induction rest arbitrary: vl fuel)
  case Nil
  show ?case
  proof (cases "IsEmpty vl")
    case True
    from Nil obtain n where "fuel = Suc n" by (cases fuel) auto
    with True show ?thesis by (simp add: enumerate_done sends_def del: enumerate_values.simps)
  next
    case False
    then have pos: "0 < length (values_of vl)" by (simp add: IsEmpty_values)
    from Nil have "no_next_link vl" by simp
    then have step: "listByResourceGroupNextResults client vl = (zero_VaultList, None, [Prepared])"
      by (simp add: no_next_link_preparer next_results_without_link)
    from Nil obtain n where fuel: "fuel = length (values_of vl) - 0 + Suc n"
      by (metis add_Suc_right diff_zero less_iff_Suc_add append_Nil2 concat.simps list.simps(8,9))
    have z: "IsEmpty zero_VaultList" by (simp add: IsEmpty_def zero_VaultList_def)
    show ?thesis
      unfolding fuel enumerate_within[where f = "listByResourceGroupNextResults client" and vl = vl and i = 0, OF pos step]
      using False by (simp add: enumerate_done[OF z] sends_def del: enumerate_values.simps)
  qed
next
  case (Cons nxt rest)
  show ?case
  proof (cases "IsEmpty vl")
    case True
    from Cons.prems obtain n where "fuel = Suc n" by (cases fuel) auto
    with True show ?thesis by (simp add: enumerate_done sends_def del: enumerate_values.simps)
  next
    case False
    then have pos: "0 < length (values_of vl)" by (simp add: IsEmpty_values)
    from Cons.prems(1) have srv: "serves client nxt rest"
      by (auto split: option.splits prod.splits)
    from next_results_serves[OF Cons.prems(1)] obtain st1
      where step: "listByResourceGroupNextResults client vl = (nxt, None, st1)"
        and s1: "sends st1 = 1" by blast
    from Cons.prems(2) obtain n where fuel: "fuel = length (values_of vl) - 0 + n"
      and n: "length (concat (map values_of (nxt # rest))) < n"
      by (auto simp: less_iff_Suc_add)
    from Cons.IH[OF srv n] obtain st2
      where rec: "enumerate_values n
             \<lparr>iter_i = 0,
              iter_page = \<lparr>page_fn = listByResourceGroupNextResults client, page_vl = nxt\<rparr>\<rparr>
           = Some (concat (map values_of (takeWhile (\<lambda>l. \<not> IsEmpty l) (nxt # rest))),
                   None, st2)"
        and s2: "sends st2 = min (length (takeWhile (\<lambda>l. \<not> IsEmpty l) (nxt # rest))) (length rest)"
      by blast
    show ?thesis
      unfolding fuel enumerate_within[where f = "listByResourceGroupNextResults client" and vl = vl and i = 0, OF pos step]
      using False s1 s2 by (simp add: rec sends_append del: enumerate_values.simps)
  qed
qed

text \<open>The iterator that \<^verbatim>\<open>ListByResourceGroupComplete\<close> returns after a first request that succeeds.\<close>

lemma complete_first_page:
  assumes "ListByResourceGroupPreparer client resourceGroupName = (req, None)"
      and "ListByResourceGroupSender client req = (resp, None)"
      and "ListByResourceGroupResponder client resp = (first, None)"
  shows "ListByResourceGroupComplete client resourceGroupName =
           (\<lparr>iter_i = 0,
             iter_page = \<lparr>page_fn = listByResourceGroupNextResults client, page_vl = first\<rparr>\<rparr>,
            None, [Prepared, Sent req, Responded resp])"
  using assms by (simp add: ListByResourceGroupComplete_def ListByResourceGroup_def Let_def)

lemma takeWhile_all: "list_all P xs \<Longrightarrow> takeWhile P xs = xs"
  by (induction xs) auto

text \<open>
  Claim C6. \<^verbatim>\<open>listByResourceGroupNextResults\<close> sends a request exactly when the list it
  is given yields a next request (a non-nil request and no error); when the next request
  is nil it returns the empty list and a nil error, having sent nothing. When the first
  request is prepared, sent and answered without error, \<^verbatim>\<open>ListByResourceGroupComplete\<close>
  returns the iterator at the first value of the list answered, with that function to
  fetch further lists. On a client that serves the lists after the first one by their
  next links, the last of them naming no next link, reading that iterator to its end
  stops without error; it yields, in order, the values of the lists before the first
  list that has no values, with one request per list read, none after the last list
  served. So it yields every value of every list, with one request per list after the
  first, when every list served has values; the values behind a list that has none and
  names a next link are not read.
\<close>

theorem C6_paging:
  "((\<exists>req. Sent req \<in> set (snd (snd (listByResourceGroupNextResults client lastResults))))
      \<longleftrightarrow> (\<exists>rq. vaultListPreparer client lastResults = (Some rq, None)))
   \<and> (vaultListPreparer client lastResults = (None, None) \<longrightarrow>
        listByResourceGroupNextResults client lastResults = (zero_VaultList, None, [Prepared]))
   \<and> (ListByResourceGroupPreparer client resourceGroupName = (req, None)
        \<and> ListByResourceGroupSender client req = (resp, None)
        \<and> ListByResourceGroupResponder client resp = (first, None)
        \<and> serves client first rest
        \<and> length (concat (map values_of (first # rest))) < fuel \<longrightarrow>
        ListByResourceGroupComplete client resourceGroupName =
          (\<lparr>iter_i = 0,
            iter_page = \<lparr>page_fn = listByResourceGroupNextResults client, page_vl = first\<rparr>\<rparr>,
           None, [Prepared, Sent req, Responded resp])
        \<and> (\<exists>stages.
              enumerate_values fuel (fst (ListByResourceGroupComplete client resourceGroupName))
                = Some (concat (map values_of (takeWhile (\<lambda>l. \<not> IsEmpty l) (first # rest))),
                        None, stages)
              \<and> sends stages
                  = min (length (takeWhile (\<lambda>l. \<not> IsEmpty l) (first # rest))) (length rest))
        \<and> (list_all (\<lambda>l. \<not> IsEmpty l) (first # rest) \<longrightarrow>
             (\<exists>stages.
                enumerate_values fuel (fst (ListByResourceGroupComplete client resourceGroupName))
                  = Some (concat (map values_of (first # rest)), None, stages)
                \<and> sends stages = length rest)))"
proof (intro conjI impI)
  show "(\<exists>req. Sent req \<in> set (snd (snd (listByResourceGroupNextResults client lastResults))))
      \<longleftrightarrow> (\<exists>rq. vaultListPreparer client lastResults = (Some rq, None))"
    by (rule next_results_sends_iff)
  show "listByResourceGroupNextResults client lastResults = (zero_VaultList, None, [Prepared])"
    if "vaultListPreparer client lastResults = (None, None)"
    using that by (rule next_results_without_link)
  assume h: "ListByResourceGroupPreparer client resourceGroupName = (req, None)
        \<and> ListByResourceGroupSender client req = (resp, None)
        \<and> ListByResourceGroupResponder client resp = (first, None)
        \<and> serves client first rest
        \<and> length (concat (map values_of (first # rest))) < fuel"
  then show first: "ListByResourceGroupComplete client resourceGroupName =
          (\<lparr>iter_i = 0,
            iter_page = \<lparr>page_fn = listByResourceGroupNextResults client, page_vl = first\<rparr>\<rparr>,
           None, [Prepared, Sent req, Responded resp])"
    by (simp add: complete_first_page)
  from h have srv: "serves client first rest"
    and fuel: "length (concat (map values_of (first # rest))) < fuel" by simp_all
  from enumerate_serves[OF srv fuel]
  show shown: "\<exists>stages.
              enumerate_values fuel (fst (ListByResourceGroupComplete client resourceGroupName))
                = Some (concat (map values_of (takeWhile (\<lambda>l. \<not> IsEmpty l) (first # rest))),
                        None, stages)
              \<and> sends stages
                  = min (length (takeWhile (\<lambda>l. \<not> IsEmpty l) (first # rest))) (length rest)"
    unfolding first by simp
  assume "list_all (\<lambda>l. \<not> IsEmpty l) (first # rest)"
  then have "takeWhile (\<lambda>l. \<not> IsEmpty l) (first # rest) = first # rest"
    by (rule takeWhile_all)
  with shown show "\<exists>stages.
                enumerate_values fuel (fst (ListByResourceGroupComplete client resourceGroupName))
                  = Some (concat (map values_of (first # rest)), None, stages)
                \<and> sends stages = length rest"
    by simp
qed

text \<open>The first request, its answer and the lists of the sample service with three lists.\<close>

lemma paged_first_request:
  "ListByResourceGroupPreparer (paged_vaults_client middle) ''rg1'' =
     (Some \<lparr>Method = ''GET'', ContentType = None,
            BaseURL = ''https://management.azure.com'',
            PathTemplate = ''/subscriptions/{subscriptionId}/resourceGroups/{resourceGroupName}/providers/Microsoft.RecoveryServices/vaults'',
            PathParameters = [(''resourceGroupName'', ''rg1''), (''subscriptionId'', ''s1'')],
            QueryParameters = [(''api-version'', ''2016-06-01'')],
            Body = None\<rparr>, None)"
  unfolding ListByResourceGroupPreparer_def Prepare_def
  by (simp add: ListByResourceGroup_decorators_def APIVersion_def empty_request_def
        paged_vaults_client_def sample_vaults_client_def)

lemma paged_first_answer:
  "ListByResourceGroupSender (paged_vaults_client middle)
     (fst (ListByResourceGroupPreparer (paged_vaults_client middle) ''rg1''))
     = (answer_to ''https://management.azure.com'', None)"
  unfolding paged_first_request
  by (simp add: ListByResourceGroupSender_def paged_vaults_client_def sample_vaults_client_def)

lemma paged_first_list:
  "ListByResourceGroupResponder (paged_vaults_client middle)
     (answer_to ''https://management.azure.com'') = (first_list, None)"
  by (simp add: ListByResourceGroupResponder_def paged_vaults_client_def
        sample_vaults_client_def answer_to_def first_list_def)

lemma paged_serves:
  "serves (paged_vaults_client middle) first_list [second_list middle, third_list]"
  by (simp add: first_list_def second_list_def third_list_def paged_vaults_client_def
        sample_vaults_client_def answer_to_def no_next_link_def empty_request_def StatusOK_def)

text \<open>
  The theorem on the sample service with three lists. With an empty second list the
  reading ends there: two vaults, one further request. With a vault in the second list
  all four vaults are read, with two further requests.
\<close>

theorem C6_paging_witness:
  "map_option (\<lambda>res. (fst res, fst (snd res), sends (snd (snd res))))
     (enumerate_values 4 (fst (ListByResourceGroupComplete (paged_vaults_client []) ''rg1'')))
     = Some ([vault_named ''a'', vault_named ''b''], None, 1)
   \<and> map_option (\<lambda>res. (fst res, fst (snd res), sends (snd (snd res))))
     (enumerate_values 5
        (fst (ListByResourceGroupComplete (paged_vaults_client [vault_named ''c'']) ''rg1'')))
     = Some ([vault_named ''a'', vault_named ''b'', vault_named ''c'', vault_named ''d''], None, 2)"
proof -
  have req: "ListByResourceGroupPreparer (paged_vaults_client middle) ''rg1''
               = (fst (ListByResourceGroupPreparer (paged_vaults_client middle) ''rg1''), None)"
    for middle by (simp add: paged_first_request)
  have len0: "length (concat (map values_of [first_list, second_list [], third_list])) < 4"
    by (simp add: values_of_def first_list_def second_list_def third_list_def)
  have len1: "length (concat (map values_of
                [first_list, second_list [vault_named ''c''], third_list])) < 5"
    by (simp add: values_of_def first_list_def second_list_def third_list_def)
  from C6_paging
         [where client = "paged_vaults_client []" and resourceGroupName = "''rg1''"
            and req = "fst (ListByResourceGroupPreparer (paged_vaults_client []) ''rg1'')"
            and resp = "answer_to ''https://management.azure.com''"
            and first = first_list and rest = "[second_list [], third_list]" and fuel = 4,
          THEN conjunct2, THEN conjunct2]
       req paged_first_answer paged_first_list paged_serves len0
  obtain st0 where e0:
    "enumerate_values 4 (fst (ListByResourceGroupComplete (paged_vaults_client []) ''rg1''))
       = Some (concat (map values_of
                 (takeWhile (\<lambda>l. \<not> IsEmpty l) [first_list, second_list [], third_list])),
               None, st0)"
    and s0: "sends st0
       = min (length (takeWhile (\<lambda>l. \<not> IsEmpty l) [first_list, second_list [], third_list])) 2"
    by auto
  from C6_paging
         [where client = "paged_vaults_client [vault_named ''c'']"
            and resourceGroupName = "''rg1''"
            and req = "fst (ListByResourceGroupPreparer
                              (paged_vaults_client [vault_named ''c'']) ''rg1'')"
            and resp = "answer_to ''https://management.azure.com''"
            and first = first_list and rest = "[second_list [vault_named ''c''], third_list]"
            and fuel = 5,
          THEN conjunct2, THEN conjunct2]
       req paged_first_answer paged_first_list paged_serves len1
  obtain st1 where e1:
    "enumerate_values 5
       (fst (ListByResourceGroupComplete (paged_vaults_client [vault_named ''c'']) ''rg1''))
       = Some (concat (map values_of
                 [first_list, second_list [vault_named ''c''], third_list]), None, st1)"
    and s1: "sends st1 = 2"
    by (auto simp: IsEmpty_def first_list_def second_list_def third_list_def)
  have t0: "takeWhile (\<lambda>l. \<not> IsEmpty l) [first_list, second_list [], third_list] = [first_list]"
    by (simp add: IsEmpty_def first_list_def second_list_def)
  from s0 have s0': "sends st0 = 1" unfolding t0 by simp
  show ?thesis
    unfolding e0 e1 t0
    using s0' s1
    by (simp add: values_of_def first_list_def second_list_def third_list_def)
qed

text \<open>The same reading, step by step, on the service with an empty second list.\<close>

lemma paged_complete:
  "fst (ListByResourceGroupComplete (paged_vaults_client middle) ''rg1'') =
     \<lparr>iter_i = 0,
      iter_page = \<lparr>page_fn = listByResourceGroupNextResults (paged_vaults_client middle),
                   page_vl = first_list\<rparr>\<rparr>"
  by (simp add: complete_first_page[OF _ paged_first_answer paged_first_list] paged_first_request)

lemma paged_second:
  "listByResourceGroupNextResults (paged_vaults_client middle) first_list =
     (second_list middle, None,
      [Prepared,
       Sent (Some (foldl decorate empty_request
                     [AsJSON, AsGet, WithBaseURL ''https://management.azure.com/2''])),
       Responded (answer_to ''https://management.azure.com/2'')])"
  by (simp add: listByResourceGroupNextResults_def vaultListPreparer_def Prepare_def
        ListByResourceGroupSender_def ListByResourceGroupResponder_def first_list_def
        second_list_def paged_vaults_client_def sample_vaults_client_def answer_to_def
        empty_request_def)

text \<open>
  On the service whose second list is empty and names the third, reading the iterator of
  \<^verbatim>\<open>ListByResourceGroupComplete\<close> yields the two vaults of the first list and ends after the
  request for the second list; the vault of the third list, which the service serves by
  the next link of the second, is not among them.
\<close>

theorem C6_paging_counterexample:
  "enumerate_values 4 (fst (ListByResourceGroupComplete (paged_vaults_client []) ''rg1''))
     = Some ([vault_named ''a'', vault_named ''b''], None,
             [Prepared,
              Sent (Some (foldl decorate empty_request
                            [AsJSON, AsGet, WithBaseURL ''https://management.azure.com/2''])),
              Responded (answer_to ''https://management.azure.com/2'')])
   \<and> serves (paged_vaults_client []) first_list [second_list [], third_list]
   \<and> concat (map values_of [first_list, second_list [], third_list])
       = [vault_named ''a'', vault_named ''b'', vault_named ''d'']"
proof (intro conjI)
  have one: "enumerate_values 4
               \<lparr>iter_i = 0,
                iter_page = \<lparr>page_fn = listByResourceGroupNextResults (paged_vaults_client []),
                             page_vl = first_list\<rparr>\<rparr>
             = (case enumerate_values 3
                      \<lparr>iter_i = 1,
                       iter_page = \<lparr>page_fn = listByResourceGroupNextResults (paged_vaults_client []),
                                    page_vl = first_list\<rparr>\<rparr> of
                  None \<Rightarrow> None
                | Some (vs, err, st) \<Rightarrow> Some (vault_named ''a'' # vs, err, st))"
    by (simp add: numeral_eq_Suc iter_NotDone_def page_NotDone_def page_Values_def IsEmpty_def
          iter_NextWithContext_def iter_Value_def values_of_def first_list_def
          split: option.splits prod.splits)
  have two: "enumerate_values 3
               \<lparr>iter_i = 1,
                iter_page = \<lparr>page_fn = listByResourceGroupNextResults (paged_vaults_client []),
                             page_vl = first_list\<rparr>\<rparr>
             = Some ([vault_named ''b''], None,
                  [Prepared,
                   Sent (Some (foldl decorate empty_request
                                 [AsJSON, AsGet, WithBaseURL ''https://management.azure.com/2''])),
                   Responded (answer_to ''https://management.azure.com/2'')])"
    by (simp add: numeral_eq_Suc iter_NotDone_def page_NotDone_def page_Values_def IsEmpty_def
          iter_NextWithContext_def page_NextWithContext_def iter_Value_def values_of_def
          paged_second)
       (simp add: first_list_def second_list_def)
  show "enumerate_values 4 (fst (ListByResourceGroupComplete (paged_vaults_client []) ''rg1''))
     = Some ([vault_named ''a'', vault_named ''b''], None,
             [Prepared,
              Sent (Some (foldl decorate empty_request
                            [AsJSON, AsGet, WithBaseURL ''https://management.azure.com/2''])),
              Responded (answer_to ''https://management.azure.com/2'')])"
    unfolding paged_complete one two by simp
  show "serves (paged_vaults_client []) first_list [second_list [], third_list]"
    by (rule paged_serves)
  show "concat (map values_of [first_list, second_list [], third_list])
       = [vault_named ''a'', vault_named ''b'', vault_named ''d'']"
    by (simp add: values_of_def first_list_def second_list_def third_list_def)
qed

section \<open>Properties: the resource ID parsers\<close>

text \<open>What each parser returns, and what a parsed ID tells about the helpers' results.\<close>

lemma LogAnalyticsWorkspaceID_result:
  "\<not> (fst (LogAnalyticsWorkspaceID az input) = None
        \<and> snd (LogAnalyticsWorkspaceID az input) = None)
   \<and> (fst (LogAnalyticsWorkspaceID az input) = Some wid \<longrightarrow>
        snd (LogAnalyticsWorkspaceID az input) = None
        \<and> (\<exists>rid. ParseAzureResourceID az input = Inr rid
              \<and> snd (fst (PopSegment az rid ''workspaces'')) = None
              \<and> ValidateNoEmptySegments az (snd (PopSegment az rid ''workspaces'')) input = None
              \<and> wid = \<lparr>law_ResourceGroup = rid_ResourceGroup rid,
                        law_Name = fst (fst (PopSegment az rid ''workspaces''))\<rparr>))"
  by (auto simp: LogAnalyticsWorkspaceID_def Let_def split: sum.splits option.splits)

lemma NamespaceAuthorizationRuleID_result:
  "\<not> (fst (NamespaceAuthorizationRuleID az input) = None
        \<and> snd (NamespaceAuthorizationRuleID az input) = None)
   \<and> (fst (NamespaceAuthorizationRuleID az input) = Some nid \<longrightarrow>
        snd (NamespaceAuthorizationRuleID az input) = None
        \<and> (\<exists>rid. ParseAzureResourceID az input = Inr rid
              \<and> snd (fst (PopSegment az rid ''namespaces'')) = None
              \<and> snd (fst (PopSegment az (snd (PopSegment az rid ''namespaces''))
                             ''AuthorizationRules'')) = None
              \<and> ValidateNoEmptySegments az
                    (snd (PopSegment az (snd (PopSegment az rid ''namespaces''))
                            ''AuthorizationRules'')) input = None
              \<and> nid = \<lparr>nar_ResourceGroup = rid_ResourceGroup rid,
                        nar_NamespaceName = fst (fst (PopSegment az rid ''namespaces'')),
                        nar_Name = fst (fst (PopSegment az (snd (PopSegment az rid ''namespaces''))
                                               ''AuthorizationRules''))\<rparr>))"
  by (auto simp: NamespaceAuthorizationRuleID_def Let_def split: sum.splits option.splits)

text \<open>
  Claim C9. For every input, and whatever the three helpers do, each of the parsers
  \<^verbatim>\<open>LogAnalyticsWorkspaceID\<close> and \<^verbatim>\<open>NamespaceAuthorizationRuleID\<close> returns an error or an ID,
  never two nils. Whenever it returns an ID it returns no error, the input has parsed as
  an Azure resource ID, every segment the parser asks for (\<^verbatim>\<open>workspaces\<close>; \<^verbatim>\<open>namespaces\<close>
  and then \<^verbatim>\<open>AuthorizationRules\<close>) has been popped without error, the ID left after the
  pops has passed \<^verbatim>\<open>ValidateNoEmptySegments\<close>, and the ID returned holds the resource
  group and the popped values.
\<close>

theorem C9_id_parsers:
  "(\<not> (fst (LogAnalyticsWorkspaceID az input) = None
        \<and> snd (LogAnalyticsWorkspaceID az input) = None)
   \<and> (fst (LogAnalyticsWorkspaceID az input) = Some wid \<longrightarrow>
        snd (LogAnalyticsWorkspaceID az input) = None
        \<and> (\<exists>rid. ParseAzureResourceID az input = Inr rid
              \<and> snd (fst (PopSegment az rid ''workspaces'')) = None
              \<and> ValidateNoEmptySegments az (snd (PopSegment az rid ''workspaces'')) input = None
              \<and> wid = \<lparr>law_ResourceGroup = rid_ResourceGroup rid,
                        law_Name = fst (fst (PopSegment az rid ''workspaces''))\<rparr>)))
   \<and> (\<not> (fst (NamespaceAuthorizationRuleID az input) = None
        \<and> snd (NamespaceAuthorizationRuleID az input) = None)
   \<and> (fst (NamespaceAuthorizationRuleID az input) = Some nid \<longrightarrow>
        snd (NamespaceAuthorizationRuleID az input) = None
        \<and> (\<exists>rid. ParseAzureResourceID az input = Inr rid
              \<and> snd (fst (PopSegment az rid ''namespaces'')) = None
              \<and> snd (fst (PopSegment az (snd (PopSegment az rid ''namespaces''))
                             ''AuthorizationRules'')) = None
              \<and> ValidateNoEmptySegments az
                    (snd (PopSegment az (snd (PopSegment az rid ''namespaces''))
                            ''AuthorizationRules'')) input = None
              \<and> nid = \<lparr>nar_ResourceGroup = rid_ResourceGroup rid,
                        nar_NamespaceName = fst (fst (PopSegment az rid ''namespaces'')),
                        nar_Name = fst (fst (PopSegment az (snd (PopSegment az rid ''namespaces''))
                                               ''AuthorizationRules''))\<rparr>)))"
  using LogAnalyticsWorkspaceID_result[of az input wid]
        NamespaceAuthorizationRuleID_result[of az input nid]
  by (rule conjI)

text \<open>The sample helpers parse the two sample IDs.\<close>

lemmas azure_helper_defs =
  sample_azure_helpers_def sample_ParseAzureResourceID_def sample_PopSegment_def
  sample_ValidateNoEmptySegments_def sample_workspace_id_def sample_rule_id_def

lemma sample_workspace_parses:
  "fst (LogAnalyticsWorkspaceID sample_azure_helpers sample_workspace_id)
     = Some \<lparr>law_ResourceGroup = ''rg1'', law_Name = ''ws1''\<rparr>"
  by (simp add: LogAnalyticsWorkspaceID_def azure_helper_defs Let_def)

lemma sample_rule_parses:
  "fst (NamespaceAuthorizationRuleID sample_azure_helpers sample_rule_id)
     = Some \<lparr>nar_ResourceGroup = ''rg1'', nar_NamespaceName = ''ns1'', nar_Name = ''rule1''\<rparr>"
  by (simp add: NamespaceAuthorizationRuleID_def azure_helper_defs Let_def)

text \<open>
  The theorem on the sample helpers: the workspace ID and the rule ID parse, and the
  workspace ID, which has no \<^verbatim>\<open>namespaces\<close> segment, is refused as a rule ID.
\<close>

theorem C9_id_parsers_witness:
  "fst (LogAnalyticsWorkspaceID sample_azure_helpers sample_workspace_id)
     = Some \<lparr>law_ResourceGroup = ''rg1'', law_Name = ''ws1''\<rparr>
   \<and> snd (LogAnalyticsWorkspaceID sample_azure_helpers sample_workspace_id) = None
   \<and> fst (NamespaceAuthorizationRuleID sample_azure_helpers sample_rule_id)
     = Some \<lparr>nar_ResourceGroup = ''rg1'', nar_NamespaceName = ''ns1'', nar_Name = ''rule1''\<rparr>
   \<and> snd (NamespaceAuthorizationRuleID sample_azure_helpers sample_rule_id) = None
   \<and> fst (NamespaceAuthorizationRuleID sample_azure_helpers sample_workspace_id) = None
   \<and> snd (NamespaceAuthorizationRuleID sample_azure_helpers sample_workspace_id) \<noteq> None"
proof -
  from C9_id_parsers
         [where az = sample_azure_helpers and input = sample_workspace_id
            and wid = "\<lparr>law_ResourceGroup = ''rg1'', law_Name = ''ws1''\<rparr>"
            and nid = "\<lparr>nar_ResourceGroup = ''rg1'', nar_NamespaceName = ''ns1'',
                       nar_Name = ''rule1''\<rparr>"]
       sample_workspace_parses
  have w: "snd (LogAnalyticsWorkspaceID sample_azure_helpers sample_workspace_id) = None"
    by simp
  from C9_id_parsers
         [where az = sample_azure_helpers and input = sample_rule_id
            and wid = "\<lparr>law_ResourceGroup = ''rg1'', law_Name = ''ws1''\<rparr>"
            and nid = "\<lparr>nar_ResourceGroup = ''rg1'', nar_NamespaceName = ''ns1'',
                       nar_Name = ''rule1''\<rparr>"]
       sample_rule_parses
  have r: "snd (NamespaceAuthorizationRuleID sample_azure_helpers sample_rule_id) = None"
    by simp
  have n: "fst (NamespaceAuthorizationRuleID sample_azure_helpers sample_workspace_id) = None"
    by (simp add: NamespaceAuthorizationRuleID_def azure_helper_defs Let_def)
  from C9_id_parsers
         [where az = sample_azure_helpers and input = sample_workspace_id
            and wid = "\<lparr>law_ResourceGroup = ''rg1'', law_Name = ''ws1''\<rparr>"
            and nid = "\<lparr>nar_ResourceGroup = ''rg1'', nar_NamespaceName = ''ns1'',
                       nar_Name = ''rule1''\<rparr>"] n
  have e: "snd (NamespaceAuthorizationRuleID sample_azure_helpers sample_workspace_id) \<noteq> None"
    by simp
  from sample_workspace_parses w sample_rule_parses r n e show ?thesis by simp
qed

end
